theory Spec2Isabelle
  imports Main "HOL-Library.AList"
begin

section \<open>The Puzzlemaker item format: parser and writer of editoritems.py\<close>

text \<open>
  The development embeds \<^verbatim>\<open>src/src/editoritems.py\<close>: the enumerations, the
  coordinate records, the bounding-box decomposition and the block parser. Strings are
  byte strings; the Python string operations are modelled on ASCII text.
\<close>

subsection \<open>Python string primitives\<close>

text \<open>\<^verbatim>\<open>str.isspace\<close> on ASCII: tab, newline, vertical tab, form feed, carriage
  return, the four separators 0x1c..0x1f and the space.\<close>

definition is_space :: "char \<Rightarrow> bool" where
  "is_space c = (let n = (of_char c :: nat) in (9 \<le> n \<and> n \<le> 13) \<or> (28 \<le> n \<and> n \<le> 32))"

text \<open>\<^verbatim>\<open>str.upper\<close>, and \<^verbatim>\<open>str.casefold\<close> (lower case on ASCII).\<close>

definition upper_char :: "char \<Rightarrow> char" where
  "upper_char c = (let n = (of_char c :: nat) in if 97 \<le> n \<and> n \<le> 122 then char_of (n - 32) else c)"

definition lower_char :: "char \<Rightarrow> char" where
  "lower_char c = (let n = (of_char c :: nat) in if 65 \<le> n \<and> n \<le> 90 then char_of (n + 32) else c)"

definition upper :: "string \<Rightarrow> string" where
  "upper s = map upper_char s"

definition casefold :: "string \<Rightarrow> string" where
  "casefold s = map lower_char s"

text \<open>\<^verbatim>\<open>str.split()\<close> with no argument: the maximal runs of non-space characters.
  The second argument is the word being collected, reversed.\<close>

fun split_acc :: "string \<Rightarrow> string \<Rightarrow> string list" where
  "split_acc [] w = (if w = [] then [] else [rev w])"
| "split_acc (c # cs) w =
     (if is_space c then (if w = [] then split_acc cs [] else rev w # split_acc cs [])
      else split_acc cs (c # w))"

definition split :: "string \<Rightarrow> string list" where
  "split s = split_acc s []"

text \<open>\<^verbatim>\<open>str.strip()\<close>.\<close>

definition strip :: "string \<Rightarrow> string" where
  "strip s = rev (dropWhile is_space (rev (dropWhile is_space s)))"

text \<open>\<^verbatim>\<open>int(s)\<close> in base 10: surrounding white space, an optional sign, then
  digits, where single underscores may separate digits. \<open>None\<close> is Python's
  \<^verbatim>\<open>ValueError\<close>.\<close>

definition digit_of :: "char \<Rightarrow> nat option" where
  "digit_of c = (let n = (of_char c :: nat) in if 48 \<le> n \<and> n \<le> 57 then Some (n - 48) else None)"

fun py_digits :: "string \<Rightarrow> nat \<Rightarrow> nat option" where
  "py_digits [] acc = Some acc"
| "py_digits (c # cs) acc =
     (if c = CHR ''_'' then
        (case cs of
           [] \<Rightarrow> None
         | d # ds \<Rightarrow> (case digit_of d of None \<Rightarrow> None | Some v \<Rightarrow> py_digits ds (acc * 10 + v)))
      else (case digit_of c of None \<Rightarrow> None | Some v \<Rightarrow> py_digits cs (acc * 10 + v)))"

definition py_nat :: "string \<Rightarrow> nat option" where
  "py_nat s =
     (case s of
        [] \<Rightarrow> None
      | c # cs \<Rightarrow> (case digit_of c of None \<Rightarrow> None | Some v \<Rightarrow> py_digits cs v))"

definition py_int :: "string \<Rightarrow> int option" where
  "py_int s =
     (case strip s of
        [] \<Rightarrow> None
      | c # cs \<Rightarrow>
          if c = CHR ''-'' then map_option (\<lambda>n. - int n) (py_nat cs)
          else if c = CHR ''+'' then map_option int (py_nat cs)
          else map_option int (py_nat (c # cs)))"

text \<open>\<^verbatim>\<open>str(n)\<close> for an integer, as the f-strings of the writer print it.\<close>

fun nat_digits :: "nat \<Rightarrow> string" where
  "nat_digits n =
     (if n < 10 then [char_of (48 + n)] else nat_digits (n div 10) @ [char_of (48 + n mod 10)])"

definition py_str :: "int \<Rightarrow> string" where
  "py_str i = (if i < 0 then CHR ''-'' # nat_digits (nat (- i)) else nat_digits (nat i))"

subsection \<open>Errors\<close>

text \<open>
  \<open>TokError fmt args\<close> is the exception built by \<^verbatim>\<open>tok.error(fmt, *args)\<close>,
  the fatal parse error; the format string is kept unexpanded beside its arguments.
  The other constructors are the Python exceptions that the parser lets escape.
\<close>

datatype error =
    TokError string "string list"
  | KeyError string
  | IndexError
  | ValueError string
  | StopIteration

subsection \<open>Coordinates and connection sides\<close>

text \<open>\<^verbatim>\<open>Coord\<close> is a named tuple of three integers; its fields \<^verbatim>\<open>x\<close>, \<^verbatim>\<open>y\<close>,
  \<^verbatim>\<open>z\<close> are the selectors \<open>cx\<close>, \<open>cy\<close>, \<open>cz\<close>.\<close>

datatype Coord = Coord (cx: int) (cy: int) (cz: int)

datatype ConnSide = LEFT | RIGHT | UP | DOWN

text \<open>The value of each member of the enumeration.\<close>

fun ConnSide_value :: "ConnSide \<Rightarrow> Coord" where
  "ConnSide_value LEFT = Coord 1 0 0"
| "ConnSide_value RIGHT = Coord (- 1) 0 0"
| "ConnSide_value UP = Coord 0 1 0"
| "ConnSide_value DOWN = Coord 0 (- 1) 0"

text \<open>\<^verbatim>\<open>cls[name]\<close>: lookup of a member by its name.\<close>

definition ConnSide_by_name :: "string \<Rightarrow> ConnSide option" where
  "ConnSide_by_name n =
     (if n = ''LEFT'' then Some LEFT
      else if n = ''RIGHT'' then Some RIGHT
      else if n = ''UP'' then Some UP
      else if n = ''DOWN'' then Some DOWN
      else None)"

text \<open>\<^verbatim>\<open>ConnSide.parse(value, error_func)\<close>, with \<open>error_func = tok.error\<close>.\<close>

definition ConnSide_parse :: "string \<Rightarrow> error + ConnSide" where
  "ConnSide_parse value =
     (case ConnSide_by_name (upper value) of
        Some side \<Rightarrow> Inr side
      | None \<Rightarrow>
         (case split value of
            [a, b, c] \<Rightarrow>
              (case (py_int a, py_int b, py_int c) of
                 (Some x, Some y, Some z) \<Rightarrow>
                   if z \<noteq> 0 then Inl (TokError ''Connection side must be flat!'' [])
                   else if x = 0 \<and> y = 1 then Inr UP
                   else if x = 0 \<and> y = - 1 then Inr DOWN
                   else if x \<noteq> 0 \<and> y = 0 \<and> x = 1 then Inr LEFT
                   else if x \<noteq> 0 \<and> y = 0 \<and> x = - 1 then Inr RIGHT
                   else Inl (TokError ''Unknown connection side ({}, {}, 0)'' [py_str x, py_str y])
               | _ \<Rightarrow> Inl (TokError ''Invalid connection side!'' []))
          | _ \<Rightarrow> Inl (TokError ''Incorrect number of points for a direction!'' [])))"

text \<open>The text of the \<^verbatim>\<open>"Dir"\<close> value that \<^verbatim>\<open>Item.export_one\<close> writes for a side.\<close>

definition dir_text :: "ConnSide \<Rightarrow> string" where
  "dir_text side =
     py_str (cx (ConnSide_value side)) @ '' '' @ py_str (cy (ConnSide_value side)) @ '' ''
       @ py_str (cz (ConnSide_value side))"

subsection \<open>Bounding-box decomposition\<close>

text \<open>\<^verbatim>\<open>range(a, b)\<close> and \<^verbatim>\<open>range(a, b, -1)\<close>.\<close>

definition py_range :: "int \<Rightarrow> int \<Rightarrow> int list" where
  "py_range a b = [a..b - 1]"

definition py_range_down :: "int \<Rightarrow> int \<Rightarrow> int list" where
  "py_range_down a b = rev [b + 1..a]"

text \<open>
  The six probe loops of \<^verbatim>\<open>bounding_boxes\<close> have one shape,
  \<^verbatim>\<open>for v in range(...): if test(v): bound = v else: break\<close>:
  \<open>scan test vs bound\<close> runs it over the values \<open>vs\<close> of the range.
\<close>

fun scan :: "(int \<Rightarrow> bool) \<Rightarrow> int list \<Rightarrow> int \<Rightarrow> int" where
  "scan test [] bound = bound"
| "scan test (v # vs) bound = (if test v then scan test vs v else bound)"

definition EXTENT :: int where
  "EXTENT = 50"

text \<open>
  One iteration of the \<^verbatim>\<open>while todo:\<close> loop after \<^verbatim>\<open>todo.pop()\<close> has returned
  \<open>p\<close>: \<open>todo\<close> is the set without \<open>p\<close>, and the result is the pair of corners
  that the iteration yields. The set \<^verbatim>\<open>todo\<close> is represented by a list without
  duplicates.
\<close>

definition grow_box :: "Coord list \<Rightarrow> Coord \<Rightarrow> Coord \<times> Coord" where
  "grow_box todo p =
     (let x1 = cx p; y1 = cy p; z1 = cz p;
          x2 = x1; y2 = y1; z2 = z1;
          x2 = scan (\<lambda>x. Coord x y1 z1 \<in> set todo) (py_range (x1 + 1) (x1 + EXTENT)) x2;
          x1 = scan (\<lambda>x. Coord x y1 z1 \<in> set todo) (py_range_down (x1 - 1) (x1 - EXTENT)) x1;
          y2 = scan (\<lambda>y. \<forall>x\<in>set (py_range x1 (x2 + 1)). Coord x y z1 \<in> set todo)
                 (py_range (y1 + 1) (y1 + EXTENT)) y2;
          y1 = scan (\<lambda>y. \<forall>x\<in>set (py_range x1 (x2 + 1)). Coord x y z1 \<in> set todo)
                 (py_range_down (y1 - 1) (y1 - EXTENT)) y1;
          z2 = scan (\<lambda>z. \<forall>x\<in>set (py_range x1 (x2 + 1)). \<forall>y\<in>set (py_range y1 (y2 + 1)).
                        Coord x y z \<in> set todo)
                 (py_range (z1 + 1) (z1 + EXTENT)) z2;
          z1 = scan (\<lambda>z. \<forall>x\<in>set (py_range x1 (x2 + 1)). \<forall>y\<in>set (py_range y1 (y2 + 1)).
                        Coord x y z \<in> set todo)
                 (py_range_down (z1 - 1) (z1 - EXTENT)) z1
      in (Coord x1 y1 z1, Coord x2 y2 z2))"

text \<open>The coordinates visited by the three nested loops that discard a finished box.\<close>

definition box_coords :: "Coord \<Rightarrow> Coord \<Rightarrow> Coord list" where
  "box_coords c1 c2 =
     concat (map (\<lambda>x. concat (map (\<lambda>y. map (\<lambda>z. Coord x y z) (py_range (cz c1) (cz c2 + 1)))
                                     (py_range (cy c1) (cy c2 + 1))))
                 (py_range (cx c1) (cx c2 + 1)))"

text \<open>
  The loop itself. \<^verbatim>\<open>set.pop()\<close> removes an arbitrary element: the strategy
  \<open>pop\<close> chooses its position among the elements still to do, so that every order of
  removal is covered by some \<open>pop\<close>. The result lists the pairs in the order in which
  the generator yields them.
\<close>

function bounding_boxes_loop :: "(Coord list \<Rightarrow> nat) \<Rightarrow> Coord list \<Rightarrow> (Coord \<times> Coord) list" where
  "bounding_boxes_loop pop todo =
     (if todo = [] then []
      else
        let p = todo ! (pop todo mod length todo);
            todo1 = removeAll p todo;
            box = grow_box todo1 p;
            todo2 = filter (\<lambda>c. c \<notin> set (box_coords (fst box) (snd box))) todo1
        in box # bounding_boxes_loop pop todo2)"
  by pat_completeness auto

lemma bounding_boxes_loop_smaller:
  "todo \<noteq> [] \<Longrightarrow> length (filter P (removeAll (todo ! (n mod length todo)) todo)) < length todo"
proof -
  assume "todo \<noteq> []"
  then have "todo ! (n mod length todo) \<in> set todo" by simp
  then have "length (removeAll (todo ! (n mod length todo)) todo) < length todo"
    by (rule length_removeAll_less)
  moreover have "length (filter P (removeAll (todo ! (n mod length todo)) todo))
      \<le> length (removeAll (todo ! (n mod length todo)) todo)"
    by (rule length_filter_le)
  ultimately show ?thesis by linarith
qed

termination bounding_boxes_loop
  by (relation "measure (\<lambda>(pop, todo). length todo)") (simp_all add: bounding_boxes_loop_smaller)

declare bounding_boxes_loop.simps [simp del]

definition bounding_boxes :: "(Coord list \<Rightarrow> nat) \<Rightarrow> Coord list \<Rightarrow> (Coord \<times> Coord) list" where
  "bounding_boxes pop voxels = bounding_boxes_loop pop (remdups voxels)"

text \<open>The lattice points enclosed by a pair of corners.\<close>

definition enclosed :: "Coord \<Rightarrow> Coord \<Rightarrow> Coord set" where
  "enclosed c1 c2 =
     {c. cx c1 \<le> cx c \<and> cx c \<le> cx c2 \<and> cy c1 \<le> cy c \<and> cy c \<le> cy c2 \<and> cz c1 \<le> cz c \<and> cz c \<le> cz c2}"

subsection \<open>The token stream\<close>

text \<open>
  Modelled from the spec: the tokenizer (\<^verbatim>\<open>srctools.tokenizer\<close>) is a library outside
  the repository. It hands the parser a sequence of tokens of the kinds \<^verbatim>\<open>STRING\<close>,
  \<^verbatim>\<open>BRACE_OPEN\<close>, \<^verbatim>\<open>BRACE_CLOSE\<close>, \<^verbatim>\<open>NEWLINE\<close> and, at the end,
  \<^verbatim>\<open>EOF\<close>. The parser state is the list of tokens not yet consumed; the empty list is
  the tokenizer at \<^verbatim>\<open>EOF\<close>.
\<close>

datatype token = STRING string | BRACE_OPEN | BRACE_CLOSE | NEWLINE

fun token_name :: "token \<Rightarrow> string" where
  "token_name (STRING s) = ''STRING''"
| "token_name BRACE_OPEN = ''BRACE_OPEN''"
| "token_name BRACE_CLOSE = ''BRACE_CLOSE''"
| "token_name NEWLINE = ''NEWLINE''"

text \<open>\<^verbatim>\<open>tok.error(token)\<close>, the error for a token of an unexpected kind.\<close>

definition unexpected :: "token \<Rightarrow> error" where
  "unexpected t = TokError ''Unexpected token {}!'' [token_name t]"

text \<open>
  Modelled from the spec: \<^verbatim>\<open>tok.expect(Token.STRING)\<close> and
  \<^verbatim>\<open>tok.expect(Token.BRACE_OPEN)\<close> skip newlines, consume the next token, and fail
  when it is not of the wanted kind.
\<close>

fun expect_string :: "token list \<Rightarrow> error + (string \<times> token list)" where
  "expect_string [] = Inl (TokError ''Expected {}, but got {}!'' [''STRING'', ''EOF''])"
| "expect_string (NEWLINE # ts) = expect_string ts"
| "expect_string (STRING s # ts) = Inr (s, ts)"
| "expect_string (t # ts) = Inl (TokError ''Expected {}, but got {}!'' [''STRING'', token_name t])"

fun expect_brace_open :: "token list \<Rightarrow> error + token list" where
  "expect_brace_open [] = Inl (TokError ''Expected {}, but got {}!'' [''BRACE_OPEN'', ''EOF''])"
| "expect_brace_open (NEWLINE # ts) = expect_brace_open ts"
| "expect_brace_open (BRACE_OPEN # ts) = Inr ts"
| "expect_brace_open (t # ts) =
     Inl (TokError ''Expected {}, but got {}!'' [''BRACE_OPEN'', token_name t])"

text \<open>
  Modelled from the spec: \<^verbatim>\<open>next(tok.skipping_newlines())\<close>, the next token that is
  not a newline. At the end of the input the iterator is exhausted and \<^verbatim>\<open>next\<close>
  raises \<^verbatim>\<open>StopIteration\<close>.
\<close>

fun next_skipping_newlines :: "token list \<Rightarrow> error + (token \<times> token list)" where
  "next_skipping_newlines [] = Inl StopIteration"
| "next_skipping_newlines (NEWLINE # ts) = next_skipping_newlines ts"
| "next_skipping_newlines (t # ts) = Inr (t, ts)"

text \<open>
  Modelled from the spec: \<^verbatim>\<open>tok.block(name)\<close> iterates over the keys of a block. It
  consumes the opening brace (unless \<^verbatim>\<open>consume_brace=False\<close>), skips newlines, yields
  each string, stops at the closing brace, and fails on any other token and at the end
  of the input. Each \<^verbatim>\<open>for key in tok.block(name)\<close> loop of the source is a recursive
  function of its own below, of this shape; \<open>unclosed name\<close> is the error at the end of
  the input.
\<close>

definition unclosed :: "string \<Rightarrow> error" where
  "unclosed name = TokError ''Unclosed {} block!'' [name]"

text \<open>Sequencing of fallible steps: an error ends the computation, as a raised
  exception does.\<close>

definition and_then :: "error + 'a \<Rightarrow> ('a \<Rightarrow> error + 'b) \<Rightarrow> error + 'b" where
  "and_then m f = (case m of Inl e \<Rightarrow> Inl e | Inr v \<Rightarrow> f v)"

lemma and_then_simps [simp]:
  "and_then (Inl e) f = Inl e"
  "and_then (Inr v) f = f v"
  by (simp_all add: and_then_def)

lemma and_then_Inr_iff: "and_then m f = Inr r \<longleftrightarrow> (\<exists>v. m = Inr v \<and> f v = Inr r)"
  by (cases m) simp_all

lemma expect_string_len: "expect_string ts = Inr (s, ts') \<Longrightarrow> length ts' < length ts"
  by (induction ts rule: expect_string.induct) auto

lemma expect_brace_open_len: "expect_brace_open ts = Inr ts' \<Longrightarrow> length ts' < length ts"
  by (induction ts rule: expect_brace_open.induct) auto

lemma next_skipping_newlines_len:
  "next_skipping_newlines ts = Inr (t, ts') \<Longrightarrow> length ts' < length ts"
  by (induction ts rule: next_skipping_newlines.induct) auto

subsection \<open>Library conversions\<close>

text \<open>
  \<^verbatim>\<open>srctools.conv_int(val, default=0)\<close> is a library function outside the repository:
  it returns \<^verbatim>\<open>int(val)\<close>, and the default when \<^verbatim>\<open>int\<close> raises
  \<^verbatim>\<open>ValueError\<close>. The parser never passes a default, so the default is 0.
\<close>

definition conv_int :: "string \<Rightarrow> int" where
  "conv_int val = (case py_int val of Some n \<Rightarrow> n | None \<Rightarrow> 0)"

text \<open>
  \<^verbatim>\<open>srctools.conv_bool(val, default=False)\<close>, likewise from the library: a lookup of
  the case-folded text among the accepted spellings, and the default for any other text.
\<close>

definition BOOL_LOOKUP :: "(string \<times> bool) list" where
  "BOOL_LOOKUP =
     [(''0'', False), (''no'', False), (''false'', False), (''n'', False), (''f'', False),
      (''1'', True), (''yes'', True), (''true'', True), (''y'', True), (''t'', True)]"

definition conv_bool :: "string \<Rightarrow> bool \<Rightarrow> bool" where
  "conv_bool val dflt = (case map_of BOOL_LOOKUP (casefold val) of Some b \<Rightarrow> b | None \<Rightarrow> dflt)"

text \<open>\<^verbatim>\<open>str.startswith\<close>.\<close>

definition startswith :: "string \<Rightarrow> string \<Rightarrow> bool" where
  "startswith s p = (take (length p) s = p)"

subsection \<open>Paths and vectors\<close>

text \<open>
  \<^verbatim>\<open>FSPath\<close> is \<^verbatim>\<open>pathlib.PurePosixPath\<close>: a root (empty, one slash or two) and
  the list of the components, where empty components and single dots are dropped. Two
  paths are equal when root and components are.
\<close>

datatype FSPath = FSPath (root: string) (parts: "string list")

fun split_on :: "char \<Rightarrow> string \<Rightarrow> string \<Rightarrow> string list" where
  "split_on sep [] w = [rev w]"
| "split_on sep (c # cs) w = (if c = sep then rev w # split_on sep cs [] else split_on sep cs (c # w))"

definition path_root :: "string \<Rightarrow> string" where
  "path_root s =
     (if startswith s ''///'' then ''/''
      else if startswith s ''//'' then ''//''
      else if startswith s ''/'' then ''/''
      else '''')"

definition mk_path :: "string \<Rightarrow> FSPath" where
  "mk_path s = FSPath (path_root s) (filter (\<lambda>p. p \<noteq> '''' \<and> p \<noteq> ''.'') (split_on CHR ''/'' s []))"

text \<open>\<^verbatim>\<open>FSPath()\<close>, the empty path, printed as a dot.\<close>

definition empty_path :: FSPath where
  "empty_path = mk_path ''''"

fun join_with :: "string \<Rightarrow> string list \<Rightarrow> string" where
  "join_with sep [] = ''''"
| "join_with sep [p] = p"
| "join_with sep (p # ps) = p @ sep @ join_with sep ps"

definition path_str :: "FSPath \<Rightarrow> string" where
  "path_str p = (if root p = '''' \<and> parts p = [] then ''.'' else root p @ join_with ''/'' (parts p))"

definition path_name :: "FSPath \<Rightarrow> string" where
  "path_name p = (if parts p = [] then '''' else last (parts p))"

text \<open>\<^verbatim>\<open>str.rfind('.')\<close>: the index of the last dot, if there is one.\<close>

fun rfind_dot :: "string \<Rightarrow> nat option" where
  "rfind_dot [] = None"
| "rfind_dot (c # cs) =
     (case rfind_dot cs of
        Some i \<Rightarrow> Some (Suc i)
      | None \<Rightarrow> if c = CHR ''.'' then Some 0 else None)"

definition path_suffix :: "FSPath \<Rightarrow> string" where
  "path_suffix p =
     (let name = path_name p in
      case rfind_dot name of
        Some i \<Rightarrow> if 0 < i \<and> i < length name - 1 then drop i name else ''''
      | None \<Rightarrow> '''')"

text \<open>\<^verbatim>\<open>path.with_suffix(suffix)\<close> for a suffix that starts with a dot and has no
  slash, as both callers pass: a path with an empty name raises \<^verbatim>\<open>ValueError\<close>.\<close>

definition with_suffix :: "FSPath \<Rightarrow> string \<Rightarrow> error + FSPath" where
  "with_suffix p suffix =
     (let name = path_name p in
      if name = '''' then Inl (ValueError ''has an empty name'')
      else
        let old_suffix = path_suffix p;
            name' = (if old_suffix = '''' then name @ suffix
                     else take (length name - length old_suffix) name @ suffix)
        in Inr (FSPath (root p) (butlast (parts p) @ [name'])))"

text \<open>
  \<^verbatim>\<open>Vec\<close> is the library's vector of three floating-point numbers. No property below
  computes with its components, so a vector is represented by the text handed to
  \<^verbatim>\<open>Vec.from_str\<close>, which never raises.
\<close>

datatype Vec = Vec_from_str string

subsection \<open>Enumerations\<close>

text \<open>
  Each \<^verbatim>\<open>Enum\<close> class is a datatype of its members (an alias is the member it
  names), with the value of each member and the list of the members in definition order.
\<close>

text \<open>\<^verbatim>\<open>ItemClass\<close>; \<^verbatim>\<open>PAINT\<close> and \<^verbatim>\<open>PAINT_DROPPER\<close> are aliases of \<open>GEL\<close> and
  \<open>GEL_DROPPER\<close>. The value is the id used in the files, the number of instances and the
  number of models of a subtype.\<close>

datatype ItemClass =
    UNCLASSED | FLOOR_BUTTON | PEDESTAL_BUTTON | PANEL_STAIR | PANEL_FLIP | PANEL_ANGLED |
  PISTON_PLATFORM | TRACK_PLATFORM | CUBE | GEL | FAITH_PLATE | CUBE_DROPPER |
  GEL_DROPPER | FAITH_TARGET | GLASS | TURRET | LIGHT_STRIP | GOO | LASER_EMITTER |
  FUNNEL | FIZZLER | LIGHT_BRIDGE | HANDLE_FIZZLER | HANDLE_GLASS |
  HANDLE_PISTON_PLATFORM | HANDLE_TRACK_PLATFORM | DOOR_ENTRY_SP | DOOR_ENTRY_COOP |
  DOOR_EXIT_SP | DOOR_EXIT_COOP

fun ItemClass_value :: "ItemClass \<Rightarrow> string \<times> nat \<times> nat" where
  "ItemClass_value UNCLASSED = (''ItemBase'', 1, 1)"
| "ItemClass_value FLOOR_BUTTON = (''ItemButtonFloor'', 6, 1)"
| "ItemClass_value PEDESTAL_BUTTON = (''ItemPedestalButton'', 1, 1)"
| "ItemClass_value PANEL_STAIR = (''ItemStairs'', 1, 2)"
| "ItemClass_value PANEL_FLIP = (''ItemPanelFlip'', 1, 1)"
| "ItemClass_value PANEL_ANGLED = (''ItemAngledPanel'', 1, 12)"
| "ItemClass_value PISTON_PLATFORM = (''ItemPistonPlatform'', 1, 7)"
| "ItemClass_value TRACK_PLATFORM = (''ItemRailPlatform'', 6, 3)"
| "ItemClass_value CUBE = (''ItemCube'', 5, 2)"
| "ItemClass_value GEL = (''ItemPaintSplat'', 1, 1)"
| "ItemClass_value FAITH_PLATE = (''ItemCatapult'', 1, 1)"
| "ItemClass_value CUBE_DROPPER = (''ItemCubeDropper'', 1, 1)"
| "ItemClass_value GEL_DROPPER = (''ItemPaintDropper'', 1, 1)"
| "ItemClass_value FAITH_TARGET = (''ItemCatapultTarget'', 1, 1)"
| "ItemClass_value GLASS = (''ItemBarrier'', 9, 1)"
| "ItemClass_value TURRET = (''ItemTurret'', 1, 1)"
| "ItemClass_value LIGHT_STRIP = (''ItemLightStrip'', 1, 1)"
| "ItemClass_value GOO = (''ItemGoo'', 0, 2)"
| "ItemClass_value LASER_EMITTER = (''ItemLaserEmitter'', 1, 1)"
| "ItemClass_value FUNNEL = (''ItemTBeam'', 3, 1)"
| "ItemClass_value FIZZLER = (''ItemBarrierHazard'', 2, 1)"
| "ItemClass_value LIGHT_BRIDGE = (''ItemLightBridge'', 1, 1)"
| "ItemClass_value HANDLE_FIZZLER = (''ItemBarrierHazardExtent'', 0, 1)"
| "ItemClass_value HANDLE_GLASS = (''ItemBarrierExtent'', 0, 1)"
| "ItemClass_value HANDLE_PISTON_PLATFORM = (''ItemPistonPlatformExtent'', 0, 1)"
| "ItemClass_value HANDLE_TRACK_PLATFORM = (''ItemRailPlatformExtent'', 0, 1)"
| "ItemClass_value DOOR_ENTRY_SP = (''ItemEntranceDoor'', 12, 1)"
| "ItemClass_value DOOR_ENTRY_COOP = (''ItemCoopEntranceDoor'', 5, 1)"
| "ItemClass_value DOOR_EXIT_SP = (''ItemExitDoor'', 6, 2)"
| "ItemClass_value DOOR_EXIT_COOP = (''ItemCoopExitDoor'', 6, 2)"

definition ItemClass_id :: "ItemClass \<Rightarrow> string" where
  "ItemClass_id c = fst (ItemClass_value c)"

definition ItemClass_members :: "ItemClass list" where
  "ItemClass_members = [UNCLASSED, FLOOR_BUTTON, PEDESTAL_BUTTON, PANEL_STAIR, PANEL_FLIP,
     PANEL_ANGLED, PISTON_PLATFORM, TRACK_PLATFORM, CUBE, GEL, FAITH_PLATE, CUBE_DROPPER,
     GEL_DROPPER, FAITH_TARGET, GLASS, TURRET, LIGHT_STRIP, GOO, LASER_EMITTER, FUNNEL,
     FIZZLER, LIGHT_BRIDGE, HANDLE_FIZZLER, HANDLE_GLASS, HANDLE_PISTON_PLATFORM,
     HANDLE_TRACK_PLATFORM, DOOR_ENTRY_SP, DOOR_ENTRY_COOP, DOOR_EXIT_SP, DOOR_EXIT_COOP]"

text \<open>\<^verbatim>\<open>ITEM_CLASSES\<close>, the dictionary from the case-folded id to the class, as the
  function that looks a key up.\<close>

definition ITEM_CLASSES :: "string \<Rightarrow> ItemClass option" where
  "ITEM_CLASSES k = map_of (map (\<lambda>c. (casefold (ItemClass_id c), c)) ItemClass_members) k"

text \<open>\<^verbatim>\<open>RenderableType\<close>, the two renderables.\<close>

datatype RenderableType = ERROR | CONN

fun RenderableType_value :: "RenderableType \<Rightarrow> string" where
  "RenderableType_value ERROR = ''ErrorState''"
| "RenderableType_value CONN = ''ConnectionHeartSolid''"

definition RenderableType_members :: "RenderableType list" where
  "RenderableType_members = [ERROR, CONN]"

text \<open>\<^verbatim>\<open>RenderableType(value)\<close>: the member with that value.\<close>

definition RenderableType_of_value :: "string \<Rightarrow> RenderableType option" where
  "RenderableType_of_value v = find (\<lambda>m. RenderableType_value m = v) RenderableType_members"

text \<open>\<^verbatim>\<open>Renderable._types\<close>, from the case-folded value to the member.\<close>

definition Renderable_types :: "string \<Rightarrow> RenderableType option" where
  "Renderable_types k = map_of (map (\<lambda>r. (casefold (RenderableType_value r), r)) RenderableType_members) k"

text \<open>\<^verbatim>\<open>Handle\<close>; the members carry the prefix \<open>Handle_\<close>.\<close>

datatype Handle = Handle_NONE | Handle_QUAD | Handle_CENT_OFF | Handle_DUAL_OFF | Handle_QUAD_OFF | Handle_FREE_ROT | Handle_FAITH

fun Handle_value :: "Handle \<Rightarrow> string" where
  "Handle_value Handle_NONE = ''HANDLE_NONE''"
| "Handle_value Handle_QUAD = ''HANDLE_4_DIRECTIONS''"
| "Handle_value Handle_CENT_OFF = ''HANDLE_5_POSITIONS''"
| "Handle_value Handle_DUAL_OFF = ''HANDLE_6_POSITIONS''"
| "Handle_value Handle_QUAD_OFF = ''HANDLE_8_POSITIONS''"
| "Handle_value Handle_FREE_ROT = ''HANDLE_36_DIRECTIONS''"
| "Handle_value Handle_FAITH = ''HANDLE_CATAPULT''"

definition Handle_members :: "Handle list" where
  "Handle_members = [Handle_NONE, Handle_QUAD, Handle_CENT_OFF, Handle_DUAL_OFF,
     Handle_QUAD_OFF, Handle_FREE_ROT, Handle_FAITH]"

text \<open>\<^verbatim>\<open>Handle(value)\<close>: the member with that value.\<close>

definition Handle_of_value :: "string \<Rightarrow> Handle option" where
  "Handle_of_value v = find (\<lambda>m. Handle_value m = v) Handle_members"

text \<open>\<^verbatim>\<open>Surface\<close>; \<^verbatim>\<open>WALLS\<close> and \<^verbatim>\<open>CEILING\<close> are aliases of \<open>WALL\<close> and \<open>CEIL\<close>.\<close>

datatype Surface = WALL | FLOOR | CEIL

fun Surface_value :: "Surface \<Rightarrow> string" where
  "Surface_value WALL = ''WALL''"
| "Surface_value FLOOR = ''FLOOR''"
| "Surface_value CEIL = ''CEILING''"

text \<open>\<^verbatim>\<open>Surface[name]\<close>: lookup by the name of a member or of an alias.\<close>

definition Surface_by_name :: "string \<Rightarrow> Surface option" where
  "Surface_by_name n =
     map_of [(''WALL'', WALL), (''WALLS'', WALL), (''FLOOR'', FLOOR), (''CEIL'', CEIL), (''CEILING'', CEIL)] n"

text \<open>\<^verbatim>\<open>DesiredFacing\<close>; the members carry the prefix \<open>Facing_\<close>.\<close>

datatype DesiredFacing = Facing_NONE | Facing_POSX | Facing_NEGX | Facing_HORIZ

fun DesiredFacing_value :: "DesiredFacing \<Rightarrow> string" where
  "DesiredFacing_value Facing_NONE = ''DESIRES_ANYTHING''"
| "DesiredFacing_value Facing_POSX = ''DESIRES_UP''"
| "DesiredFacing_value Facing_NEGX = ''DESIRES_DOWN''"
| "DesiredFacing_value Facing_HORIZ = ''DESIRES_HORIZONTAL''"

definition DesiredFacing_members :: "DesiredFacing list" where
  "DesiredFacing_members = [Facing_NONE, Facing_POSX, Facing_NEGX, Facing_HORIZ]"

text \<open>\<^verbatim>\<open>DesiredFacing(value)\<close>: the member with that value.\<close>

definition DesiredFacing_of_value :: "string \<Rightarrow> DesiredFacing option" where
  "DesiredFacing_of_value v = find (\<lambda>m. DesiredFacing_value m = v) DesiredFacing_members"

text \<open>\<^verbatim>\<open>FaceType\<close>.\<close>

datatype FaceType = NORMAL | HALF_VERT | LRG | MED | SML | CHECK

fun FaceType_value :: "FaceType \<Rightarrow> string" where
  "FaceType_value NORMAL = ''Grid_Default''"
| "FaceType_value HALF_VERT = ''2x1''"
| "FaceType_value LRG = ''1x1''"
| "FaceType_value MED = ''2x2''"
| "FaceType_value SML = ''4x4''"
| "FaceType_value CHECK = ''4x4_checkered''"

definition FaceType_members :: "FaceType list" where
  "FaceType_members = [NORMAL, HALF_VERT, LRG, MED, SML, CHECK]"

text \<open>\<^verbatim>\<open>FaceType(value)\<close>: the member with that value.\<close>

definition FaceType_of_value :: "string \<Rightarrow> FaceType option" where
  "FaceType_of_value v = find (\<lambda>m. FaceType_value m = v) FaceType_members"

text \<open>\<^verbatim>\<open>FACE_TYPES\<close>, from the case-folded value to the member.\<close>

definition FACE_TYPES :: "string \<Rightarrow> FaceType option" where
  "FACE_TYPES k = map_of (map (\<lambda>f. (casefold (FaceType_value f), f)) FaceType_members) k"

text \<open>\<^verbatim>\<open>Sound\<close>, the events that trigger a sound.\<close>

datatype Sound = SELECT | DESELECT | DELETE | CREATE | PROPS_OPEN | PROPS_CLOSE

fun Sound_value :: "Sound \<Rightarrow> string" where
  "Sound_value SELECT = ''SOUND_SELECTED''"
| "Sound_value DESELECT = ''SOUND_DESELECTED''"
| "Sound_value DELETE = ''SOUND_DELETED''"
| "Sound_value CREATE = ''SOUND_CREATED''"
| "Sound_value PROPS_OPEN = ''SOUND_EDITING_ACTIVATE''"
| "Sound_value PROPS_CLOSE = ''SOUND_EDITING_DEACTIVATE''"

definition Sound_members :: "Sound list" where
  "Sound_members = [SELECT, DESELECT, DELETE, CREATE, PROPS_OPEN, PROPS_CLOSE]"

text \<open>\<^verbatim>\<open>Sound(value)\<close>: the member with that value.\<close>

definition Sound_of_value :: "string \<Rightarrow> Sound option" where
  "Sound_of_value v = find (\<lambda>m. Sound_value m = v) Sound_members"

text \<open>\<^verbatim>\<open>Anim\<close>; \<^verbatim>\<open>CUBE_FLAT\<close>, \<^verbatim>\<open>CUBE_FLAT_EDIT_START\<close> and \<^verbatim>\<open>CUBE_FLAT_EDIT_STOP\<close> are
  aliases of the first three members.\<close>

datatype Anim = IDLE | EDIT_START | EDIT_STOP | CUBE_FALL | CUBE_FALL_EDIT_START | CUBE_FALL_EDIT_STOP | CUBE_FLAT2FALL | CUBE_FALL2FLAT | CUBE_FLAT2FALL_EDIT | CUBE_FALL2FLAT_EDIT | CDROP_ENABLE | CDROP_DISABLE | HEART_IDLE | HEART_CONN_MADE | HEART_CONN_BROKE | BAD_PLACE_IDLE | BAD_PLACE_SHOW | BAD_PLACE_HIDE

fun Anim_value :: "Anim \<Rightarrow> string" where
  "Anim_value IDLE = ''ANIM_IDLE''"
| "Anim_value EDIT_START = ''ANIM_EDITING_ACTIVATE''"
| "Anim_value EDIT_STOP = ''ANIM_EDITING_DEACTIVATE''"
| "Anim_value CUBE_FALL = ''ANIM_FALLING_IDLE''"
| "Anim_value CUBE_FALL_EDIT_START = ''ANIM_FALLING_EDITING_ACTIVATE''"
| "Anim_value CUBE_FALL_EDIT_STOP = ''ANIM_FALLING_EDITING_DEACTIVATE''"
| "Anim_value CUBE_FLAT2FALL = ''ANIM_GROUND_TO_FALLING''"
| "Anim_value CUBE_FALL2FLAT = ''ANIM_FALLING_TO_GROUND''"
| "Anim_value CUBE_FLAT2FALL_EDIT = ''ANIM_GROUND_TO_FALLING_EDITING''"
| "Anim_value CUBE_FALL2FLAT_EDIT = ''ANIM_FALLING_TO_GROUND_EDITING''"
| "Anim_value CDROP_ENABLE = ''ANIM_REAPPEAR''"
| "Anim_value CDROP_DISABLE = ''ANIM_DISAPPEAR''"
| "Anim_value HEART_IDLE = ''ANIM_ICON_HEART_HAPPY_IDLE''"
| "Anim_value HEART_CONN_MADE = ''ANIM_ICON_HEART_SUCCESS''"
| "Anim_value HEART_CONN_BROKE = ''ANIM_ICON_HEART_BREAK''"
| "Anim_value BAD_PLACE_IDLE = ''ANIM_ICON_IDLE''"
| "Anim_value BAD_PLACE_SHOW = ''ANIM_ICON_SHOW''"
| "Anim_value BAD_PLACE_HIDE = ''ANIM_ICON_HIDE''"

definition Anim_members :: "Anim list" where
  "Anim_members = [IDLE, EDIT_START, EDIT_STOP, CUBE_FALL, CUBE_FALL_EDIT_START,
     CUBE_FALL_EDIT_STOP, CUBE_FLAT2FALL, CUBE_FALL2FLAT, CUBE_FLAT2FALL_EDIT,
     CUBE_FALL2FLAT_EDIT, CDROP_ENABLE, CDROP_DISABLE, HEART_IDLE, HEART_CONN_MADE,
     HEART_CONN_BROKE, BAD_PLACE_IDLE, BAD_PLACE_SHOW, BAD_PLACE_HIDE]"

text \<open>\<^verbatim>\<open>Anim(value)\<close>: the member with that value.\<close>

definition Anim_of_value :: "string \<Rightarrow> Anim option" where
  "Anim_of_value v = find (\<lambda>m. Anim_value m = v) Anim_members"

definition ConnSide_members :: "ConnSide list" where
  "ConnSide_members = [LEFT, RIGHT, UP, DOWN]"

fun ConnSide_name :: "ConnSide \<Rightarrow> string" where
  "ConnSide_name LEFT = ''LEFT''"
| "ConnSide_name RIGHT = ''RIGHT''"
| "ConnSide_name UP = ''UP''"
| "ConnSide_name DOWN = ''DOWN''"

subsection \<open>The records of the object graph\<close>

text \<open>
  A Python dictionary is an association list in insertion order, read with
  \<open>map_of\<close> and written with \<open>AList.update\<close>. A Python set whose elements the writer
  enumerates is a list without duplicates, added to with \<open>List.insert\<close>.
\<close>

datatype InstCount =
  InstCount (inst: FSPath) (ent_count: int) (brush_count: int) (face_count: int)

datatype AntlinePoint =
  AntlinePoint (pos: Coord) (sign_off: Coord) (priority: int) (group: "int option")

datatype EmbedFace = EmbedFace (face_center: Vec) (face_size: Vec) (face_type: FaceType)

datatype Overlay =
  Overlay (material: string) (overlay_center: Vec) (overlay_size: Vec) (rotation: int)

record Renderable =
  rend_type :: RenderableType
  rend_model :: string
  rend_animations :: "(Anim \<times> int) list"

record SubType =
  name :: string
  models :: "FSPath list"
  sounds :: "(Sound \<times> string) list"
  anims :: "(Anim \<times> int) list"
  pal_name :: string
  pal_pos :: "(int \<times> int) option"
  pal_icon :: "FSPath option"

text \<open>
  Modelled from the spec: the property registry (\<^verbatim>\<open>editoritems_props.py\<close>) is not
  among the sources. \<^verbatim>\<open>PROP_TYPES\<close> maps a case-folded name to a property type, known
  here by its id; constructing a property from a default text, an index and the
  user-default flag fails with \<^verbatim>\<open>ValueError\<close> when the type does not accept the
  text. The registry is a parameter of the parser.
\<close>

datatype PropType = PropType (prop_type_id: string)

record ItemProp =
  prop_type :: PropType
  prop_default :: string
  prop_index :: int
  prop_user_default :: bool

record registry =
  PROP_TYPES :: "string \<Rightarrow> PropType option"
  accepts :: "PropType \<Rightarrow> string \<Rightarrow> bool"

text \<open>
  \<^verbatim>\<open>Item\<close>. The field \<open>pseduo_handle\<close> is the attribute that \<^verbatim>\<open>__init__\<close> creates
  and the writer reads; \<open>pseudo_handle\<close> is the attribute that \<^verbatim>\<open>setattr\<close> creates
  when the editor block has a \<^verbatim>\<open>PseudoHandle\<close> key, absent until then.
\<close>

record Item =
  item_id :: string
  cls :: ItemClass
  subtype_prop :: "PropType option"
  handle :: Handle
  facing :: DesiredFacing
  invalid_surf :: "Surface list"
  animations :: "(Anim \<times> int) list"
  anchor_barriers :: bool
  anchor_goo :: bool
  occupies_voxel :: bool
  copiable :: bool
  deletable :: bool
  pseduo_handle :: bool
  pseudo_handle :: "bool option"
  subtypes :: "SubType list"
  properties :: "(string \<times> ItemProp) list"
  offset :: Vec
  targetname :: string
  instances :: "InstCount list"
  cust_instances :: "(string \<times> FSPath) list"
  antline_points :: "ConnSide \<Rightarrow> AntlinePoint list"
  embed_voxels :: "Coord list"
  embed_faces :: "EmbedFace list"
  overlays :: "Overlay list"

text \<open>\<^verbatim>\<open>DEFAULT_SOUNDS\<close>.\<close>

definition DEFAULT_SOUNDS :: "(Sound \<times> string) list" where
  "DEFAULT_SOUNDS =
     [(SELECT, ''''), (DESELECT, ''''),
      (PROPS_OPEN, ''P2Editor.ExpandOther''), (PROPS_CLOSE, ''P2Editor.CollapseOther''),
      (CREATE, ''P2Editor.PlaceOther''), (DELETE, ''P2Editor.RemoveOther'')]"

text \<open>\<^verbatim>\<open>Item(item_id, cls)\<close> with the defaults of \<^verbatim>\<open>__init__\<close>.\<close>

definition new_Item :: "string \<Rightarrow> ItemClass \<Rightarrow> Item" where
  "new_Item i c =
     \<lparr> item_id = i, cls = c, subtype_prop = None, handle = Handle_NONE, facing = Facing_NONE,
       invalid_surf = [], animations = [],
       anchor_barriers = False, anchor_goo = False, occupies_voxel = True,
       copiable = True, deletable = True, pseduo_handle = False, pseudo_handle = None,
       subtypes = [], properties = [],
       offset = Vec_from_str ''64 64 64'', targetname = '''',
       instances = [], cust_instances = [], antline_points = (\<lambda>side. []),
       embed_voxels = [], embed_faces = [], overlays = [] \<rparr>"

text \<open>\<^verbatim>\<open>SubType('', [], DEFAULT_SOUNDS.copy(), {}, '', None, None)\<close>.\<close>

definition new_SubType :: SubType where
  "new_SubType =
     \<lparr> name = '''', models = [], sounds = DEFAULT_SOUNDS, anims = [],
       pal_name = '''', pal_pos = None, pal_icon = None \<rparr>"

text \<open>A warning handed to \<^verbatim>\<open>LOGGER.warning\<close>: the format and its arguments. The line
  number and the file name that one warning prints are not part of the model.\<close>

datatype warning = Warning string "string list"

subsection \<open>Coordinates in the files\<close>

text \<open>\<^verbatim>\<open>Coord.parse(value, error_func)\<close> with \<open>error_func = tok.error\<close>. The cache of
  coordinates does not change the value returned.\<close>

definition Coord_parse :: "string \<Rightarrow> error + Coord" where
  "Coord_parse value =
     (case split value of
        [a, b, c] \<Rightarrow>
          (case py_int a of
             None \<Rightarrow> Inl (TokError ''Invalid coordinate value \"{}\"!'' [a])
           | Some x \<Rightarrow>
          (case py_int b of
             None \<Rightarrow> Inl (TokError ''Invalid coordinate value \"{}\"!'' [b])
           | Some y \<Rightarrow>
          (case py_int c of
             None \<Rightarrow> Inl (TokError ''Invalid coordinate value \"{}\"!'' [c])
           | Some z \<Rightarrow> Inr (Coord x y z))))
      | _ \<Rightarrow> Inl (TokError ''Incorrect number of points for a coordinate!'' []))"

subsection \<open>Animations, renderables and subtypes\<close>

text \<open>
  Each block loop \<^verbatim>\<open>for key in tok.block(name): body\<close> is a pair: the body, a
  function of the key, the tokens after it and the state of the loop; and the loop,
  which reads the tokens up to the closing brace. A loop ends with the tokens left and
  the final state, or with the first error.
\<close>

text \<open>\<^verbatim>\<open>Anim.parse_block(anims, tok)\<close>.\<close>

definition anim_key :: "string \<Rightarrow> token list \<Rightarrow> (Anim \<times> int) list \<Rightarrow> error + (token list \<times> (Anim \<times> int) list)" where
  "anim_key anim_name ts as =
     (case Anim_of_value anim_name of
        None \<Rightarrow> Inl (TokError ''Unknown animation {}'' [anim_name])
      | Some anim \<Rightarrow>
          and_then (expect_string ts) (\<lambda>(v, ts). Inr (ts, AList.update anim (conv_int v) as)))"

lemma anim_key_len: "anim_key k ts as = Inr (ts', as') \<Longrightarrow> length ts' < length ts"
  by (auto simp: anim_key_def and_then_Inr_iff split: option.splits dest: expect_string_len)

function anim_loop :: "token list \<Rightarrow> (Anim \<times> int) list \<Rightarrow> error + (token list \<times> (Anim \<times> int) list)" where
  "anim_loop [] as = Inl (unclosed ''Animations'')"
| "anim_loop (BRACE_CLOSE # ts) as = Inr (ts, as)"
| "anim_loop (NEWLINE # ts) as = anim_loop ts as"
| "anim_loop (BRACE_OPEN # ts) as = Inl (unexpected BRACE_OPEN)"
| "anim_loop (STRING k # ts) as =
     (case anim_key k ts as of Inl e \<Rightarrow> Inl e | Inr (ts', as') \<Rightarrow> anim_loop ts' as')"
  by pat_completeness auto
termination
  by (relation "measure (\<lambda>(ts, as). length ts)") (auto dest: anim_key_len)

lemma anim_loop_len: "anim_loop ts as = Inr (ts', as') \<Longrightarrow> length ts' < length ts"
  by (induction ts as rule: anim_loop.induct) (force split: sum.splits dest: anim_key_len)+

definition Anim_parse_block :: "(Anim \<times> int) list \<Rightarrow> token list \<Rightarrow> error + (token list \<times> (Anim \<times> int) list)" where
  "Anim_parse_block as ts = and_then (expect_brace_open ts) (\<lambda>ts. anim_loop ts as)"

lemma Anim_parse_block_len: "Anim_parse_block as ts = Inr (ts', as') \<Longrightarrow> length ts' < length ts"
  by (auto simp: Anim_parse_block_def and_then_Inr_iff
      dest!: expect_brace_open_len anim_loop_len)

text \<open>\<^verbatim>\<open>Renderable.parse(tok)\<close>. The state of the loop is the kind found so far, the
  model and the animations.\<close>

type_synonym rend_state = "RenderableType option \<times> string \<times> (Anim \<times> int) list"

definition renderable_key :: "string \<Rightarrow> token list \<Rightarrow> rend_state \<Rightarrow> error + (token list \<times> rend_state)" where
  "renderable_key k ts st =
     (case st of (kind, model, as) \<Rightarrow>
        if casefold k = ''type'' then
          and_then (expect_string ts) (\<lambda>(render_id, ts).
            case Renderable_types (casefold render_id) of
              None \<Rightarrow> Inl (TokError ''Unknown Renderable \"{}\"!'' [render_id])
            | Some r \<Rightarrow> Inr (ts, (Some r, model, as)))
        else if casefold k = ''animations'' then
          and_then (Anim_parse_block as ts) (\<lambda>(ts, as). Inr (ts, (kind, model, as)))
        else if casefold k = ''model'' then
          and_then (expect_string ts) (\<lambda>(v, ts). Inr (ts, (kind, v, as)))
        else Inl (TokError ''Unknown renderable option \"{}\"!'' [k]))"

lemma renderable_key_len: "renderable_key k ts st = Inr (ts', st') \<Longrightarrow> length ts' < length ts"
  by (auto simp: renderable_key_def and_then_Inr_iff split: if_splits option.splits prod.splits
      dest: expect_string_len Anim_parse_block_len)

function renderable_loop :: "token list \<Rightarrow> rend_state \<Rightarrow> error + (token list \<times> rend_state)" where
  "renderable_loop [] st = Inl (unclosed ''Renderable Item'')"
| "renderable_loop (BRACE_CLOSE # ts) st = Inr (ts, st)"
| "renderable_loop (NEWLINE # ts) st = renderable_loop ts st"
| "renderable_loop (BRACE_OPEN # ts) st = Inl (unexpected BRACE_OPEN)"
| "renderable_loop (STRING k # ts) st =
     (case renderable_key k ts st of Inl e \<Rightarrow> Inl e | Inr (ts', st') \<Rightarrow> renderable_loop ts' st')"
  by pat_completeness auto
termination
  by (relation "measure (\<lambda>(ts, st). length ts)") (auto dest: renderable_key_len)

lemma renderable_loop_len: "renderable_loop ts st = Inr (ts', st') \<Longrightarrow> length ts' < length ts"
  by (induction ts st rule: renderable_loop.induct)
     (force split: sum.splits dest: renderable_key_len)+

definition Renderable_parse :: "token list \<Rightarrow> error + (token list \<times> Renderable)" where
  "Renderable_parse ts =
     and_then (expect_brace_open ts) (\<lambda>ts.
     and_then (renderable_loop ts (None, '''', [])) (\<lambda>(ts, (kind, model, as)).
       case kind of
         None \<Rightarrow> Inl (TokError ''No type specified for Renderable!'' [])
       | Some r \<Rightarrow> Inr (ts, \<lparr> rend_type = r, rend_model = model, rend_animations = as \<rparr>)))"

lemma Renderable_parse_len: "Renderable_parse ts = Inr (ts', r) \<Longrightarrow> length ts' < length ts"
  by (auto simp: Renderable_parse_def and_then_Inr_iff split: option.splits
      dest!: expect_brace_open_len renderable_loop_len)

text \<open>\<^verbatim>\<open>SubType.parse(tok)\<close>: first the three inner blocks.\<close>

text \<open>The block form of \<^verbatim>\<open>Model\<close>; the state is the model name found so far.\<close>

definition model_key :: "string \<Rightarrow> token list \<Rightarrow> FSPath option \<Rightarrow> error + (token list \<times> FSPath option)" where
  "model_key k ts model_name =
     (let subkey = casefold k in
      if subkey = ''modelname'' then
        and_then (expect_string ts) (\<lambda>(v, ts). Inr (ts, Some (mk_path v)))
      else if subkey = ''texturename'' then
        and_then (expect_string ts) (\<lambda>(v, ts). Inr (ts, model_name))
      else Inl (TokError ''Unknown model option \"{}\"!'' [subkey]))"

lemma model_key_len: "model_key k ts m = Inr (ts', m') \<Longrightarrow> length ts' < length ts"
  by (auto simp: model_key_def Let_def and_then_Inr_iff split: if_splits dest: expect_string_len)

function model_loop :: "token list \<Rightarrow> FSPath option \<Rightarrow> error + (token list \<times> FSPath option)" where
  "model_loop [] m = Inl (unclosed ''Model'')"
| "model_loop (BRACE_CLOSE # ts) m = Inr (ts, m)"
| "model_loop (NEWLINE # ts) m = model_loop ts m"
| "model_loop (BRACE_OPEN # ts) m = Inl (unexpected BRACE_OPEN)"
| "model_loop (STRING k # ts) m =
     (case model_key k ts m of Inl e \<Rightarrow> Inl e | Inr (ts', m') \<Rightarrow> model_loop ts' m')"
  by pat_completeness auto
termination
  by (relation "measure (\<lambda>(ts, m). length ts)") (auto dest: model_key_len)

lemma model_loop_len: "model_loop ts m = Inr (ts', m') \<Longrightarrow> length ts' < length ts"
  by (induction ts m rule: model_loop.induct) (force split: sum.splits dest: model_key_len)+

text \<open>The \<^verbatim>\<open>Model\<close> key of a subtype: a file name or a block, then the change of the
  suffix to \<^verbatim>\<open>.mdl\<close>.\<close>

definition subtype_model :: "token list \<Rightarrow> SubType \<Rightarrow> error + (token list \<times> SubType)" where
  "subtype_model ts subtype =
     and_then (next_skipping_newlines ts) (\<lambda>(token, ts).
     and_then
       (case token of
          STRING tok_value \<Rightarrow> Inr (ts, Some (mk_path tok_value))
        | BRACE_OPEN \<Rightarrow> model_loop ts None
        | _ \<Rightarrow> Inl (unexpected token))
       (\<lambda>(ts, model_name).
          case model_name of
            None \<Rightarrow> Inl (TokError ''No model name specified!'' [])
          | Some m \<Rightarrow>
              and_then
                (if casefold (path_suffix m) \<noteq> ''.mdl'' then with_suffix m ''.mdl'' else Inr m)
                (\<lambda>m. Inr (ts, subtype\<lparr>models := models subtype @ [m]\<rparr>))))"

lemma subtype_model_len: "subtype_model ts st = Inr (ts', st') \<Longrightarrow> length ts' < length ts"
proof -
  assume a: "subtype_model ts st = Inr (ts', st')"
  then obtain token ts1 where n: "next_skipping_newlines ts = Inr (token, ts1)"
    by (auto simp: subtype_model_def and_then_Inr_iff)
  from a n obtain m where
    m: "(case token of STRING tok_value \<Rightarrow> Inr (ts1, Some (mk_path tok_value))
          | BRACE_OPEN \<Rightarrow> model_loop ts1 None | _ \<Rightarrow> Inl (unexpected token)) = Inr (ts', m)"
    by (auto simp: subtype_model_def and_then_Inr_iff split: option.splits)
  then have "length ts' \<le> length ts1"
    by (cases token) (auto dest: model_loop_len)
  with next_skipping_newlines_len [OF n] show ?thesis by simp
qed

text \<open>The \<^verbatim>\<open>Palette\<close> block.\<close>

definition palette_key :: "string \<Rightarrow> token list \<Rightarrow> SubType \<Rightarrow> error + (token list \<times> SubType)" where
  "palette_key k ts subtype =
     (let subkey = casefold k in
      if subkey = ''tooltip'' then
        and_then (expect_string ts) (\<lambda>(v, ts). Inr (ts, subtype\<lparr>pal_name := v\<rparr>))
      else if subkey = ''image'' then
        and_then (expect_string ts) (\<lambda>(v, ts). Inr (ts, subtype\<lparr>pal_icon := Some (mk_path v)\<rparr>))
      else if subkey = ''position'' then
        and_then (expect_string ts) (\<lambda>(v, ts).
          let points = split v in
          if length points = 2 \<or> length points = 3 then
            (case (py_int (points ! 0), py_int (points ! 1)) of
               (Some x, Some y) \<Rightarrow> Inr (ts, subtype\<lparr>pal_pos := Some (x, y)\<rparr>)
             | _ \<Rightarrow> Inl (TokError ''Invalid position value!'' []))
          else Inl (TokError ''Incorrect number of points in position'' []))
      else Inl (TokError ''Unknown palette option \"{}\"!'' [subkey]))"

lemma palette_key_len: "palette_key k ts st = Inr (ts', st') \<Longrightarrow> length ts' < length ts"
  by (auto simp: palette_key_def Let_def and_then_Inr_iff split: if_splits option.splits
      dest: expect_string_len)

function palette_loop :: "token list \<Rightarrow> SubType \<Rightarrow> error + (token list \<times> SubType)" where
  "palette_loop [] st = Inl (unclosed ''Palette'')"
| "palette_loop (BRACE_CLOSE # ts) st = Inr (ts, st)"
| "palette_loop (NEWLINE # ts) st = palette_loop ts st"
| "palette_loop (BRACE_OPEN # ts) st = Inl (unexpected BRACE_OPEN)"
| "palette_loop (STRING k # ts) st =
     (case palette_key k ts st of Inl e \<Rightarrow> Inl e | Inr (ts', st') \<Rightarrow> palette_loop ts' st')"
  by pat_completeness auto
termination
  by (relation "measure (\<lambda>(ts, st). length ts)") (auto dest: palette_key_len)

lemma palette_loop_len: "palette_loop ts st = Inr (ts', st') \<Longrightarrow> length ts' < length ts"
  by (induction ts st rule: palette_loop.induct) (force split: sum.splits dest: palette_key_len)+

text \<open>The \<^verbatim>\<open>Sounds\<close> block.\<close>

definition sound_key :: "string \<Rightarrow> token list \<Rightarrow> SubType \<Rightarrow> error + (token list \<times> SubType)" where
  "sound_key sound_kind ts subtype =
     (case Sound_of_value (upper sound_kind) of
        None \<Rightarrow> Inl (TokError ''Unknown sound type \"{}\"!'' [sound_kind])
      | Some sound \<Rightarrow>
          and_then (expect_string ts) (\<lambda>(v, ts).
            Inr (ts, subtype\<lparr>sounds := AList.update sound v (sounds subtype)\<rparr>)))"

lemma sound_key_len: "sound_key k ts st = Inr (ts', st') \<Longrightarrow> length ts' < length ts"
  by (auto simp: sound_key_def and_then_Inr_iff split: option.splits dest: expect_string_len)

function sound_loop :: "token list \<Rightarrow> SubType \<Rightarrow> error + (token list \<times> SubType)" where
  "sound_loop [] st = Inl (unclosed ''Sounds'')"
| "sound_loop (BRACE_CLOSE # ts) st = Inr (ts, st)"
| "sound_loop (NEWLINE # ts) st = sound_loop ts st"
| "sound_loop (BRACE_OPEN # ts) st = Inl (unexpected BRACE_OPEN)"
| "sound_loop (STRING k # ts) st =
     (case sound_key k ts st of Inl e \<Rightarrow> Inl e | Inr (ts', st') \<Rightarrow> sound_loop ts' st')"
  by pat_completeness auto
termination
  by (relation "measure (\<lambda>(ts, st). length ts)") (auto dest: sound_key_len)

lemma sound_loop_len: "sound_loop ts st = Inr (ts', st') \<Longrightarrow> length ts' < length ts"
  by (induction ts st rule: sound_loop.induct) (force split: sum.splits dest: sound_key_len)+

text \<open>The keys of the \<^verbatim>\<open>Subtype\<close> block itself.\<close>

definition subtype_key :: "string \<Rightarrow> token list \<Rightarrow> SubType \<Rightarrow> error + (token list \<times> SubType)" where
  "subtype_key k ts subtype =
     (let folded_key = casefold k in
      if folded_key = ''name'' then
        and_then (expect_string ts) (\<lambda>(v, ts). Inr (ts, subtype\<lparr>name := v\<rparr>))
      else if folded_key = ''model'' then subtype_model ts subtype
      else if folded_key = ''palette'' then
        and_then (expect_brace_open ts) (\<lambda>ts. palette_loop ts subtype)
      else if folded_key = ''sounds'' then
        and_then (expect_brace_open ts) (\<lambda>ts. sound_loop ts subtype)
      else if folded_key = ''animations'' then
        and_then (Anim_parse_block (anims subtype) ts) (\<lambda>(ts, as). Inr (ts, subtype\<lparr>anims := as\<rparr>))
      else Inl (TokError ''Unknown subtype option \"{}\"!'' [k]))"

lemma subtype_key_len: "subtype_key k ts st = Inr (ts', st') \<Longrightarrow> length ts' < length ts"
  by (auto simp: subtype_key_def Let_def and_then_Inr_iff split: if_splits
      dest!: expect_string_len subtype_model_len expect_brace_open_len palette_loop_len
        sound_loop_len Anim_parse_block_len)

function subtype_loop :: "token list \<Rightarrow> SubType \<Rightarrow> error + (token list \<times> SubType)" where
  "subtype_loop [] st = Inl (unclosed ''Subtype'')"
| "subtype_loop (BRACE_CLOSE # ts) st = Inr (ts, st)"
| "subtype_loop (NEWLINE # ts) st = subtype_loop ts st"
| "subtype_loop (BRACE_OPEN # ts) st = Inl (unexpected BRACE_OPEN)"
| "subtype_loop (STRING k # ts) st =
     (case subtype_key k ts st of Inl e \<Rightarrow> Inl e | Inr (ts', st') \<Rightarrow> subtype_loop ts' st')"
  by pat_completeness auto
termination
  by (relation "measure (\<lambda>(ts, st). length ts)") (auto dest: subtype_key_len)

lemma subtype_loop_len: "subtype_loop ts st = Inr (ts', st') \<Longrightarrow> length ts' < length ts"
  by (induction ts st rule: subtype_loop.induct) (force split: sum.splits dest: subtype_key_len)+

definition SubType_parse :: "token list \<Rightarrow> error + (token list \<times> SubType)" where
  "SubType_parse ts = and_then (expect_brace_open ts) (\<lambda>ts. subtype_loop ts new_SubType)"

lemma SubType_parse_len: "SubType_parse ts = Inr (ts', st) \<Longrightarrow> length ts' < length ts"
  by (auto simp: SubType_parse_def and_then_Inr_iff dest!: expect_brace_open_len subtype_loop_len)

subsection \<open>The editor block and the properties block\<close>

text \<open>
  \<^verbatim>\<open>Item._BOOL_ATTRS\<close>, from the boolean option in the editor block to the name of
  the attribute of the item that it sets.
\<close>

definition BOOL_ATTRS :: "(string \<times> string) list" where
  "BOOL_ATTRS =
     [(''cananchoronbarriers'', ''anchor_barriers''),
      (''cananchorongoo'', ''anchor_barriers''),
      (''occupiesvoxel'', ''occupies_voxel''),
      (''copyable'', ''copiable''),
      (''deletable'', ''deletable''),
      (''pseudohandle'', ''pseudo_handle'')]"

text \<open>
  \<^verbatim>\<open>setattr(self, attr, value)\<close> for a boolean value, on the attribute names that
  occur in \<open>BOOL_ATTRS\<close>; any other name leaves the modelled fields as they are.
\<close>

definition setattr :: "Item \<Rightarrow> string \<Rightarrow> bool \<Rightarrow> Item" where
  "setattr item attr v =
     (if attr = ''anchor_barriers'' then item\<lparr>anchor_barriers := v\<rparr>
      else if attr = ''anchor_goo'' then item\<lparr>anchor_goo := v\<rparr>
      else if attr = ''occupies_voxel'' then item\<lparr>occupies_voxel := v\<rparr>
      else if attr = ''copiable'' then item\<lparr>copiable := v\<rparr>
      else if attr = ''deletable'' then item\<lparr>deletable := v\<rparr>
      else if attr = ''pseduo_handle'' then item\<lparr>pseduo_handle := v\<rparr>
      else if attr = ''pseudo_handle'' then item\<lparr>pseudo_handle := Some v\<rparr>
      else item)"

text \<open>The words of an \<^verbatim>\<open>InvalidSurface\<close> value, added one by one.\<close>

fun add_surfaces :: "string list \<Rightarrow> Surface list \<Rightarrow> error + Surface list" where
  "add_surfaces [] surf = Inr surf"
| "add_surfaces (word # ws) surf =
     (case Surface_by_name (upper word) of
        None \<Rightarrow> Inl (TokError ''Unknown surface type {}'' [word])
      | Some s \<Rightarrow> add_surfaces ws (List.insert s surf))"

text \<open>\<^verbatim>\<open>Item._parse_editor_block(tok)\<close>. A missing key of \<^verbatim>\<open>PROP_TYPES\<close> raises
  \<^verbatim>\<open>KeyError\<close>, which the handler for \<^verbatim>\<open>ValueError\<close> does not catch.\<close>

definition editor_key :: "registry \<Rightarrow> string \<Rightarrow> token list \<Rightarrow> Item \<Rightarrow> error + (token list \<times> Item)" where
  "editor_key reg k ts item =
     (let folded_key = casefold k in
      if folded_key = ''subtype'' then
        and_then (SubType_parse ts) (\<lambda>(ts, st). Inr (ts, item\<lparr>subtypes := subtypes item @ [st]\<rparr>))
      else if folded_key = ''animations'' then
        and_then (Anim_parse_block (animations item) ts) (\<lambda>(ts, as).
          Inr (ts, item\<lparr>animations := as\<rparr>))
      else if folded_key = ''movementhandle'' then
        and_then (expect_string ts) (\<lambda>(handle_str, ts).
          case Handle_of_value (upper handle_str) of
            None \<Rightarrow> Inl (TokError ''Unknown handle type {}'' [handle_str])
          | Some h \<Rightarrow> Inr (ts, item\<lparr>handle := h\<rparr>))
      else if folded_key = ''invalidsurface'' then
        and_then (expect_string ts) (\<lambda>(v, ts).
          and_then (add_surfaces (split v) (invalid_surf item)) (\<lambda>surf.
            Inr (ts, item\<lparr>invalid_surf := surf\<rparr>)))
      else if folded_key = ''subtypeproperty'' then
        and_then (expect_string ts) (\<lambda>(v, ts).
          case PROP_TYPES reg (casefold v) of
            None \<Rightarrow> Inl (KeyError (casefold v))
          | Some p \<Rightarrow> Inr (ts, item\<lparr>subtype_prop := Some p\<rparr>))
      else if folded_key = ''desiredfacing'' then
        and_then (expect_string ts) (\<lambda>(desired_facing, ts).
          case DesiredFacing_of_value (upper desired_facing) of
            None \<Rightarrow> Inl (TokError ''Unknown desired facing {}'' [desired_facing])
          | Some f \<Rightarrow> Inr (ts, item\<lparr>facing := f\<rparr>))
      else if folded_key = ''rendercolor'' then
        and_then (expect_string ts) (\<lambda>(v, ts). Inr (ts, item))
      else
        (case map_of BOOL_ATTRS folded_key of
           None \<Rightarrow> Inl (TokError ''Unknown editor option {}'' [k])
         | Some attr \<Rightarrow>
             and_then (expect_string ts) (\<lambda>(v, ts). Inr (ts, setattr item attr (conv_bool v False)))))"

lemma editor_key_len: "editor_key reg k ts item = Inr (ts', item') \<Longrightarrow> length ts' < length ts"
  by (auto simp: editor_key_def Let_def and_then_Inr_iff split: if_splits option.splits
      dest!: expect_string_len SubType_parse_len Anim_parse_block_len)

function editor_loop :: "registry \<Rightarrow> token list \<Rightarrow> Item \<Rightarrow> error + (token list \<times> Item)" where
  "editor_loop reg [] item = Inl (unclosed ''Editor'')"
| "editor_loop reg (BRACE_CLOSE # ts) item = Inr (ts, item)"
| "editor_loop reg (NEWLINE # ts) item = editor_loop reg ts item"
| "editor_loop reg (BRACE_OPEN # ts) item = Inl (unexpected BRACE_OPEN)"
| "editor_loop reg (STRING k # ts) item =
     (case editor_key reg k ts item of
        Inl e \<Rightarrow> Inl e
      | Inr (ts', item') \<Rightarrow> editor_loop reg ts' item')"
  by pat_completeness auto
termination
  by (relation "measure (\<lambda>(reg, ts, item). length ts)") (auto dest: editor_key_len)

lemma editor_loop_len: "editor_loop reg ts item = Inr (ts', item') \<Longrightarrow> length ts' < length ts"
  by (induction reg ts item rule: editor_loop.induct)
     (force split: sum.splits dest: editor_key_len)+

definition parse_editor_block :: "registry \<Rightarrow> token list \<Rightarrow> Item \<Rightarrow> error + (token list \<times> Item)" where
  "parse_editor_block reg ts item = and_then (expect_brace_open ts) (\<lambda>ts. editor_loop reg ts item)"

lemma parse_editor_block_len:
  "parse_editor_block reg ts item = Inr (ts', item') \<Longrightarrow> length ts' < length ts"
  by (auto simp: parse_editor_block_def and_then_Inr_iff
      dest!: expect_brace_open_len editor_loop_len)

text \<open>The options of one property: the default, the index and the user-default flag.\<close>

type_synonym prop_state = "string \<times> int \<times> bool"

definition prop_option_key :: "string \<Rightarrow> token list \<Rightarrow> prop_state \<Rightarrow> error + (token list \<times> prop_state)" where
  "prop_option_key k ts st =
     (case st of (dflt, index, user_default) \<Rightarrow>
        let prop_value = casefold k in
        if prop_value = ''defaultvalue'' then
          and_then (expect_string ts) (\<lambda>(v, ts). Inr (ts, (v, index, user_default)))
        else if prop_value = ''index'' then
          and_then (expect_string ts) (\<lambda>(v, ts). Inr (ts, (dflt, conv_int v, user_default)))
        else if prop_value = ''bee2_ignore'' then
          and_then (expect_string ts) (\<lambda>(v, ts). Inr (ts, (dflt, index, conv_bool v user_default)))
        else Inl (TokError ''Unknown property option \"{}\"!'' [prop_value]))"

lemma prop_option_key_len: "prop_option_key k ts st = Inr (ts', st') \<Longrightarrow> length ts' < length ts"
  by (auto simp: prop_option_key_def Let_def and_then_Inr_iff split: if_splits prod.splits
      dest: expect_string_len)

function prop_option_loop :: "string \<Rightarrow> token list \<Rightarrow> prop_state \<Rightarrow> error + (token list \<times> prop_state)" where
  "prop_option_loop prop_str [] st = Inl (unclosed (prop_str @ '' options''))"
| "prop_option_loop prop_str (BRACE_CLOSE # ts) st = Inr (ts, st)"
| "prop_option_loop prop_str (NEWLINE # ts) st = prop_option_loop prop_str ts st"
| "prop_option_loop prop_str (BRACE_OPEN # ts) st = Inl (unexpected BRACE_OPEN)"
| "prop_option_loop prop_str (STRING k # ts) st =
     (case prop_option_key k ts st of
        Inl e \<Rightarrow> Inl e
      | Inr (ts', st') \<Rightarrow> prop_option_loop prop_str ts' st')"
  by pat_completeness auto
termination
  by (relation "measure (\<lambda>(prop_str, ts, st). length ts)") (auto dest: prop_option_key_len)

lemma prop_option_loop_len:
  "prop_option_loop prop_str ts st = Inr (ts', st') \<Longrightarrow> length ts' < length ts"
  by (induction prop_str ts st rule: prop_option_loop.induct)
     (force split: sum.splits dest: prop_option_key_len)+

text \<open>\<^verbatim>\<open>Item._parse_properties_block(tok)\<close>.\<close>

definition property_key :: "registry \<Rightarrow> string \<Rightarrow> token list \<Rightarrow> Item \<Rightarrow> error + (token list \<times> Item)" where
  "property_key reg prop_str ts item =
     (case PROP_TYPES reg (casefold prop_str) of
        None \<Rightarrow> Inl (TokError (''Unknown property \"'' @ prop_str @ ''\"!'') [])
      | Some ptype \<Rightarrow>
          and_then (expect_brace_open ts) (\<lambda>ts.
          and_then (prop_option_loop prop_str ts ('''', 0, True)) (\<lambda>(ts, (dflt, index, user_default)).
            if accepts reg ptype dflt then
              Inr (ts, item\<lparr>properties :=
                AList.update (prop_type_id ptype)
                  \<lparr> prop_type = ptype, prop_default = dflt, prop_index = index,
                    prop_user_default = user_default \<rparr>
                  (properties item)\<rparr>)
            else Inl (TokError ''Default value {} is not valid for {} properties!''
                        [dflt, prop_type_id ptype]))))"

lemma property_key_len: "property_key reg k ts item = Inr (ts', item') \<Longrightarrow> length ts' < length ts"
  by (auto simp: property_key_def and_then_Inr_iff split: if_splits option.splits
      dest!: expect_brace_open_len prop_option_loop_len)

function properties_loop :: "registry \<Rightarrow> token list \<Rightarrow> Item \<Rightarrow> error + (token list \<times> Item)" where
  "properties_loop reg [] item = Inl (unclosed ''Properties'')"
| "properties_loop reg (BRACE_CLOSE # ts) item = Inr (ts, item)"
| "properties_loop reg (NEWLINE # ts) item = properties_loop reg ts item"
| "properties_loop reg (BRACE_OPEN # ts) item = Inl (unexpected BRACE_OPEN)"
| "properties_loop reg (STRING k # ts) item =
     (case property_key reg k ts item of
        Inl e \<Rightarrow> Inl e
      | Inr (ts', item') \<Rightarrow> properties_loop reg ts' item')"
  by pat_completeness auto
termination
  by (relation "measure (\<lambda>(reg, ts, item). length ts)") (auto dest: property_key_len)

lemma properties_loop_len:
  "properties_loop reg ts item = Inr (ts', item') \<Longrightarrow> length ts' < length ts"
  by (induction reg ts item rule: properties_loop.induct)
     (force split: sum.splits dest: property_key_len)+

definition parse_properties_block :: "registry \<Rightarrow> token list \<Rightarrow> Item \<Rightarrow> error + (token list \<times> Item)" where
  "parse_properties_block reg ts item =
     and_then (expect_brace_open ts) (\<lambda>ts. properties_loop reg ts item)"

lemma parse_properties_block_len:
  "parse_properties_block reg ts item = Inr (ts', item') \<Longrightarrow> length ts' < length ts"
  by (auto simp: parse_properties_block_def and_then_Inr_iff
      dest!: expect_brace_open_len properties_loop_len)

subsection \<open>The exporting block\<close>

text \<open>The block form of an instance: the file name found so far and the three counts.\<close>

type_synonym inst_state = "string option \<times> int \<times> int \<times> int"

definition instance_key :: "string \<Rightarrow> token list \<Rightarrow> inst_state \<Rightarrow> error + (token list \<times> inst_state)" where
  "instance_key block_key ts st =
     (case st of (inst_file, ents, brushes, sides) \<Rightarrow>
        let folded_key = casefold block_key in
        if folded_key = ''name'' then
          and_then (expect_string ts) (\<lambda>(v, ts). Inr (ts, (Some v, ents, brushes, sides)))
        else if folded_key = ''entitycount'' then
          and_then (expect_string ts) (\<lambda>(v, ts). Inr (ts, (inst_file, conv_int v, brushes, sides)))
        else if folded_key = ''brushcount'' then
          and_then (expect_string ts) (\<lambda>(v, ts). Inr (ts, (inst_file, ents, conv_int v, sides)))
        else if folded_key = ''brushsidecount'' then
          and_then (expect_string ts) (\<lambda>(v, ts). Inr (ts, (inst_file, ents, brushes, conv_int v)))
        else Inl (TokError ''Unknown instance option {}'' [block_key]))"

lemma instance_key_len: "instance_key k ts st = Inr (ts', st') \<Longrightarrow> length ts' < length ts"
  by (auto simp: instance_key_def Let_def and_then_Inr_iff split: if_splits prod.splits
      dest: expect_string_len)

function instance_loop :: "token list \<Rightarrow> inst_state \<Rightarrow> error + (token list \<times> inst_state)" where
  "instance_loop [] st = Inl (unclosed ''Instances'')"
| "instance_loop (BRACE_CLOSE # ts) st = Inr (ts, st)"
| "instance_loop (NEWLINE # ts) st = instance_loop ts st"
| "instance_loop (BRACE_OPEN # ts) st = Inl (unexpected BRACE_OPEN)"
| "instance_loop (STRING k # ts) st =
     (case instance_key k ts st of Inl e \<Rightarrow> Inl e | Inr (ts', st') \<Rightarrow> instance_loop ts' st')"
  by pat_completeness auto
termination
  by (relation "measure (\<lambda>(ts, st). length ts)") (auto dest: instance_key_len)

lemma instance_loop_len: "instance_loop ts st = Inr (ts', st') \<Longrightarrow> length ts' < length ts"
  by (induction ts st rule: instance_loop.induct)
     (force split: sum.splits dest: instance_key_len)+

text \<open>
  \<^verbatim>\<open>while inst_ind > len(self.instances): self.instances.append(InstCount(FSPath(), 0, 0, 0))\<close>:
  the list grows by one placeholder per turn until the index is no longer beyond it.
\<close>

definition pad_instances :: "int \<Rightarrow> InstCount list \<Rightarrow> InstCount list" where
  "pad_instances inst_ind insts =
     insts @ replicate (nat (inst_ind - int (length insts))) (InstCount empty_path 0 0 0)"

text \<open>
  \<^verbatim>\<open>self.instances[inst_ind] = inst\<close> when the index is not the length of the list:
  Python counts a negative index from the end, and raises \<^verbatim>\<open>IndexError\<close> outside
  the list.
\<close>

definition set_instance :: "InstCount list \<Rightarrow> int \<Rightarrow> InstCount \<Rightarrow> error + InstCount list" where
  "set_instance insts inst_ind v =
     (let n = int (length insts);
          j = (if inst_ind < 0 then n + inst_ind else inst_ind)
      in if 0 \<le> j \<and> j < n then Inr (insts[nat j := v]) else Inl IndexError)"

text \<open>
  The value of a slot, as \<^verbatim>\<open>_parse_instance_block\<close> reads it after the label: a
  block with \<^verbatim>\<open>Name\<close> and the counts, or a bare file name with counts of zero.
\<close>

definition instance_value :: "token list \<Rightarrow> error + (token list \<times> InstCount)" where
  "instance_value ts =
     and_then (next_skipping_newlines ts) (\<lambda>(block_tok, ts).
       case block_tok of
         BRACE_OPEN \<Rightarrow>
           and_then (instance_loop ts (None, 0, 0, 0)) (\<lambda>(ts, (inst_file, ents, brushes, sides)).
             case inst_file of
               None \<Rightarrow> Inl (TokError ''No instance filename provided!'' [])
             | Some f \<Rightarrow> Inr (ts, InstCount (mk_path f) ents brushes sides))
       | STRING inst_file \<Rightarrow> Inr (ts, InstCount (mk_path inst_file) 0 0 0)
       | _ \<Rightarrow> Inl (unexpected block_tok))"

lemma instance_value_len:
  assumes "instance_value ts = Inr (ts', v)"
  shows "length ts' < length ts"
proof -
  from assms obtain block_tok ts1 where n: "next_skipping_newlines ts = Inr (block_tok, ts1)"
    by (auto simp: instance_value_def and_then_Inr_iff)
  from assms n have "length ts' \<le> length ts1"
    by (cases block_tok)
       (auto simp: instance_value_def and_then_Inr_iff split: option.splits
          dest!: instance_loop_len)
  with next_skipping_newlines_len [OF n] show ?thesis by simp
qed

text \<open>
  \<^verbatim>\<open>Item._parse_instance_block(tok, inst_name)\<close>: the label is an index when
  \<^verbatim>\<open>int\<close> accepts it and a name otherwise. The result carries the warnings logged
  so far.
\<close>

definition parse_instance_block ::
  "string \<Rightarrow> token list \<Rightarrow> Item \<Rightarrow> warning list \<Rightarrow> error + (token list \<times> Item \<times> warning list)" where
  "parse_instance_block inst_name0 ts item0 log0 =
     (let inst_ind = py_int inst_name0;
          inst_name = (if inst_ind = None \<and> startswith (casefold inst_name0) ''bee2_''
                       then drop 5 inst_name0 else inst_name0);
          log = (if inst_ind = None \<and> \<not> startswith (casefold inst_name0) ''bee2_''
                 then log0 @ [Warning ''Custom instance names should have bee2_ prefix (line {}, file {})'' []]
                 else log0);
          item = (case inst_ind of
                    None \<Rightarrow> item0
                  | Some i \<Rightarrow> item0\<lparr>instances := pad_instances i (instances item0)\<rparr>)
      in
      and_then (instance_value ts) (\<lambda>(ts, new_inst).
        case inst_ind of
          Some i \<Rightarrow>
            if i = int (length (instances item)) then
              Inr (ts, item\<lparr>instances := instances item @ [new_inst]\<rparr>, log)
            else
              and_then (set_instance (instances item) i new_inst) (\<lambda>insts.
                Inr (ts, item\<lparr>instances := insts\<rparr>, log))
        | None \<Rightarrow>
            Inr (ts, item\<lparr>cust_instances :=
                   AList.update inst_name (inst new_inst) (cust_instances item)\<rparr>, log)))"

lemma parse_instance_block_len:
  assumes "parse_instance_block n ts item log = Inr (ts', item', log')"
  shows "length ts' < length ts"
proof -
  from assms obtain ts1 v where v: "instance_value ts = Inr (ts1, v)"
    by (auto simp: parse_instance_block_def Let_def and_then_Inr_iff)
  from assms v have "ts1 = ts'"
    by (auto simp: parse_instance_block_def Let_def and_then_Inr_iff
        split: option.splits if_splits)
  with instance_value_len [OF v] show ?thesis by simp
qed

text \<open>The loop over the slots of an \<^verbatim>\<open>Instances\<close> block.\<close>

function instances_loop ::
  "token list \<Rightarrow> Item \<Rightarrow> warning list \<Rightarrow> error + (token list \<times> Item \<times> warning list)" where
  "instances_loop [] item log = Inl (unclosed ''Instance'')"
| "instances_loop (BRACE_CLOSE # ts) item log = Inr (ts, item, log)"
| "instances_loop (NEWLINE # ts) item log = instances_loop ts item log"
| "instances_loop (BRACE_OPEN # ts) item log = Inl (unexpected BRACE_OPEN)"
| "instances_loop (STRING inst_name # ts) item log =
     (case parse_instance_block inst_name ts item log of
        Inl e \<Rightarrow> Inl e
      | Inr (ts', item', log') \<Rightarrow> instances_loop ts' item' log')"
  by pat_completeness auto
termination
  by (relation "measure (\<lambda>(ts, item, log). length ts)") (auto dest: parse_instance_block_len)

lemma instances_loop_len:
  "instances_loop ts item log = Inr (ts', item', log') \<Longrightarrow> length ts' < length ts"
  by (induction ts item log rule: instances_loop.induct)
     (force split: sum.splits dest: parse_instance_block_len)+

text \<open>\<^verbatim>\<open>Item._parse_connection_points(tok)\<close>: the keys of one \<^verbatim>\<open>Point\<close>, with the
  direction, the position, the signage position, the group and the priority so far.\<close>

type_synonym point_state = "ConnSide option \<times> Coord option \<times> Coord option \<times> int option \<times> int"

definition point_key :: "string \<Rightarrow> token list \<Rightarrow> point_state \<Rightarrow> error + (token list \<times> point_state)" where
  "point_key conn_key ts st =
     (case st of (direction, position, sign_pos, group_id, prio) \<Rightarrow>
        let folded_key = casefold conn_key in
        if folded_key = ''dir'' then
          and_then (expect_string ts) (\<lambda>(v, ts).
            and_then (ConnSide_parse v) (\<lambda>d. Inr (ts, (Some d, position, sign_pos, group_id, prio))))
        else if folded_key = ''pos'' then
          and_then (expect_string ts) (\<lambda>(v, ts).
            and_then (Coord_parse v) (\<lambda>c. Inr (ts, (direction, Some c, sign_pos, group_id, prio))))
        else if folded_key = ''signageoffset'' then
          and_then (expect_string ts) (\<lambda>(v, ts).
            and_then (Coord_parse v) (\<lambda>c. Inr (ts, (direction, position, Some c, group_id, prio))))
        else if folded_key = ''priority'' then
          and_then (expect_string ts) (\<lambda>(v, ts).
            Inr (ts, (direction, position, sign_pos, group_id, conv_int v)))
        else if folded_key = ''groupid'' then
          and_then (expect_string ts) (\<lambda>(v, ts).
            Inr (ts, (direction, position, sign_pos, Some (conv_int v), prio)))
        else Inl (TokError ''Unknown point option \"{}\"!'' [folded_key]))"

lemma point_key_len: "point_key k ts st = Inr (ts', st') \<Longrightarrow> length ts' < length ts"
  by (auto simp: point_key_def Let_def and_then_Inr_iff split: if_splits prod.splits
      dest: expect_string_len)

function point_loop :: "token list \<Rightarrow> point_state \<Rightarrow> error + (token list \<times> point_state)" where
  "point_loop [] st = Inl (unclosed ''Point'')"
| "point_loop (BRACE_CLOSE # ts) st = Inr (ts, st)"
| "point_loop (NEWLINE # ts) st = point_loop ts st"
| "point_loop (BRACE_OPEN # ts) st = Inl (unexpected BRACE_OPEN)"
| "point_loop (STRING k # ts) st =
     (case point_key k ts st of Inl e \<Rightarrow> Inl e | Inr (ts', st') \<Rightarrow> point_loop ts' st')"
  by pat_completeness auto
termination
  by (relation "measure (\<lambda>(ts, st). length ts)") (auto dest: point_key_len)

lemma point_loop_len: "point_loop ts st = Inr (ts', st') \<Longrightarrow> length ts' < length ts"
  by (induction ts st rule: point_loop.induct)
     (force split: sum.splits dest: point_key_len)+

definition connection_point_key :: "string \<Rightarrow> token list \<Rightarrow> Item \<Rightarrow> error + (token list \<times> Item)" where
  "connection_point_key point_key_name ts item =
     (if casefold point_key_name \<noteq> ''point'' then
        Inl (TokError ''Unknown connection point \"{}\"!'' [point_key_name])
      else
        and_then (expect_brace_open ts) (\<lambda>ts.
        and_then (point_loop ts (None, None, None, None, 0)) (\<lambda>(ts, (direction, position, sign_pos, group_id, prio)).
          case direction of
            None \<Rightarrow> Inl (TokError ''No direction for connection point!'' [])
          | Some d \<Rightarrow>
          (case position of
            None \<Rightarrow> Inl (TokError ''No position for connection point!'' [])
          | Some p \<Rightarrow>
          (case sign_pos of
            None \<Rightarrow> Inl (TokError ''No signage position for connection point!'' [])
          | Some s \<Rightarrow>
              Inr (ts, item\<lparr>antline_points :=
                     (antline_points item)(d := antline_points item d @ [AntlinePoint p s prio group_id])\<rparr>))))))"

lemma connection_point_key_len:
  assumes "connection_point_key k ts item = Inr (ts', item')"
  shows "length ts' < length ts"
proof -
  from assms obtain ts1 where b: "expect_brace_open ts = Inr ts1"
    by (auto simp: connection_point_key_def and_then_Inr_iff split: if_splits)
  from assms b obtain ts2 st where l: "point_loop ts1 (None, None, None, None, 0) = Inr (ts2, st)"
    by (auto simp: connection_point_key_def and_then_Inr_iff split: if_splits)
  obtain d p s g pr where st: "st = (d, p, s, g, pr)" by (cases st)
  from assms b l have "ts2 = ts'"
    by (simp add: connection_point_key_def st split: if_splits option.splits)
  with expect_brace_open_len [OF b] point_loop_len [OF l] show ?thesis by simp
qed

function connection_points_loop :: "token list \<Rightarrow> Item \<Rightarrow> error + (token list \<times> Item)" where
  "connection_points_loop [] item = Inl (unclosed ''ConnectionPoints'')"
| "connection_points_loop (BRACE_CLOSE # ts) item = Inr (ts, item)"
| "connection_points_loop (NEWLINE # ts) item = connection_points_loop ts item"
| "connection_points_loop (BRACE_OPEN # ts) item = Inl (unexpected BRACE_OPEN)"
| "connection_points_loop (STRING k # ts) item =
     (case connection_point_key k ts item of
        Inl e \<Rightarrow> Inl e
      | Inr (ts', item') \<Rightarrow> connection_points_loop ts' item')"
  by pat_completeness auto
termination
  by (relation "measure (\<lambda>(ts, item). length ts)") (auto dest: connection_point_key_len)

lemma connection_points_loop_len:
  "connection_points_loop ts item = Inr (ts', item') \<Longrightarrow> length ts' < length ts"
  by (induction ts item rule: connection_points_loop.induct)
     (force split: sum.splits dest: connection_point_key_len)+

definition parse_connection_points :: "token list \<Rightarrow> Item \<Rightarrow> error + (token list \<times> Item)" where
  "parse_connection_points ts item =
     and_then (expect_brace_open ts) (\<lambda>ts. connection_points_loop ts item)"

lemma parse_connection_points_len:
  "parse_connection_points ts item = Inr (ts', item') \<Longrightarrow> length ts' < length ts"
  by (auto simp: parse_connection_points_def and_then_Inr_iff
      dest!: expect_brace_open_len connection_points_loop_len)

text \<open>\<^verbatim>\<open>Item._parse_embedded_voxels(tok)\<close>: the two corners of a \<^verbatim>\<open>Volume\<close>.\<close>

definition volume_key ::
  "string \<Rightarrow> token list \<Rightarrow> Coord option \<times> Coord option \<Rightarrow> error + (token list \<times> Coord option \<times> Coord option)" where
  "volume_key pos_key ts st =
     (case st of (pos_1, pos_2) \<Rightarrow>
        if casefold pos_key = ''pos1'' then
          and_then (expect_string ts) (\<lambda>(v, ts).
            and_then (Coord_parse v) (\<lambda>c. Inr (ts, (Some c, pos_2))))
        else if casefold pos_key = ''pos2'' then
          and_then (expect_string ts) (\<lambda>(v, ts).
            and_then (Coord_parse v) (\<lambda>c. Inr (ts, (pos_1, Some c))))
        else Inl (TokError ''Unknown volume key \"{}\"!'' [pos_key]))"

lemma volume_key_len: "volume_key k ts st = Inr (ts', st') \<Longrightarrow> length ts' < length ts"
  by (auto simp: volume_key_def and_then_Inr_iff split: if_splits prod.splits
      dest: expect_string_len)

function volume_loop ::
  "token list \<Rightarrow> Coord option \<times> Coord option \<Rightarrow> error + (token list \<times> Coord option \<times> Coord option)" where
  "volume_loop [] st = Inl (unclosed ''EmbeddedVolume'')"
| "volume_loop (BRACE_CLOSE # ts) st = Inr (ts, st)"
| "volume_loop (NEWLINE # ts) st = volume_loop ts st"
| "volume_loop (BRACE_OPEN # ts) st = Inl (unexpected BRACE_OPEN)"
| "volume_loop (STRING k # ts) st =
     (case volume_key k ts st of Inl e \<Rightarrow> Inl e | Inr (ts', st') \<Rightarrow> volume_loop ts' st')"
  by pat_completeness auto
termination
  by (relation "measure (\<lambda>(ts, st). length ts)") (auto dest: volume_key_len)

lemma volume_loop_len: "volume_loop ts st = Inr (ts', st') \<Longrightarrow> length ts' < length ts"
  by (induction ts st rule: volume_loop.induct)
     (force split: sum.splits dest: volume_key_len)+

text \<open>
  The three nested loops that add the points of a volume to the set of voxels:
  \<^verbatim>\<open>for x in vol_x: for y in vol_y: for z in vol_z: self.embed_voxels.add(Coord(x, y, z))\<close>.
\<close>

definition volume_coords :: "Coord \<Rightarrow> Coord \<Rightarrow> Coord list" where
  "volume_coords pos_1 pos_2 =
     (let vol_x = py_range (min (cx pos_1) (cx pos_2)) (max (cx pos_1) (cx pos_2) + 1);
          vol_y = py_range (min (cy pos_1) (cy pos_2)) (max (cy pos_1) (cy pos_2) + 1);
          vol_z = py_range (min (cz pos_1) (cz pos_2)) (max (cz pos_1) (cz pos_2) + 1)
      in concat (map (\<lambda>x. concat (map (\<lambda>y. map (\<lambda>z. Coord x y z) vol_z) vol_y)) vol_x))"

definition add_voxels :: "Coord list \<Rightarrow> Coord list \<Rightarrow> Coord list" where
  "add_voxels cs voxels = fold List.insert cs voxels"

text \<open>The keys of a single \<^verbatim>\<open>Voxel\<close>.\<close>

definition voxel_key :: "string \<Rightarrow> token list \<Rightarrow> Item \<Rightarrow> error + (token list \<times> Item)" where
  "voxel_key pos_key ts item =
     (if casefold pos_key = ''pos'' then
        and_then (expect_string ts) (\<lambda>(v, ts).
          and_then (Coord_parse v) (\<lambda>c.
            Inr (ts, item\<lparr>embed_voxels := List.insert c (embed_voxels item)\<rparr>)))
      else Inl (TokError ''Unknown voxel key \"{}\"!'' [pos_key]))"

lemma voxel_key_len: "voxel_key k ts item = Inr (ts', item') \<Longrightarrow> length ts' < length ts"
  by (auto simp: voxel_key_def and_then_Inr_iff split: if_splits dest: expect_string_len)

function voxel_loop :: "token list \<Rightarrow> Item \<Rightarrow> error + (token list \<times> Item)" where
  "voxel_loop [] item = Inl (unclosed ''EmbeddedVoxel'')"
| "voxel_loop (BRACE_CLOSE # ts) item = Inr (ts, item)"
| "voxel_loop (NEWLINE # ts) item = voxel_loop ts item"
| "voxel_loop (BRACE_OPEN # ts) item = Inl (unexpected BRACE_OPEN)"
| "voxel_loop (STRING k # ts) item =
     (case voxel_key k ts item of Inl e \<Rightarrow> Inl e | Inr (ts', item') \<Rightarrow> voxel_loop ts' item')"
  by pat_completeness auto
termination
  by (relation "measure (\<lambda>(ts, item). length ts)") (auto dest: voxel_key_len)

lemma voxel_loop_len: "voxel_loop ts item = Inr (ts', item') \<Longrightarrow> length ts' < length ts"
  by (induction ts item rule: voxel_loop.induct)
     (force split: sum.splits dest: voxel_key_len)+

text \<open>The keys of the \<^verbatim>\<open>EmbeddedVoxels\<close> block. A key that is neither \<^verbatim>\<open>Volume\<close>
  nor \<^verbatim>\<open>Voxel\<close> matches no branch, and the loop goes on to the next token.\<close>

definition embedded_voxel_key :: "string \<Rightarrow> token list \<Rightarrow> Item \<Rightarrow> error + (token list \<times> Item)" where
  "embedded_voxel_key embed_key ts item =
     (let folded_key = casefold embed_key in
      if folded_key = ''volume'' then
        and_then (expect_brace_open ts) (\<lambda>ts.
        and_then (volume_loop ts (None, None)) (\<lambda>(ts, (pos_1, pos_2)).
          case (pos_1, pos_2) of
            (Some p1, Some p2) \<Rightarrow>
              Inr (ts, item\<lparr>embed_voxels := add_voxels (volume_coords p1 p2) (embed_voxels item)\<rparr>)
          | _ \<Rightarrow> Inl (TokError ''Missing coordinate for volume!'' [])))
      else if folded_key = ''voxel'' then
        and_then (expect_brace_open ts) (\<lambda>ts. voxel_loop ts item)
      else Inr (ts, item))"

lemma embedded_voxel_key_len:
  assumes "embedded_voxel_key k ts item = Inr (ts', item')"
  shows "length ts' \<le> length ts"
proof (cases "casefold k = ''volume''")
  case True
  from assms True obtain ts1 where b: "expect_brace_open ts = Inr ts1"
    by (auto simp: embedded_voxel_key_def and_then_Inr_iff)
  from assms True b obtain ts2 st where l: "volume_loop ts1 (None, None) = Inr (ts2, st)"
    by (auto simp: embedded_voxel_key_def and_then_Inr_iff)
  obtain p1 p2 where st: "st = (p1, p2)" by (cases st)
  from assms True b l have "ts2 = ts'"
    by (simp add: embedded_voxel_key_def st split: option.splits)
  with expect_brace_open_len [OF b] volume_loop_len [OF l] show ?thesis by simp
next
  case False
  with assms show ?thesis
    by (auto simp: embedded_voxel_key_def and_then_Inr_iff split: if_splits
        dest!: expect_brace_open_len voxel_loop_len)
qed

function embedded_voxels_loop :: "token list \<Rightarrow> Item \<Rightarrow> error + (token list \<times> Item)" where
  "embedded_voxels_loop [] item = Inl (unclosed ''EmbeddedVoxels'')"
| "embedded_voxels_loop (BRACE_CLOSE # ts) item = Inr (ts, item)"
| "embedded_voxels_loop (NEWLINE # ts) item = embedded_voxels_loop ts item"
| "embedded_voxels_loop (BRACE_OPEN # ts) item = Inl (unexpected BRACE_OPEN)"
| "embedded_voxels_loop (STRING k # ts) item =
     (case embedded_voxel_key k ts item of
        Inl e \<Rightarrow> Inl e
      | Inr (ts', item') \<Rightarrow> embedded_voxels_loop ts' item')"
  by pat_completeness auto
termination
  by (relation "measure (\<lambda>(ts, item). length ts)") (auto dest: embedded_voxel_key_len)

lemma embedded_voxels_loop_len:
  "embedded_voxels_loop ts item = Inr (ts', item') \<Longrightarrow> length ts' < length ts"
  by (induction ts item rule: embedded_voxels_loop.induct)
     (force split: sum.splits dest: embedded_voxel_key_len)+

definition parse_embedded_voxels :: "token list \<Rightarrow> Item \<Rightarrow> error + (token list \<times> Item)" where
  "parse_embedded_voxels ts item =
     and_then (expect_brace_open ts) (\<lambda>ts. embedded_voxels_loop ts item)"

lemma parse_embedded_voxels_len:
  "parse_embedded_voxels ts item = Inr (ts', item') \<Longrightarrow> length ts' < length ts"
  by (auto simp: parse_embedded_voxels_def and_then_Inr_iff
      dest!: expect_brace_open_len embedded_voxels_loop_len)

text \<open>\<^verbatim>\<open>Item._parse_embed_faces(tok)\<close>: the options of a \<^verbatim>\<open>Solid\<close>.\<close>

type_synonym solid_state = "Vec option \<times> Vec option \<times> FaceType"

definition solid_key :: "string \<Rightarrow> token list \<Rightarrow> solid_state \<Rightarrow> error + (token list \<times> solid_state)" where
  "solid_key opt_key ts st =
     (case st of (center, size_vec, grid) \<Rightarrow>
        let folded_key = casefold opt_key in
        if folded_key = ''center'' then
          and_then (expect_string ts) (\<lambda>(v, ts). Inr (ts, (Some (Vec_from_str v), size_vec, grid)))
        else if folded_key = ''dimensions'' then
          and_then (expect_string ts) (\<lambda>(v, ts). Inr (ts, (center, Some (Vec_from_str v), grid)))
        else if folded_key = ''grid'' then
          and_then (expect_string ts) (\<lambda>(grid_str, ts).
            case FACE_TYPES (casefold grid_str) of
              None \<Rightarrow> Inl (TokError ''Unknown face type \"{}\"!'' [grid_str])
            | Some g \<Rightarrow> Inr (ts, (center, size_vec, g)))
        else Inl (TokError ''Unknown Embed Face option \"{}\"!'' [opt_key]))"

lemma solid_key_len: "solid_key k ts st = Inr (ts', st') \<Longrightarrow> length ts' < length ts"
  by (auto simp: solid_key_def Let_def and_then_Inr_iff split: if_splits prod.splits option.splits
      dest: expect_string_len)

function solid_loop :: "token list \<Rightarrow> solid_state \<Rightarrow> error + (token list \<times> solid_state)" where
  "solid_loop [] st = Inl (unclosed ''Solid'')"
| "solid_loop (BRACE_CLOSE # ts) st = Inr (ts, st)"
| "solid_loop (NEWLINE # ts) st = solid_loop ts st"
| "solid_loop (BRACE_OPEN # ts) st = Inl (unexpected BRACE_OPEN)"
| "solid_loop (STRING k # ts) st =
     (case solid_key k ts st of Inl e \<Rightarrow> Inl e | Inr (ts', st') \<Rightarrow> solid_loop ts' st')"
  by pat_completeness auto
termination
  by (relation "measure (\<lambda>(ts, st). length ts)") (auto dest: solid_key_len)

lemma solid_loop_len: "solid_loop ts st = Inr (ts', st') \<Longrightarrow> length ts' < length ts"
  by (induction ts st rule: solid_loop.induct)
     (force split: sum.splits dest: solid_key_len)+

definition embed_face_key :: "string \<Rightarrow> token list \<Rightarrow> Item \<Rightarrow> error + (token list \<times> Item)" where
  "embed_face_key solid_key_name ts item =
     (if casefold solid_key_name \<noteq> ''solid'' then
        Inl (TokError ''Unknown Embed Face type \"{}\"!'' [solid_key_name])
      else
        and_then (expect_brace_open ts) (\<lambda>ts.
        and_then (solid_loop ts (None, None, NORMAL)) (\<lambda>(ts, (center, size_vec, grid)).
          case center of
            None \<Rightarrow> Inl (TokError ''No position specified for embedded face!'' [])
          | Some c \<Rightarrow>
          (case size_vec of
            None \<Rightarrow> Inl (TokError ''No size specified for embedded face!'' [])
          | Some s \<Rightarrow> Inr (ts, item\<lparr>embed_faces := embed_faces item @ [EmbedFace c s grid]\<rparr>)))))"

lemma embed_face_key_len:
  assumes "embed_face_key k ts item = Inr (ts', item')"
  shows "length ts' < length ts"
proof -
  from assms obtain ts1 where b: "expect_brace_open ts = Inr ts1"
    by (auto simp: embed_face_key_def and_then_Inr_iff split: if_splits)
  from assms b obtain ts2 st where l: "solid_loop ts1 (None, None, NORMAL) = Inr (ts2, st)"
    by (auto simp: embed_face_key_def and_then_Inr_iff split: if_splits)
  obtain c s g where st: "st = (c, s, g)" by (cases st)
  from assms b l have "ts2 = ts'"
    by (simp add: embed_face_key_def st split: if_splits option.splits)
  with expect_brace_open_len [OF b] solid_loop_len [OF l] show ?thesis by simp
qed

function embed_faces_loop :: "token list \<Rightarrow> Item \<Rightarrow> error + (token list \<times> Item)" where
  "embed_faces_loop [] item = Inl (unclosed ''EmbedFace'')"
| "embed_faces_loop (BRACE_CLOSE # ts) item = Inr (ts, item)"
| "embed_faces_loop (NEWLINE # ts) item = embed_faces_loop ts item"
| "embed_faces_loop (BRACE_OPEN # ts) item = Inl (unexpected BRACE_OPEN)"
| "embed_faces_loop (STRING k # ts) item =
     (case embed_face_key k ts item of
        Inl e \<Rightarrow> Inl e
      | Inr (ts', item') \<Rightarrow> embed_faces_loop ts' item')"
  by pat_completeness auto
termination
  by (relation "measure (\<lambda>(ts, item). length ts)") (auto dest: embed_face_key_len)

lemma embed_faces_loop_len:
  "embed_faces_loop ts item = Inr (ts', item') \<Longrightarrow> length ts' < length ts"
  by (induction ts item rule: embed_faces_loop.induct)
     (force split: sum.splits dest: embed_face_key_len)+

definition parse_embed_faces :: "token list \<Rightarrow> Item \<Rightarrow> error + (token list \<times> Item)" where
  "parse_embed_faces ts item = and_then (expect_brace_open ts) (\<lambda>ts. embed_faces_loop ts item)"

lemma parse_embed_faces_len:
  "parse_embed_faces ts item = Inr (ts', item') \<Longrightarrow> length ts' < length ts"
  by (auto simp: parse_embed_faces_def and_then_Inr_iff
      dest!: expect_brace_open_len embed_faces_loop_len)

text \<open>\<^verbatim>\<open>Item._parse_overlay(tok)\<close>.\<close>

type_synonym overlay_state = "Vec option \<times> Vec option \<times> string \<times> int"

definition overlay_key :: "string \<Rightarrow> token list \<Rightarrow> overlay_state \<Rightarrow> error + (token list \<times> overlay_state)" where
  "overlay_key opt_key ts st =
     (case st of (center, size_vec, mat, rot) \<Rightarrow>
        let folded_key = casefold opt_key in
        if folded_key = ''center'' then
          and_then (expect_string ts) (\<lambda>(v, ts). Inr (ts, (Some (Vec_from_str v), size_vec, mat, rot)))
        else if folded_key = ''dimensions'' then
          and_then (expect_string ts) (\<lambda>(v, ts). Inr (ts, (center, Some (Vec_from_str v), mat, rot)))
        else if folded_key = ''material'' then
          and_then (expect_string ts) (\<lambda>(v, ts). Inr (ts, (center, size_vec, v, rot)))
        else if folded_key = ''rotation'' then
          and_then (expect_string ts) (\<lambda>(v, ts). Inr (ts, (center, size_vec, mat, conv_int v)))
        else Inl (TokError ''Unknown Overlay option \"{}\"!'' [opt_key]))"

lemma overlay_key_len: "overlay_key k ts st = Inr (ts', st') \<Longrightarrow> length ts' < length ts"
  by (auto simp: overlay_key_def Let_def and_then_Inr_iff split: if_splits prod.splits
      dest: expect_string_len)

function overlay_loop :: "token list \<Rightarrow> overlay_state \<Rightarrow> error + (token list \<times> overlay_state)" where
  "overlay_loop [] st = Inl (unclosed ''Overlay'')"
| "overlay_loop (BRACE_CLOSE # ts) st = Inr (ts, st)"
| "overlay_loop (NEWLINE # ts) st = overlay_loop ts st"
| "overlay_loop (BRACE_OPEN # ts) st = Inl (unexpected BRACE_OPEN)"
| "overlay_loop (STRING k # ts) st =
     (case overlay_key k ts st of Inl e \<Rightarrow> Inl e | Inr (ts', st') \<Rightarrow> overlay_loop ts' st')"
  by pat_completeness auto
termination
  by (relation "measure (\<lambda>(ts, st). length ts)") (auto dest: overlay_key_len)

lemma overlay_loop_len: "overlay_loop ts st = Inr (ts', st') \<Longrightarrow> length ts' < length ts"
  by (induction ts st rule: overlay_loop.induct)
     (force split: sum.splits dest: overlay_key_len)+

definition parse_overlay :: "token list \<Rightarrow> Item \<Rightarrow> error + (token list \<times> Item)" where
  "parse_overlay ts item =
     and_then (expect_brace_open ts) (\<lambda>ts.
     and_then (overlay_loop ts (None, None, '''', 0)) (\<lambda>(ts, (center, size_vec, mat, rot)).
       case center of
         None \<Rightarrow> Inl (TokError ''No position specified for overlay!'' [])
       | Some c \<Rightarrow>
       (case size_vec of
         None \<Rightarrow> Inl (TokError ''No size specified for overlay!'' [])
       | Some s \<Rightarrow> Inr (ts, item\<lparr>overlays := overlays item @ [Overlay mat c s rot]\<rparr>))))"

lemma parse_overlay_len:
  assumes "parse_overlay ts item = Inr (ts', item')"
  shows "length ts' < length ts"
proof -
  from assms obtain ts1 where b: "expect_brace_open ts = Inr ts1"
    by (auto simp: parse_overlay_def and_then_Inr_iff)
  from assms b obtain ts2 st where l: "overlay_loop ts1 (None, None, '''', 0) = Inr (ts2, st)"
    by (auto simp: parse_overlay_def and_then_Inr_iff)
  obtain c s m r where st: "st = (c, s, m, r)" by (cases st)
  from assms b l have "ts2 = ts'"
    by (simp add: parse_overlay_def st split: option.splits)
  with expect_brace_open_len [OF b] overlay_loop_len [OF l] show ?thesis by simp
qed

text \<open>
  The loop that skips the block of an unknown export option:
  \<^verbatim>\<open>for token, tok_value in tok:\<close> counts the braces and leaves at the closing brace
  that brings the level to zero or below; the iteration ends silently at the end of the
  input.
\<close>

fun skip_block :: "token list \<Rightarrow> int \<Rightarrow> token list" where
  "skip_block [] level = []"
| "skip_block (BRACE_OPEN # ts) level = skip_block ts (level + 1)"
| "skip_block (BRACE_CLOSE # ts) level = (if level - 1 \<le> 0 then ts else skip_block ts (level - 1))"
| "skip_block (t # ts) level = skip_block ts level"

lemma skip_block_len: "length (skip_block ts level) \<le> length ts"
  by (induction ts level rule: skip_block.induct) auto

text \<open>\<^verbatim>\<open>Item._parse_export_block(tok)\<close>.\<close>

definition export_key ::
  "string \<Rightarrow> token list \<Rightarrow> Item \<Rightarrow> warning list \<Rightarrow> error + (token list \<times> Item \<times> warning list)" where
  "export_key k ts item log =
     (let folded_key = casefold k in
      if folded_key = ''targetname'' then
        and_then (expect_string ts) (\<lambda>(v, ts). Inr (ts, item\<lparr>targetname := v\<rparr>, log))
      else if folded_key = ''offset'' then
        and_then (expect_string ts) (\<lambda>(v, ts). Inr (ts, item\<lparr>offset := Vec_from_str v\<rparr>, log))
      else if folded_key = ''instances'' then
        and_then (expect_brace_open ts) (\<lambda>ts. instances_loop ts item log)
      else if folded_key = ''connectionpoints'' then
        and_then (parse_connection_points ts item) (\<lambda>(ts, item). Inr (ts, item, log))
      else if folded_key = ''embeddedvoxels'' then
        and_then (parse_embedded_voxels ts item) (\<lambda>(ts, item). Inr (ts, item, log))
      else if folded_key = ''embedface'' then
        and_then (parse_embed_faces ts item) (\<lambda>(ts, item). Inr (ts, item, log))
      else if folded_key = ''overlay'' then
        and_then (parse_overlay ts item) (\<lambda>(ts, item). Inr (ts, item, log))
      else Inr (skip_block ts 0, item, log))"

lemma export_key_len:
  "export_key k ts item log = Inr (ts', item', log') \<Longrightarrow> length ts' \<le> length ts"
  using skip_block_len [of ts 0]
  by (auto simp: export_key_def Let_def and_then_Inr_iff split: if_splits
      dest!: expect_string_len expect_brace_open_len instances_loop_len
        parse_connection_points_len parse_embedded_voxels_len parse_embed_faces_len
        parse_overlay_len)

function export_loop ::
  "token list \<Rightarrow> Item \<Rightarrow> warning list \<Rightarrow> error + (token list \<times> Item \<times> warning list)" where
  "export_loop [] item log = Inl (unclosed ''Exporting'')"
| "export_loop (BRACE_CLOSE # ts) item log = Inr (ts, item, log)"
| "export_loop (NEWLINE # ts) item log = export_loop ts item log"
| "export_loop (BRACE_OPEN # ts) item log = Inl (unexpected BRACE_OPEN)"
| "export_loop (STRING k # ts) item log =
     (case export_key k ts item log of
        Inl e \<Rightarrow> Inl e
      | Inr (ts', item', log') \<Rightarrow> export_loop ts' item' log')"
  by pat_completeness auto
termination
  by (relation "measure (\<lambda>(ts, item, log). length ts)") (auto dest: export_key_len)

lemma export_loop_len:
  "export_loop ts item log = Inr (ts', item', log') \<Longrightarrow> length ts' < length ts"
  by (induction ts item log rule: export_loop.induct)
     (force split: sum.splits dest: export_key_len)+

definition parse_export_block ::
  "token list \<Rightarrow> Item \<Rightarrow> warning list \<Rightarrow> error + (token list \<times> Item \<times> warning list)" where
  "parse_export_block ts item log = and_then (expect_brace_open ts) (\<lambda>ts. export_loop ts item log)"

lemma parse_export_block_len:
  "parse_export_block ts item log = Inr (ts', item', log') \<Longrightarrow> length ts' < length ts"
  by (auto simp: parse_export_block_def and_then_Inr_iff
      dest!: expect_brace_open_len export_loop_len)

subsection \<open>Items and the whole file\<close>

text \<open>
  \<^verbatim>\<open>Item.parse_one(tok)\<close>: the loop \<^verbatim>\<open>for token, tok_value in tok:\<close> over the tokens of
  the item, which returns at the closing brace, and the error after the loop when the
  input ends first.
\<close>

definition item_key ::
  "registry \<Rightarrow> string \<Rightarrow> token list \<Rightarrow> Item \<Rightarrow> warning list \<Rightarrow> error + (token list \<times> Item \<times> warning list)" where
  "item_key reg k ts item log =
     (let tok_value = casefold k in
      if tok_value = ''type'' then
        if item_id item \<noteq> '''' then Inl (TokError ''Item ID (Type) set multiple times!'' [])
        else
          and_then (expect_string ts) (\<lambda>(v, ts).
            if upper v = '''' then Inl (TokError ''Invalid item ID (Type) \"{}\"'' [upper v])
            else Inr (ts, item\<lparr>item_id := upper v\<rparr>, log))
      else if tok_value = ''itemclass'' then
        and_then (expect_string ts) (\<lambda>(item_class, ts).
          case ITEM_CLASSES (casefold item_class) of
            None \<Rightarrow> Inl (TokError ''Unknown item class {}!'' [item_class])
          | Some c \<Rightarrow> Inr (ts, item\<lparr>cls := c\<rparr>, log))
      else if tok_value = ''editor'' then
        and_then (parse_editor_block reg ts item) (\<lambda>(ts, item). Inr (ts, item, log))
      else if tok_value = ''properties'' then
        and_then (parse_properties_block reg ts item) (\<lambda>(ts, item). Inr (ts, item, log))
      else if tok_value = ''exporting'' then parse_export_block ts item log
      else if tok_value = ''author'' \<or> tok_value = ''description'' \<or> tok_value = ''filter'' then
        and_then (expect_string ts) (\<lambda>(v, ts). Inr (ts, item, log))
      else Inl (TokError ''Unexpected item option \"{}\"!'' [tok_value]))"

lemma item_key_len:
  "item_key reg k ts item log = Inr (ts', item', log') \<Longrightarrow> length ts' < length ts"
  by (auto simp: item_key_def Let_def and_then_Inr_iff split: if_splits option.splits
      dest!: expect_string_len parse_editor_block_len parse_properties_block_len
        parse_export_block_len)

function item_loop ::
  "registry \<Rightarrow> token list \<Rightarrow> Item \<Rightarrow> warning list \<Rightarrow> error + (token list \<times> Item \<times> warning list)" where
  "item_loop reg [] item log = Inl (TokError ''File ended without closing item block!'' [])"
| "item_loop reg (BRACE_CLOSE # ts) item log =
     (if item_id item = '''' then Inl (TokError ''No item ID (Type) set!'' [])
      else Inr (ts, item, log))"
| "item_loop reg (NEWLINE # ts) item log = item_loop reg ts item log"
| "item_loop reg (BRACE_OPEN # ts) item log = Inl (unexpected BRACE_OPEN)"
| "item_loop reg (STRING k # ts) item log =
     (case item_key reg k ts item log of
        Inl e \<Rightarrow> Inl e
      | Inr (ts', item', log') \<Rightarrow> item_loop reg ts' item' log')"
  by pat_completeness auto
termination
  by (relation "measure (\<lambda>(reg, ts, item, log). length ts)") (auto dest: item_key_len)

lemma item_loop_len:
  "item_loop reg ts item log = Inr (ts', item', log') \<Longrightarrow> length ts' < length ts"
  by (induction reg ts item log rule: item_loop.induct)
     (force split: sum.splits if_splits dest: item_key_len)+

definition parse_one ::
  "registry \<Rightarrow> token list \<Rightarrow> warning list \<Rightarrow> error + (token list \<times> Item \<times> warning list)" where
  "parse_one reg ts log =
     and_then (expect_brace_open ts) (\<lambda>ts. item_loop reg ts (new_Item '''' UNCLASSED) log)"

lemma parse_one_len: "parse_one reg ts log = Inr (ts', item, log') \<Longrightarrow> length ts' < length ts"
  by (auto simp: parse_one_def and_then_Inr_iff dest!: expect_brace_open_len item_loop_len)

text \<open>The \<^verbatim>\<open>Renderables\<close> block of the file; the state is the dictionary of icons.\<close>

definition renderables_key ::
  "string \<Rightarrow> token list \<Rightarrow> (RenderableType \<times> Renderable) list \<Rightarrow>
     error + (token list \<times> (RenderableType \<times> Renderable) list)" where
  "renderables_key render_block ts icons =
     (if casefold render_block \<noteq> ''item'' then Inl (TokError ''Unknown block \"{}\"!'' [render_block])
      else and_then (Renderable_parse ts) (\<lambda>(ts, ico).
             Inr (ts, AList.update (rend_type ico) ico icons)))"

lemma renderables_key_len:
  "renderables_key k ts icons = Inr (ts', icons') \<Longrightarrow> length ts' < length ts"
  by (auto simp: renderables_key_def and_then_Inr_iff split: if_splits
      dest!: Renderable_parse_len)

function renderables_loop ::
  "token list \<Rightarrow> (RenderableType \<times> Renderable) list \<Rightarrow>
     error + (token list \<times> (RenderableType \<times> Renderable) list)" where
  "renderables_loop [] icons = Inl (unclosed ''Renderables'')"
| "renderables_loop (BRACE_CLOSE # ts) icons = Inr (ts, icons)"
| "renderables_loop (NEWLINE # ts) icons = renderables_loop ts icons"
| "renderables_loop (BRACE_OPEN # ts) icons = Inl (unexpected BRACE_OPEN)"
| "renderables_loop (STRING k # ts) icons =
     (case renderables_key k ts icons of
        Inl e \<Rightarrow> Inl e
      | Inr (ts', icons') \<Rightarrow> renderables_loop ts' icons')"
  by pat_completeness auto
termination
  by (relation "measure (\<lambda>(ts, icons). length ts)") (auto dest: renderables_key_len)

lemma renderables_loop_len:
  "renderables_loop ts icons = Inr (ts', icons') \<Longrightarrow> length ts' < length ts"
  by (induction ts icons rule: renderables_loop.induct)
     (force split: sum.splits dest: renderables_key_len)+

text \<open>
  The result of \<^verbatim>\<open>Item.parse\<close>: the dictionary of the items by id, the dictionary of
  the renderables, and the warnings that were logged on the way.
\<close>

record document =
  items :: "(string \<times> Item) list"
  icons :: "(RenderableType \<times> Renderable) list"
  warnings :: "warning list"

text \<open>The keys of the \<^verbatim>\<open>ItemData\<close> block.\<close>

definition itemdata_key :: "registry \<Rightarrow> string \<Rightarrow> token list \<Rightarrow> document \<Rightarrow> error + (token list \<times> document)" where
  "itemdata_key reg k ts doc =
     (if casefold k = ''item'' then
        and_then (parse_one reg ts (warnings doc)) (\<lambda>(ts, it, log).
          let log = (if map_of (items doc) (item_id it) \<noteq> None
                     then log @ [Warning ''Item {} redeclared!'' [item_id it]] else log)
          in Inr (ts, doc\<lparr>items := AList.update (item_id it) it (items doc), warnings := log\<rparr>))
      else if casefold k = ''renderables'' then
        and_then (expect_brace_open ts) (\<lambda>ts.
        and_then (renderables_loop ts (icons doc)) (\<lambda>(ts, ics). Inr (ts, doc\<lparr>icons := ics\<rparr>)))
      else Inl (TokError ''Unknown block \"{}\"!'' [k]))"

lemma itemdata_key_len:
  "itemdata_key reg k ts doc = Inr (ts', doc') \<Longrightarrow> length ts' < length ts"
  by (auto simp: itemdata_key_def Let_def and_then_Inr_iff split: if_splits
      dest!: parse_one_len expect_brace_open_len renderables_loop_len)

function itemdata_loop :: "registry \<Rightarrow> token list \<Rightarrow> document \<Rightarrow> error + (token list \<times> document)" where
  "itemdata_loop reg [] doc = Inl (unclosed ''ItemData'')"
| "itemdata_loop reg (BRACE_CLOSE # ts) doc = Inr (ts, doc)"
| "itemdata_loop reg (NEWLINE # ts) doc = itemdata_loop reg ts doc"
| "itemdata_loop reg (BRACE_OPEN # ts) doc = Inl (unexpected BRACE_OPEN)"
| "itemdata_loop reg (STRING k # ts) doc =
     (case itemdata_key reg k ts doc of
        Inl e \<Rightarrow> Inl e
      | Inr (ts', doc') \<Rightarrow> itemdata_loop reg ts' doc')"
  by pat_completeness auto
termination
  by (relation "measure (\<lambda>(reg, ts, doc). length ts)") (auto dest: itemdata_key_len)

text \<open>
  \<^verbatim>\<open>Item.parse(file, filename)\<close>, on the tokens of the file. The tokens after the
  closing brace of \<^verbatim>\<open>ItemData\<close> are not read.
\<close>

definition Item_parse :: "registry \<Rightarrow> token list \<Rightarrow> error + document" where
  "Item_parse reg ts =
     and_then (expect_string ts) (\<lambda>(v, ts).
       if casefold v \<noteq> ''itemdata'' then Inl (TokError ''No \"ItemData\" block present!'' [])
       else
         and_then (expect_brace_open ts) (\<lambda>ts.
         and_then (itemdata_loop reg ts \<lparr> items = [], icons = [], warnings = [] \<rparr>) (\<lambda>(ts, doc).
           Inr doc)))"

subsection \<open>Boxes, slots and example inputs\<close>

text \<open>The integer lattice points of the inclusive axis-aligned box between two corners,
  with the minimum and the maximum of the corners taken on each axis.\<close>

definition volume_box :: "Coord \<Rightarrow> Coord \<Rightarrow> Coord set" where
  "volume_box p1 p2 =
     {c. min (cx p1) (cx p2) \<le> cx c \<and> cx c \<le> max (cx p1) (cx p2)
       \<and> min (cy p1) (cy p2) \<le> cy c \<and> cy c \<le> max (cy p1) (cy p2)
       \<and> min (cz p1) (cz p2) \<le> cz c \<and> cz c \<le> max (cz p1) (cz p2)}"

text \<open>The placeholder of an unfilled instance slot, \<^verbatim>\<open>InstCount(FSPath(), 0, 0, 0)\<close>.\<close>

definition placeholder :: InstCount where
  "placeholder = InstCount empty_path 0 0 0"

text \<open>
  The instance list after slot \<open>n\<close> has been given the instance \<open>v\<close>: an existing
  entry is overwritten; otherwise the list is padded with placeholders up to \<open>n\<close> and
  \<open>v\<close> is appended.
\<close>

definition fill_slot :: "InstCount list \<Rightarrow> nat \<Rightarrow> InstCount \<Rightarrow> InstCount list" where
  "fill_slot insts n v =
     (if n < length insts then insts[n := v]
      else insts @ replicate (n - length insts) placeholder @ [v])"

text \<open>A registry without property types, for the example inputs.\<close>

definition empty_registry :: registry where
  "empty_registry = \<lparr> PROP_TYPES = (\<lambda>k. None), accepts = (\<lambda>p d. True) \<rparr>"

text \<open>What a run of \<^verbatim>\<open>Item.parse\<close> gave for an item id: nothing when it raised or
  the id is absent.\<close>

definition parsed_item :: "error + document \<Rightarrow> string \<Rightarrow> Item option" where
  "parsed_item r i = (case r of Inl e \<Rightarrow> None | Inr d \<Rightarrow> map_of (items d) i)"


definition parsed_warnings :: "error + document \<Rightarrow> warning list option" where
  "parsed_warnings r = (case r of Inl e \<Rightarrow> None | Inr d \<Rightarrow> Some (warnings d))"

text \<open>The tokens of a file with one item, given the tokens of its \<^verbatim>\<open>Exporting\<close>
  block.\<close>

definition item_file :: "string \<Rightarrow> token list \<Rightarrow> token list" where
  "item_file ident exporting =
     [STRING ''ItemData'', NEWLINE, BRACE_OPEN, NEWLINE,
      STRING ''Item'', NEWLINE, BRACE_OPEN, NEWLINE,
      STRING ''Type'', STRING ident, NEWLINE,
      STRING ''Exporting'', NEWLINE, BRACE_OPEN, NEWLINE]
     @ exporting @
     [BRACE_CLOSE, NEWLINE, BRACE_CLOSE, NEWLINE, BRACE_CLOSE, NEWLINE]"


text \<open>An unknown export option with a plain value instead of a block.\<close>

definition unknown_scalar_option :: "token list" where
  "unknown_scalar_option = [STRING ''Coolness'', STRING ''11'', NEWLINE]"

text \<open>A list of tokens in which every closing brace matches an earlier opening brace and
  no brace stays open; the second argument is the number of braces open so far.\<close>

fun balanced_from :: "token list \<Rightarrow> nat \<Rightarrow> bool" where
  "balanced_from [] d = (d = 0)"
| "balanced_from (BRACE_OPEN # ts) d = balanced_from ts (Suc d)"
| "balanced_from (BRACE_CLOSE # ts) d = (case d of 0 \<Rightarrow> False | Suc d' \<Rightarrow> balanced_from ts d')"
| "balanced_from (t # ts) d = balanced_from ts d"

definition balanced :: "token list \<Rightarrow> bool" where
  "balanced ts = balanced_from ts 0"

text \<open>The keys that the \<^verbatim>\<open>Exporting\<close> block, the \<^verbatim>\<open>Editor\<close> block and the
  \<^verbatim>\<open>Subtype\<close> block know, case-folded.\<close>

definition export_keys :: "string list" where
  "export_keys =
     [''targetname'', ''offset'', ''instances'', ''connectionpoints'', ''embeddedvoxels'',
      ''embedface'', ''overlay'']"

definition editor_keys :: "string list" where
  "editor_keys =
     [''subtype'', ''animations'', ''movementhandle'', ''invalidsurface'', ''subtypeproperty'',
      ''desiredfacing'', ''rendercolor''] @ map fst BOOL_ATTRS"

definition subtype_keys :: "string list" where
  "subtype_keys = [''name'', ''model'', ''palette'', ''sounds'', ''animations'']"

text \<open>A file whose editor block has the key \<^verbatim>\<open>CanAnchorOnGoo\<close>.\<close>

definition goo_file :: "token list" where
  "goo_file =
     [STRING ''ItemData'', NEWLINE, BRACE_OPEN, NEWLINE,
      STRING ''Item'', NEWLINE, BRACE_OPEN, NEWLINE,
      STRING ''Type'', STRING ''ITEM_TEST'', NEWLINE,
      STRING ''Editor'', NEWLINE, BRACE_OPEN, NEWLINE,
      STRING ''CanAnchorOnGoo'', STRING ''1'', NEWLINE,
      BRACE_CLOSE, NEWLINE,
      STRING ''Exporting'', NEWLINE, BRACE_OPEN, NEWLINE, BRACE_CLOSE, NEWLINE,
      BRACE_CLOSE, NEWLINE, BRACE_CLOSE, NEWLINE]"

text \<open>A file that declares two items with the type \<^verbatim>\<open>item_a\<close>, in two spellings:
  the tokens after the second \<^verbatim>\<open>"Item"\<close>, the tokens after the first, and the file.\<close>

definition second_item :: "token list" where
  "second_item =
     [NEWLINE, BRACE_OPEN, NEWLINE,
      STRING ''Type'', STRING ''ITEM_A'', NEWLINE,
      STRING ''Exporting'', NEWLINE, BRACE_OPEN, NEWLINE,
      STRING ''Targetname'', STRING ''second'', NEWLINE,
      BRACE_CLOSE, NEWLINE,
      BRACE_CLOSE, NEWLINE, BRACE_CLOSE, NEWLINE]"

definition first_item :: "token list" where
  "first_item =
     [NEWLINE, BRACE_OPEN, NEWLINE,
      STRING ''Type'', STRING ''item_a'', NEWLINE,
      STRING ''Exporting'', NEWLINE, BRACE_OPEN, NEWLINE,
      STRING ''Targetname'', STRING ''first'', NEWLINE,
      BRACE_CLOSE, NEWLINE,
      BRACE_CLOSE, NEWLINE, STRING ''Item''] @ second_item"

definition duplicate_file :: "token list" where
  "duplicate_file = [STRING ''ItemData'', NEWLINE, BRACE_OPEN, NEWLINE, STRING ''Item''] @ first_item"








text \<open>An \<^verbatim>\<open>Instances\<close> block and a target name, and the same after an unknown export
  option with a plain value.\<close>

definition known_options :: "token list" where
  "known_options =
     [STRING ''Instances'', NEWLINE, BRACE_OPEN, NEWLINE,
      STRING ''0'', STRING ''a.vmf'', NEWLINE,
      BRACE_CLOSE, NEWLINE,
      STRING ''Targetname'', STRING ''x'', NEWLINE]"

definition swallowed_block :: "token list" where
  "swallowed_block = unknown_scalar_option @ known_options"

subsection \<open>The writer\<close>

text \<open>
  \<^verbatim>\<open>f.write\<close> appends text to the file; the writer functions return the text they
  write, or the exception that \<^verbatim>\<open>with_suffix\<close> raises. \<open>line n s\<close> is the text
  \<open>s\<close> after \<open>n\<close> tabs and before a newline.
\<close>

definition tab :: char where
  "tab = CHR 0x09"

definition newline :: char where
  "newline = CHR 0x0A"

definition line :: "nat \<Rightarrow> string \<Rightarrow> string" where
  "line n s = replicate n tab @ s @ [newline]"

text \<open>A key and a value in double quotes, with the blanks that the source puts between
  them.\<close>

definition quoted :: "string \<Rightarrow> string" where
  "quoted s = ''\"'' @ s @ ''\"''"

definition key_value :: "string \<Rightarrow> string \<Rightarrow> string \<Rightarrow> string" where
  "key_value k blanks v = quoted k @ blanks @ quoted v"

text \<open>Equality of two dictionaries: the same keys with the same values.\<close>

definition dict_eq :: "('k \<times> 'v) list \<Rightarrow> ('k \<times> 'v) list \<Rightarrow> bool" where
  "dict_eq a b = (\<forall>k\<in>set (map fst a @ map fst b). map_of a k = map_of b k)"

text \<open>The model lines of a subtype, each with the suffix \<^verbatim>\<open>.3ds\<close>.\<close>

fun export_models :: "FSPath list \<Rightarrow> error + string" where
  "export_models [] = Inr ''''"
| "export_models (m # ms) =
     and_then (with_suffix m ''.3ds'') (\<lambda>m'.
     and_then (export_models ms) (\<lambda>rest.
       Inr (line 3 (quoted ''Model'' @ '' { '' @ key_value ''ModelName'' '' '' (path_str m') @ '' }'') @ rest)))"

text \<open>\<^verbatim>\<open>SubType.export(f)\<close>. The block of the animations is written under the key
  \<^verbatim>\<open>"Sounds"\<close>, as in the source.\<close>

definition SubType_export :: "SubType \<Rightarrow> error + string" where
  "SubType_export st =
     and_then (export_models (models st)) (\<lambda>model_lines.
     and_then
       (case pal_pos st of
          None \<Rightarrow> Inr ''''
        | Some (px, py) \<Rightarrow>
            and_then
              (case pal_icon st of
                 None \<Rightarrow> Inr ''''
               | Some icon \<Rightarrow>
                   and_then (with_suffix icon ''.png'') (\<lambda>icon'.
                     Inr (line 4 (key_value ''Image'' ''    '' (path_str icon')))))
              (\<lambda>icon_line.
                 Inr (line 3 (quoted ''Palette'') @ line 4 ''{''
                      @ line 4 (key_value ''Tooltip'' ''  '' (pal_name st))
                      @ icon_line
                      @ line 4 (key_value ''Position'' '' '' (py_str px @ '' '' @ py_str py @ '' 0''))
                      @ line 4 ''}'')))
       (\<lambda>palette_lines.
          Inr (line 2 (quoted ''Subtype'') @ line 3 ''{''
               @ (if name st \<noteq> '''' then line 3 (key_value ''Name'' '' '' (name st)) else '''')
               @ model_lines
               @ palette_lines
               @ (if \<not> dict_eq (sounds st) DEFAULT_SOUNDS then
                    line 3 (quoted ''Sounds'') @ line 4 ''{''
                    @ concat (map (\<lambda>snd_type.
                        case map_of (sounds st) snd_type of
                          None \<Rightarrow> ''''
                        | Some sndscript \<Rightarrow> line 4 (key_value (Sound_value snd_type) '' '' sndscript))
                        Sound_members)
                    @ line 4 ''}''
                  else '''')
               @ (if anims st \<noteq> [] then
                    line 3 (quoted ''Sounds'') @ line 4 ''{''
                    @ concat (map (\<lambda>(anim_name, anim_ind).
                        line 4 (key_value (Anim_value anim_name) '' '' (py_str anim_ind)))
                        (sort_key snd (anims st)))
                    @ line 4 ''}''
                  else '''')
               @ line 3 ''}'')))"

fun export_subtypes :: "SubType list \<Rightarrow> error + string" where
  "export_subtypes [] = Inr ''''"
| "export_subtypes (st # sts) =
     and_then (SubType_export st) (\<lambda>a. and_then (export_subtypes sts) (\<lambda>b. Inr (a @ b)))"

text \<open>
  What the writer takes from outside the repository: the text of a vector
  (\<^verbatim>\<open>str(Vec)\<close>), the text of the value of a property (\<^verbatim>\<open>prop.export()\<close>), and the
  choices of \<^verbatim>\<open>set.pop()\<close> in \<^verbatim>\<open>bounding_boxes\<close>.
\<close>

record writer_env =
  vec_str :: "Vec \<Rightarrow> string"
  prop_export :: "ItemProp \<Rightarrow> string"
  pop_voxel :: "Coord list \<Rightarrow> nat"

definition coord_text :: "Coord \<Rightarrow> string" where
  "coord_text c = py_str (cx c) @ '' '' @ py_str (cy c) @ '' '' @ py_str (cz c)"

text \<open>\<^verbatim>\<open>side.name.title()\<close>.\<close>

fun ConnSide_title :: "ConnSide \<Rightarrow> string" where
  "ConnSide_title LEFT = ''Left''"
| "ConnSide_title RIGHT = ''Right''"
| "ConnSide_title UP = ''Up''"
| "ConnSide_title DOWN = ''Down''"

text \<open>The instance lines, numbered from the given index as \<^verbatim>\<open>enumerate\<close> does.\<close>

fun export_instances :: "nat \<Rightarrow> InstCount list \<Rightarrow> string" where
  "export_instances i [] = ''''"
| "export_instances i (v # vs) =
     line 3 (quoted (py_str (int i))) @ line 4 ''{''
     @ (if inst v = empty_path then line 4 (key_value ''Name'' '' '' '''')
        else if ent_count v \<noteq> 0 \<or> brush_count v \<noteq> 0 \<or> face_count v \<noteq> 0 then
          line 4 (key_value ''Name'' ''           '' (path_str (inst v)))
          @ line 4 (key_value ''EntityCount'' ''    '' (py_str (ent_count v)))
          @ line 4 (key_value ''BrushCount'' ''     '' (py_str (brush_count v)))
          @ line 4 (key_value ''BrushSideCount'' '' '' (py_str (face_count v)))
        else line 4 (key_value ''Name'' '' '' (path_str (inst v))))
     @ line 4 ''}''
     @ export_instances (Suc i) vs"

definition export_box :: "Coord \<times> Coord \<Rightarrow> string" where
  "export_box b =
     (case b of (pos1, pos2) \<Rightarrow>
        (if pos1 = pos2 then
           line 3 (quoted ''Voxel'') @ line 4 ''{''
           @ line 4 (key_value ''Pos'' '' '' (coord_text pos1))
         else
           line 3 (quoted ''Volume'') @ line 4 ''{''
           @ line 4 (key_value ''Pos1'' '' '' (coord_text pos1))
           @ line 4 (key_value ''Pos2'' '' '' (coord_text pos2)))
        @ line 4 ''}'')"

definition export_point :: "ConnSide \<Rightarrow> AntlinePoint \<Rightarrow> string" where
  "export_point side point =
     line 3 (quoted ''Point'') @ line 4 ''{''
     @ line 4 (key_value ''Dir'' ''           '' (coord_text (ConnSide_value side)))
     @ line 4 (key_value ''Pos'' ''           '' (coord_text (pos point)))
     @ line 4 (key_value ''SignageOffset'' '' '' (coord_text (sign_off point)))
     @ line 4 (key_value ''Priority'' ''      '' (py_str (priority point)))
     @ (case group point of
          None \<Rightarrow> ''''
        | Some g \<Rightarrow> line 4 (key_value ''GroupID'' ''       '' (py_str g)))
     @ line 4 ''}''"

text \<open>The sides in the order of the enumeration; \<open>is_first\<close> is false once a side with
  points has been written.\<close>

fun export_sides :: "(ConnSide \<Rightarrow> AntlinePoint list) \<Rightarrow> ConnSide list \<Rightarrow> bool \<Rightarrow> string" where
  "export_sides points [] is_first = ''''"
| "export_sides points (side # sides) is_first =
     (if points side = [] then export_sides points sides is_first
      else
        (if \<not> is_first then [newline] else '''')
        @ line 3 (''// '' @ ConnSide_title side)
        @ concat (map (export_point side) (points side))
        @ export_sides points sides False)"

text \<open>The values of the invalid surfaces in sorted order: \<^verbatim>\<open>CEILING\<close>,
  \<^verbatim>\<open>FLOOR\<close>, \<^verbatim>\<open>WALL\<close>.\<close>

definition sorted_surfaces :: "Surface list \<Rightarrow> string list" where
  "sorted_surfaces surf = map Surface_value (filter (\<lambda>s. s \<in> set surf) [CEIL, FLOOR, WALL])"

text \<open>\<^verbatim>\<open>Item.export_one(f)\<close>.\<close>

definition export_one :: "writer_env \<Rightarrow> Item \<Rightarrow> error + string" where
  "export_one env item =
     and_then (export_subtypes (subtypes item)) (\<lambda>subtype_text.
       Inr (
         line 0 (quoted ''Item'') @ line 1 ''{''
         @ (if cls item \<noteq> UNCLASSED then
              line 1 (key_value ''Type'' ''      '' (item_id item))
              @ line 1 (key_value ''ItemClass'' '' '' (ItemClass_id (cls item)))
            else line 1 (key_value ''Type'' '' '' (item_id item)))
         @ line 1 (quoted ''Editor'') @ line 2 ''{''
         @ (case subtype_prop item of
              None \<Rightarrow> ''''
            | Some p \<Rightarrow> line 2 (key_value ''SubtypeProperty'' '' '' (prop_type_id p)))
         @ subtype_text
         @ line 2 (key_value ''MovementHandle'' '' '' (Handle_value (handle item)))
         @ line 2 (key_value ''OccupiesVoxel'' ''  '' (if occupies_voxel item then ''1'' else ''0''))
         @ (if facing item \<noteq> Facing_NONE then
              line 2 (key_value ''DesiredFacing'' ''  '' (DesiredFacing_value (facing item)))
            else '''')
         @ (if invalid_surf item \<noteq> [] then
              line 2 (key_value ''InvalidSurface'' '' '' (join_with '' '' (sorted_surfaces (invalid_surf item))))
            else '''')
         @ (if anchor_goo item then line 2 (key_value ''CanAnchorOnGoo'' ''      '' ''1'') else '''')
         @ (if anchor_barriers item then line 2 (key_value ''CanAnchorOnBarriers'' '' '' ''1'') else '''')
         @ (if \<not> copiable item then line 2 (key_value ''Copyable'' ''  '' ''0'') else '''')
         @ (if \<not> deletable item then line 2 (key_value ''Deletable'' '' '' ''0'') else '''')
         @ (if pseduo_handle item then line 2 (key_value ''PseudoHandle'' '' '' ''1'') else '''')
         @ line 2 ''}''
         @ (if properties item \<noteq> [] then
              line 1 (quoted ''Properties'') @ line 2 ''{''
              @ concat (map (\<lambda>(k, prop).
                  line 2 (quoted (prop_type_id (prop_type prop))) @ line 3 ''{''
                  @ line 3 (key_value ''DefaultValue'' '' '' (prop_export env prop))
                  @ line 3 (key_value ''Index'' ''        '' (py_str (prop_index prop)))
                  @ line 3 ''}'') (properties item))
              @ line 2 ''}''
            else '''')
         @ line 1 (quoted ''Exporting'') @ line 2 ''{''
         @ (if instances item \<noteq> [] then
              line 2 (quoted ''Instances'') @ line 3 ''{''
              @ export_instances 0 (instances item)
              @ line 3 ''}''
            else '''')
         @ (if targetname item \<noteq> '''' then line 2 (key_value ''Targetname'' '' '' (targetname item))
            else '''')
         @ line 2 (key_value ''Offset'' ''     '' (vec_str env (offset item)))
         @ (if embed_voxels item \<noteq> [] then
              line 2 (quoted ''EmbeddedVoxels'') @ line 3 ''{''
              @ concat (map export_box (bounding_boxes (pop_voxel env) (embed_voxels item)))
              @ line 3 ''}''
            else '''')
         @ (if embed_faces item \<noteq> [] then
              line 2 (quoted ''EmbedFace'') @ line 3 ''{''
              @ concat (map (\<lambda>face.
                  line 3 (quoted ''Solid'') @ line 4 ''{''
                  @ line 4 (key_value ''Center'' ''     '' (vec_str env (face_center face)))
                  @ line 4 (key_value ''Dimensions'' '' '' (vec_str env (face_size face)))
                  @ line 4 (key_value ''Grid'' ''       '' (FaceType_value (face_type face)))
                  @ line 4 ''}'') (embed_faces item))
              @ line 3 ''}''
            else '''')
         @ concat (map (\<lambda>over.
             line 2 (quoted ''Overlay'') @ line 3 ''{''
             @ line 3 (key_value ''Material'' ''   '' (material over))
             @ line 3 (key_value ''Center'' ''     '' (vec_str env (overlay_center over)))
             @ line 3 (key_value ''Dimensions'' '' '' (vec_str env (overlay_size over)))
             @ line 3 (key_value ''Rotation'' ''   '' (py_str (rotation over)))
             @ line 3 ''}'') (overlays item))
         @ (if \<exists>side\<in>set ConnSide_members. antline_points item side \<noteq> [] then
              line 2 (quoted ''ConnectionPoints'') @ line 3 ''{''
              @ export_sides (antline_points item) ConnSide_members True
              @ line 3 ''}''
            else '''')
         @ line 2 ''}''
         @ line 1 ''}''))"

subsection \<open>From text to tokens\<close>

text \<open>
  Modelled from the spec: the lexing of the tokenizer, a library outside the repository,
  on the text that the writer produces. White space separates tokens, a line feed is a
  \<^verbatim>\<open>NEWLINE\<close> token, the braces are tokens, a double quote opens a string that ends
  at the next double quote, any other run of characters is a bare word, and two slashes
  start a comment that runs to the end of the line. An unterminated string is an error.
\<close>

datatype lex_mode = Plain | Quoted string | Bare string | Comment

definition emit :: "token \<Rightarrow> error + token list \<Rightarrow> error + token list" where
  "emit t r = (case r of Inl e \<Rightarrow> Inl e | Inr ts \<Rightarrow> Inr (t # ts))"

fun lex :: "string \<Rightarrow> lex_mode \<Rightarrow> error + token list" where
  "lex [] Plain = Inr []"
| "lex [] (Quoted w) = Inl (TokError ''Unterminated string!'' [])"
| "lex [] (Bare w) = Inr [STRING (rev w)]"
| "lex [] Comment = Inr []"
| "lex (c # cs) Plain =
     (if c = newline then emit NEWLINE (lex cs Plain)
      else if is_space c then lex cs Plain
      else if c = CHR ''{'' then emit BRACE_OPEN (lex cs Plain)
      else if c = CHR ''}'' then emit BRACE_CLOSE (lex cs Plain)
      else if c = CHR 0x22 then lex cs (Quoted [])
      else if c = CHR ''/'' \<and> take 1 cs = ''/'' then lex cs Comment
      else lex cs (Bare [c]))"
| "lex (c # cs) (Quoted w) =
     (if c = CHR 0x22 then emit (STRING (rev w)) (lex cs Plain) else lex cs (Quoted (c # w)))"
| "lex (c # cs) (Bare w) =
     (if c = newline then emit (STRING (rev w)) (emit NEWLINE (lex cs Plain))
      else if is_space c then emit (STRING (rev w)) (lex cs Plain)
      else if c = CHR ''{'' then emit (STRING (rev w)) (emit BRACE_OPEN (lex cs Plain))
      else if c = CHR ''}'' then emit (STRING (rev w)) (emit BRACE_CLOSE (lex cs Plain))
      else if c = CHR 0x22 then emit (STRING (rev w)) (lex cs (Quoted []))
      else lex cs (Bare (c # w)))"
| "lex (c # cs) Comment =
     (if c = newline then emit NEWLINE (lex cs Plain) else lex cs Comment)"

definition tokenize :: "string \<Rightarrow> error + token list" where
  "tokenize text = lex text Plain"

text \<open>
  Writing an item and reading it back: the text of \<^verbatim>\<open>export_one\<close> inside an
  \<^verbatim>\<open>ItemData\<close> block, lexed and handed to \<^verbatim>\<open>Item.parse\<close>.
\<close>

definition reparse :: "writer_env \<Rightarrow> registry \<Rightarrow> Item \<Rightarrow> error + document" where
  "reparse env reg item =
     and_then (export_one env item) (\<lambda>text.
     and_then (tokenize (line 0 (quoted ''ItemData'') @ line 0 ''{'' @ text @ line 0 ''}''))
       (Item_parse reg))"

text \<open>The exception of a run, if it raised.\<close>

definition raised :: "error + 'a \<Rightarrow> error option" where
  "raised r = (case r of Inl e \<Rightarrow> Some e | Inr v \<Rightarrow> None)"

text \<open>A writer environment for the examples: a vector prints as the text it was read
  from.\<close>

definition plain_env :: writer_env where
  "plain_env =
     \<lparr> vec_str = (\<lambda>v. case v of Vec_from_str s \<Rightarrow> s), prop_export = prop_default,
       pop_voxel = (\<lambda>todo. 0) \<rparr>"

text \<open>An item whose only subtype has an animation, and an item that may anchor on goo.\<close>

definition animated_item :: Item where
  "animated_item =
     (new_Item ''ITEM_TEST'' UNCLASSED)
       \<lparr>subtypes := [new_SubType\<lparr>name := ''Cube'', models := [mk_path ''cube.mdl''],
                                 anims := [(IDLE, 0)]\<rparr>]\<rparr>"

definition goo_item :: Item where
  "goo_item = (new_Item ''ITEM_TEST'' UNCLASSED)\<lparr>anchor_goo := True\<rparr>"

definition plain_item :: Item where
  "plain_item =
     (new_Item ''ITEM_TEST'' UNCLASSED)
       \<lparr>subtypes := [new_SubType\<lparr>name := ''Cube'', models := [mk_path ''cube.mdl'']\<rparr>]\<rparr>"

section \<open>Properties\<close>

subsection \<open>Connection sides\<close>


lemma is_space_upper_char: "is_space c \<Longrightarrow> upper_char c = c"
  by (auto simp: is_space_def upper_char_def Let_def)

lemma split_acc_no_space:
  "\<forall>c\<in>set s. \<not> is_space c \<Longrightarrow> split_acc s w = (if s = [] \<and> w = [] then [] else [rev w @ s])"
  by (induction s arbitrary: w) auto

lemma name_no_space:
  assumes "ConnSide_by_name (upper v) = Some side"
  shows "\<forall>c\<in>set v. \<not> is_space c"
proof
  fix c assume c: "c \<in> set v"
  show "\<not> is_space c"
  proof
    assume sp: "is_space c"
    then have "c \<in> set (upper v)"
      using c is_space_upper_char [OF sp] by (force simp: upper_def)
    moreover have "upper v \<in> {''LEFT'', ''RIGHT'', ''UP'', ''DOWN''}"
      using assms by (auto simp: ConnSide_by_name_def split: if_splits)
    ultimately have "c \<in> set ''LEFTRIGHTUPDOWN''" by auto
    with sp show False by (auto simp: is_space_def)
  qed
qed

lemma name_split_single:
  "ConnSide_by_name (upper v) = Some side \<Longrightarrow> length (split v) \<le> 1"
  using split_acc_no_space [OF name_no_space, of v side "[]"] by (simp add: split_def)

lemma ConnSide_parse_dir_text: "ConnSide_parse (dir_text side) = Inr side"
  by (cases side; hypsubst; code_simp)

lemma ConnSide_parse_vector:
  assumes "split value = [a, b, c]" "py_int a = Some x" "py_int b = Some y" "py_int c = Some z"
  shows "ConnSide_parse value =
     (if z \<noteq> 0 then Inl (TokError ''Connection side must be flat!'' [])
      else if (x, y) = (1, 0) then Inr LEFT
      else if (x, y) = (- 1, 0) then Inr RIGHT
      else if (x, y) = (0, 1) then Inr UP
      else if (x, y) = (0, - 1) then Inr DOWN
      else Inl (TokError ''Unknown connection side ({}, {}, 0)'' [py_str x, py_str y]))"
proof -
  have "ConnSide_by_name (upper value) = None"
    using name_split_single [of "value"] assms(1) by (cases "ConnSide_by_name (upper value)") auto
  then show ?thesis using assms by (auto simp: ConnSide_parse_def)
qed

text \<open>
  Claim C10. \<^verbatim>\<open>ConnSide.parse\<close> maps the flat unit vectors \<^verbatim>\<open>"1 0 0"\<close>,
  \<^verbatim>\<open>"-1 0 0"\<close>, \<^verbatim>\<open>"0 1 0"\<close> and \<^verbatim>\<open>"0 -1 0"\<close> to \<open>LEFT\<close>, \<open>RIGHT\<close>,
  \<open>UP\<close> and \<open>DOWN\<close>; these are the values of the members, the text that the writer
  prints for the \<^verbatim>\<open>"Dir"\<close> line of a side parses back to that side, and every
  value of three integers whose third component is not zero, or that is none of the
  four unit vectors, is the fatal error of \<^verbatim>\<open>tok.error\<close>.
\<close>

theorem ConnSide_parse_unit_vectors:
  "(ConnSide_parse ''1 0 0'' = Inr LEFT \<and> ConnSide_parse ''-1 0 0'' = Inr RIGHT
      \<and> ConnSide_parse ''0 1 0'' = Inr UP \<and> ConnSide_parse ''0 -1 0'' = Inr DOWN)
   \<and> (\<forall>side. dir_text side = py_str (cx (ConnSide_value side)) @ '' '' @
          py_str (cy (ConnSide_value side)) @ '' '' @ py_str (cz (ConnSide_value side))
        \<and> ConnSide_parse (dir_text side) = Inr side)
   \<and> (\<forall>v a b c i j k.
        split v = [a, b, c] \<and> py_int a = Some i \<and> py_int b = Some j \<and> py_int c = Some k
          \<and> (k \<noteq> 0 \<or> (\<forall>side. ConnSide_value side \<noteq> Coord i j k))
        \<longrightarrow> (\<exists>fmt args. ConnSide_parse v = Inl (TokError fmt args)))"
proof -
  have four: "ConnSide_parse ''1 0 0'' = Inr LEFT \<and> ConnSide_parse ''-1 0 0'' = Inr RIGHT
      \<and> ConnSide_parse ''0 1 0'' = Inr UP \<and> ConnSide_parse ''0 -1 0'' = Inr DOWN"
    by code_simp
  have again: "\<forall>side. dir_text side = py_str (cx (ConnSide_value side)) @ '' '' @
          py_str (cy (ConnSide_value side)) @ '' '' @ py_str (cz (ConnSide_value side))
        \<and> ConnSide_parse (dir_text side) = Inr side"
    using ConnSide_parse_dir_text by (simp add: dir_text_def)
  have bad: "\<exists>fmt args. ConnSide_parse v = Inl (TokError fmt args)"
    if h: "split v = [a, b, c] \<and> py_int a = Some i \<and> py_int b = Some j \<and> py_int c = Some k
          \<and> (k \<noteq> 0 \<or> (\<forall>side. ConnSide_value side \<noteq> Coord i j k))" for v a b c i j k
  proof -
    from h have v: "split v = [a, b, c]" "py_int a = Some i" "py_int b = Some j" "py_int c = Some k"
      by simp_all
    show ?thesis
    proof (cases "k \<noteq> 0")
      case True
      then show ?thesis by (simp add: ConnSide_parse_vector [OF v])
    next
      case False
      with h have no: "\<And>side. ConnSide_value side \<noteq> Coord i j k" by blast
      from no [of LEFT] no [of RIGHT] no [of UP] no [of DOWN] False
      show ?thesis by (auto simp add: ConnSide_parse_vector [OF v])
    qed
  qed
  from four again bad show ?thesis by blast
qed

theorem ConnSide_parse_unit_vectors_witness:
  "split ''1 1 0'' = [''1'', ''1'', ''0''] \<and> py_int ''1'' = Some 1 \<and> py_int ''0'' = Some 0
   \<and> (\<forall>side. ConnSide_value side \<noteq> Coord 1 1 0)
   \<and> (\<exists>fmt args. ConnSide_parse ''1 1 0'' = Inl (TokError fmt args))"
proof -
  have s: "split ''1 1 0'' = [''1'', ''1'', ''0'']" by code_simp
  have i1: "py_int ''1'' = Some 1" by code_simp
  have i0: "py_int ''0'' = Some 0" by code_simp
  have no: "\<forall>side. ConnSide_value side \<noteq> Coord 1 1 0"
  proof
    fix side show "ConnSide_value side \<noteq> Coord 1 1 0" by (cases side) simp_all
  qed
  from ConnSide_parse_unit_vectors s i1 i0 no
  have "\<exists>fmt args. ConnSide_parse ''1 1 0'' = Inl (TokError fmt args)" by blast
  with s i1 i0 no show ?thesis by blast
qed

subsection \<open>Bounding boxes\<close>


lemma scan_up:
  "i - 1 \<le> scan test [i..j] (i - 1) \<and> scan test [i..j] (i - 1) \<le> max (i - 1) j
   \<and> (\<forall>v. i \<le> v \<and> v \<le> scan test [i..j] (i - 1) \<longrightarrow> test v)"
proof (induction "nat (j + 1 - i)" arbitrary: i)
  case 0
  then have "[i..j] = []" by simp
  then show ?case by auto
next
  case (Suc n)
  then have le: "i \<le> j" by linarith
  then have unfold: "[i..j] = i # [i + 1..j]" by (simp add: upto_rec1)
  show ?case
  proof (cases "test i")
    case False
    then show ?thesis using unfold le by auto
  next
    case True
    have "n = nat (j + 1 - (i + 1))" using Suc.hyps(2) by linarith
    from Suc.hyps(1) [OF this]
    have ih: "i \<le> scan test [i + 1..j] i" "scan test [i + 1..j] i \<le> max i j"
      "\<And>v. i + 1 \<le> v \<Longrightarrow> v \<le> scan test [i + 1..j] i \<Longrightarrow> test v"
      by auto
    have r: "scan test [i..j] (i - 1) = scan test [i + 1..j] i"
      using unfold True by simp
    have "test v" if "i \<le> v" "v \<le> scan test [i + 1..j] i" for v
    proof (cases "v = i")
      case True with \<open>test i\<close> show ?thesis by simp
    next
      case False with that ih(3) [of v] show ?thesis by simp
    qed
    then show ?thesis using ih(1,2) le unfolding r by auto
  qed
qed

lemma scan_down:
  "scan test (rev [i..j]) (j + 1) \<le> j + 1 \<and> min i (j + 1) \<le> scan test (rev [i..j]) (j + 1)
   \<and> (\<forall>v. scan test (rev [i..j]) (j + 1) \<le> v \<and> v \<le> j \<longrightarrow> test v)"
proof (induction "nat (j + 1 - i)" arbitrary: j)
  case 0
  then have "[i..j] = []" by simp
  then show ?case by auto
next
  case (Suc n)
  then have le: "i \<le> j" by linarith
  then have unfold: "rev [i..j] = j # rev [i..j - 1]" by (simp add: upto_rec2)
  show ?case
  proof (cases "test j")
    case False
    then show ?thesis using unfold le by auto
  next
    case True
    have "n = nat (j - 1 + 1 - i)" using Suc.hyps(2) by linarith
    from Suc.hyps(1) [OF this]
    have ih: "scan test (rev [i..j - 1]) j \<le> j" "min i j \<le> scan test (rev [i..j - 1]) j"
      "\<And>v. scan test (rev [i..j - 1]) j \<le> v \<Longrightarrow> v \<le> j - 1 \<Longrightarrow> test v"
      by auto
    have r: "scan test (rev [i..j]) (j + 1) = scan test (rev [i..j - 1]) j"
      using unfold True by simp
    have "test v" if "scan test (rev [i..j - 1]) j \<le> v" "v \<le> j" for v
    proof (cases "v = j")
      case True with \<open>test j\<close> show ?thesis by simp
    next
      case False with that ih(3) [of v] show ?thesis by simp
    qed
    then show ?thesis using ih(1,2) le unfolding r by auto
  qed
qed

text \<open>The two scans as the loop uses them, from a start value \<open>s\<close>.\<close>

lemma probe_up:
  assumes "r = scan test (py_range (s + 1) (s + EXTENT)) s"
  shows "s \<le> r" "r \<le> s + 49" "\<And>v. s < v \<Longrightarrow> v \<le> r \<Longrightarrow> test v"
  using scan_up [of "s + 1" test "s + EXTENT - 1"] assms
  by (auto simp: py_range_def EXTENT_def)

lemma probe_down:
  assumes "r = scan test (py_range_down (s - 1) (s - EXTENT)) s"
  shows "r \<le> s" "s - 49 \<le> r" "\<And>v. r \<le> v \<Longrightarrow> v < s \<Longrightarrow> test v"
  using scan_down [of test "s - EXTENT + 1" "s - 1"] assms
  by (auto simp: py_range_down_def EXTENT_def)

lemma set_py_range [simp]: "set (py_range a b) = {a..<b}"
  by (auto simp: py_range_def)

lemma box_coords_enclosed: "set (box_coords c1 c2) = enclosed c1 c2"
proof -
  have "c \<in> set (box_coords c1 c2) \<longleftrightarrow> c \<in> enclosed c1 c2" for c
    by (cases c) (force simp: box_coords_def enclosed_def)
  then show ?thesis by blast
qed


lemma grow_box_sound:
  assumes "grow_box todo p = (c1, c2)"
  shows "p \<in> enclosed c1 c2" "enclosed c1 c2 \<subseteq> insert p (set todo)"
    "0 \<le> cx c2 - cx p \<and> cx c2 - cx p \<le> 49 \<and> 0 \<le> cx p - cx c1 \<and> cx p - cx c1 \<le> 49"
    "0 \<le> cy c2 - cy p \<and> cy c2 - cy p \<le> 49 \<and> 0 \<le> cy p - cy c1 \<and> cy p - cy c1 \<le> 49"
    "0 \<le> cz c2 - cz p \<and> cz c2 - cz p \<le> 49 \<and> 0 \<le> cz p - cz c1 \<and> cz p - cz c1 \<le> 49"
proof -
  define px py pz where "px = cx p" and "py = cy p" and "pz = cz p"
  define tx where "tx = (\<lambda>x. Coord x py pz \<in> set todo)"
  define x2 where "x2 = scan tx (py_range (px + 1) (px + EXTENT)) px"
  define x1 where "x1 = scan tx (py_range_down (px - 1) (px - EXTENT)) px"
  define ty where "ty = (\<lambda>y. \<forall>x\<in>set (py_range x1 (x2 + 1)). Coord x y pz \<in> set todo)"
  define y2 where "y2 = scan ty (py_range (py + 1) (py + EXTENT)) py"
  define y1 where "y1 = scan ty (py_range_down (py - 1) (py - EXTENT)) py"
  define tz where "tz = (\<lambda>z. \<forall>x\<in>set (py_range x1 (x2 + 1)). \<forall>y\<in>set (py_range y1 (y2 + 1)).
                        Coord x y z \<in> set todo)"
  define z2 where "z2 = scan tz (py_range (pz + 1) (pz + EXTENT)) pz"
  define z1 where "z1 = scan tz (py_range_down (pz - 1) (pz - EXTENT)) pz"
  have box: "c1 = Coord x1 y1 z1" "c2 = Coord x2 y2 z2"
    using assms
    by (simp_all add: grow_box_def Let_def px_def py_def pz_def tx_def x2_def x1_def ty_def
        y2_def y1_def tz_def z2_def z1_def)
  note X2 = probe_up [OF x2_def] and X1 = probe_down [OF x1_def]
    and Y2 = probe_up [OF y2_def] and Y1 = probe_down [OF y1_def]
    and Z2 = probe_up [OF z2_def] and Z1 = probe_down [OF z1_def]
  show "p \<in> enclosed c1 c2"
    using X1(1) X2(1) Y1(1) Y2(1) Z1(1) Z2(1)
    by (simp add: enclosed_def box px_def py_def pz_def)
  show "0 \<le> cx c2 - cx p \<and> cx c2 - cx p \<le> 49 \<and> 0 \<le> cx p - cx c1 \<and> cx p - cx c1 \<le> 49"
    using X1(1,2) X2(1,2) by (simp add: box px_def)
  show "0 \<le> cy c2 - cy p \<and> cy c2 - cy p \<le> 49 \<and> 0 \<le> cy p - cy c1 \<and> cy p - cy c1 \<le> 49"
    using Y1(1,2) Y2(1,2) by (simp add: box py_def)
  show "0 \<le> cz c2 - cz p \<and> cz c2 - cz p \<le> 49 \<and> 0 \<le> cz p - cz c1 \<and> cz p - cz c1 \<le> 49"
    using Z1(1,2) Z2(1,2) by (simp add: box pz_def)
  show "enclosed c1 c2 \<subseteq> insert p (set todo)"
  proof
    fix c assume "c \<in> enclosed c1 c2"
    then obtain a b d where c: "c = Coord a b d"
      and bounds: "x1 \<le> a" "a \<le> x2" "y1 \<le> b" "b \<le> y2" "z1 \<le> d" "d \<le> z2"
      by (cases c) (auto simp: enclosed_def box)
    have inz: "tz d" if "d \<noteq> pz"
      using that Z2(3) [of d] Z1(3) [of d] bounds(5,6) by (cases "d < pz") auto
    have iny: "ty b" if "b \<noteq> py"
      using that Y2(3) [of b] Y1(3) [of b] bounds(3,4) by (cases "b < py") auto
    have inx: "tx a" if "a \<noteq> px"
      using that X2(3) [of a] X1(3) [of a] bounds(1,2) by (cases "a < px") auto
    show "c \<in> insert p (set todo)"
    proof (cases "d = pz")
      case False
      from inz [OF this] bounds show ?thesis by (simp add: tz_def c)
    next
      case dz: True
      show ?thesis
      proof (cases "b = py")
        case False
        from iny [OF this] bounds dz show ?thesis by (simp add: ty_def c)
      next
        case by': True
        show ?thesis
        proof (cases "a = px")
          case False
          from inx [OF this] dz by' show ?thesis by (simp add: tx_def c)
        next
          case True
          with dz by' have "c = p" by (cases p) (simp add: c px_def py_def pz_def)
          then show ?thesis by simp
        qed
      qed
    qed
  qed
qed

lemma bounding_boxes_loop_cover:
  "(\<Union>b\<in>set (bounding_boxes_loop pop todo). enclosed (fst b) (snd b)) = set todo"
proof (induction pop todo rule: bounding_boxes_loop.induct)
  case (1 pop todo)
  show ?case
  proof (cases "todo = []")
    case True
    then show ?thesis by (simp add: bounding_boxes_loop.simps)
  next
    case False
    define p where "p = todo ! (pop todo mod length todo)"
    define todo1 where "todo1 = removeAll p todo"
    define box where "box = grow_box todo1 p"
    define todo2 where "todo2 = filter (\<lambda>c. c \<notin> set (box_coords (fst box) (snd box))) todo1"
    have step: "bounding_boxes_loop pop todo = box # bounding_boxes_loop pop todo2"
      using False
      by (subst bounding_boxes_loop.simps) (simp add: Let_def p_def todo1_def box_def todo2_def)
    have ih: "(\<Union>b\<in>set (bounding_boxes_loop pop todo2). enclosed (fst b) (snd b)) = set todo2"
      using "1.IH" [OF False p_def todo1_def box_def todo2_def] .
    have pin: "p \<in> set todo" using False by (simp add: p_def)
    have t1: "insert p (set todo1) = set todo" using pin by (auto simp: todo1_def)
    have gb: "grow_box todo1 p = (fst box, snd box)" by (simp add: box_def)
    note snd = grow_box_sound(1,2) [OF gb]
    have t2: "set todo2 = set todo1 - enclosed (fst box) (snd box)"
      by (auto simp: todo2_def box_coords_enclosed)
    show ?thesis
      unfolding step using ih t1 t2 snd by auto
  qed
qed

lemma bounding_boxes_loop_seed:
  "b \<in> set (bounding_boxes_loop pop todo) \<Longrightarrow>
     \<exists>p\<in>set todo. \<exists>rest. set rest \<subseteq> set todo \<and> grow_box rest p = b"
proof (induction pop todo rule: bounding_boxes_loop.induct)
  case (1 pop todo)
  show ?case
  proof (cases "todo = []")
    case True
    with "1.prems" show ?thesis by (simp add: bounding_boxes_loop.simps)
  next
    case False
    define p where "p = todo ! (pop todo mod length todo)"
    define todo1 where "todo1 = removeAll p todo"
    define box where "box = grow_box todo1 p"
    define todo2 where "todo2 = filter (\<lambda>c. c \<notin> set (box_coords (fst box) (snd box))) todo1"
    have step: "bounding_boxes_loop pop todo = box # bounding_boxes_loop pop todo2"
      using False
      by (subst bounding_boxes_loop.simps) (simp add: Let_def p_def todo1_def box_def todo2_def)
    have pin: "p \<in> set todo" using False by (simp add: p_def)
    have sub1: "set todo1 \<subseteq> set todo" by (auto simp: todo1_def)
    have sub2: "set todo2 \<subseteq> set todo" using sub1 by (auto simp: todo2_def)
    from "1.prems" step consider "b = box" | "b \<in> set (bounding_boxes_loop pop todo2)" by auto
    then show ?thesis
    proof cases
      case 1
      with pin sub1 box_def show ?thesis by blast
    next
      case 2
      from "1.IH" [OF False p_def todo1_def box_def todo2_def 2]
      obtain q rest where "q \<in> set todo2" "set rest \<subseteq> set todo2" "grow_box rest q = b" by blast
      with sub2 show ?thesis by blast
    qed
  qed
qed

text \<open>
  Claim C2. The lattice points enclosed by the pairs of corners that
  \<^verbatim>\<open>bounding_boxes\<close> yields for a finite set of coordinates are, taken together,
  exactly the set, and no pair encloses a point outside it. This holds whatever
  element each \<^verbatim>\<open>todo.pop()\<close> returns.
\<close>

theorem bounding_boxes_exact_cover:
  "(\<Union>(c1, c2)\<in>set (bounding_boxes pop voxels). enclosed c1 c2) = set voxels
   \<and> (\<forall>(c1, c2)\<in>set (bounding_boxes pop voxels). enclosed c1 c2 \<subseteq> set voxels)"
proof -
  have "(\<Union>b\<in>set (bounding_boxes pop voxels). enclosed (fst b) (snd b)) = set voxels"
    by (simp add: bounding_boxes_def bounding_boxes_loop_cover)
  then have u: "(\<Union>(c1, c2)\<in>set (bounding_boxes pop voxels). enclosed c1 c2) = set voxels"
    by (simp add: case_prod_beta)
  then show ?thesis by blast
qed

theorem bounding_boxes_exact_cover_witness:
  "bounding_boxes (\<lambda>todo. 0) [Coord 0 0 0, Coord 1 0 0, Coord 0 1 0, Coord 1 1 0, Coord 5 5 5]
     = [(Coord 0 0 0, Coord 1 1 0), (Coord 5 5 5, Coord 5 5 5)]
   \<and> enclosed (Coord 0 0 0) (Coord 1 1 0) \<union> enclosed (Coord 5 5 5) (Coord 5 5 5)
     = {Coord 0 0 0, Coord 1 0 0, Coord 0 1 0, Coord 1 1 0, Coord 5 5 5}
   \<and> enclosed (Coord 0 0 0) (Coord 1 1 0) \<subseteq> {Coord 0 0 0, Coord 1 0 0, Coord 0 1 0, Coord 1 1 0, Coord 5 5 5}"
proof -
  have e: "bounding_boxes (\<lambda>todo. 0) [Coord 0 0 0, Coord 1 0 0, Coord 0 1 0, Coord 1 1 0, Coord 5 5 5]
     = [(Coord 0 0 0, Coord 1 1 0), (Coord 5 5 5, Coord 5 5 5)]"
    by code_simp
  show ?thesis
    using bounding_boxes_exact_cover
      [of "\<lambda>todo. 0" "[Coord 0 0 0, Coord 1 0 0, Coord 0 1 0, Coord 1 1 0, Coord 5 5 5]"]
    unfolding e by simp
qed

text \<open>
  Claim C9. Every pair that \<^verbatim>\<open>bounding_boxes\<close> yields was grown in one iteration
  from a seed point of the input, and in each of the six probe directions it reaches at
  most 50 units from that seed (the ranges of the probes end at \<^verbatim>\<open>EXTENT - 1\<close>, which
  is 49).
\<close>

theorem bounding_boxes_growth_cap:
  "\<forall>(c1, c2)\<in>set (bounding_boxes pop voxels).
     \<exists>p\<in>set voxels. \<exists>rest. set rest \<subseteq> set voxels \<and> grow_box rest p = (c1, c2)
       \<and> 0 \<le> cx c2 - cx p \<and> cx c2 - cx p \<le> 50 \<and> 0 \<le> cx p - cx c1 \<and> cx p - cx c1 \<le> 50
       \<and> 0 \<le> cy c2 - cy p \<and> cy c2 - cy p \<le> 50 \<and> 0 \<le> cy p - cy c1 \<and> cy p - cy c1 \<le> 50
       \<and> 0 \<le> cz c2 - cz p \<and> cz c2 - cz p \<le> 50 \<and> 0 \<le> cz p - cz c1 \<and> cz p - cz c1 \<le> 50"
proof (clarify)
  fix c1 c2 assume "(c1, c2) \<in> set (bounding_boxes pop voxels)"
  then obtain p rest where p: "p \<in> set voxels" "set rest \<subseteq> set voxels" "grow_box rest p = (c1, c2)"
    using bounding_boxes_loop_seed [of "(c1, c2)" pop "remdups voxels"]
    by (auto simp: bounding_boxes_def)
  from grow_box_sound(3-5) [OF p(3)] p
  show "\<exists>p\<in>set voxels. \<exists>rest. set rest \<subseteq> set voxels \<and> grow_box rest p = (c1, c2)
       \<and> 0 \<le> cx c2 - cx p \<and> cx c2 - cx p \<le> 50 \<and> 0 \<le> cx p - cx c1 \<and> cx p - cx c1 \<le> 50
       \<and> 0 \<le> cy c2 - cy p \<and> cy c2 - cy p \<le> 50 \<and> 0 \<le> cy p - cy c1 \<and> cy p - cy c1 \<le> 50
       \<and> 0 \<le> cz c2 - cz p \<and> cz c2 - cz p \<le> 50 \<and> 0 \<le> cz p - cz c1 \<and> cz p - cz c1 \<le> 50"
    by (intro bexI [of _ p] exI [of _ rest]) auto
qed

theorem bounding_boxes_growth_cap_witness:
  "bounding_boxes (\<lambda>todo. 0) (map (\<lambda>i. Coord i 0 0) [0..59])
     = [(Coord 0 0 0, Coord 49 0 0), (Coord 50 0 0, Coord 59 0 0)]
   \<and> (\<exists>p\<in>set (map (\<lambda>i. Coord i 0 0) [0..59]). \<exists>rest.
        set rest \<subseteq> set (map (\<lambda>i. Coord i 0 0) [0..59])
        \<and> grow_box rest p = (Coord 0 0 0, Coord 49 0 0)
        \<and> 0 \<le> cx (Coord 49 0 0) - cx p \<and> cx (Coord 49 0 0) - cx p \<le> 50
        \<and> 0 \<le> cx p - cx (Coord 0 0 0) \<and> cx p - cx (Coord 0 0 0) \<le> 50
        \<and> 0 \<le> cy (Coord 49 0 0) - cy p \<and> cy (Coord 49 0 0) - cy p \<le> 50
        \<and> 0 \<le> cy p - cy (Coord 0 0 0) \<and> cy p - cy (Coord 0 0 0) \<le> 50
        \<and> 0 \<le> cz (Coord 49 0 0) - cz p \<and> cz (Coord 49 0 0) - cz p \<le> 50
        \<and> 0 \<le> cz p - cz (Coord 0 0 0) \<and> cz p - cz (Coord 0 0 0) \<le> 50)"
proof (rule conjI)
  show e: "bounding_boxes (\<lambda>todo. 0) (map (\<lambda>i. Coord i 0 0) [0..59])
     = [(Coord 0 0 0, Coord 49 0 0), (Coord 50 0 0, Coord 59 0 0)]"
    by code_simp
  have m: "(Coord 0 0 0, Coord 49 0 0)
      \<in> set (bounding_boxes (\<lambda>todo. 0) (map (\<lambda>i. Coord i 0 0) [0..59]))"
    unfolding e by simp
  show "\<exists>p\<in>set (map (\<lambda>i. Coord i 0 0) [0..59]). \<exists>rest.
        set rest \<subseteq> set (map (\<lambda>i. Coord i 0 0) [0..59])
        \<and> grow_box rest p = (Coord 0 0 0, Coord 49 0 0)
        \<and> 0 \<le> cx (Coord 49 0 0) - cx p \<and> cx (Coord 49 0 0) - cx p \<le> 50
        \<and> 0 \<le> cx p - cx (Coord 0 0 0) \<and> cx p - cx (Coord 0 0 0) \<le> 50
        \<and> 0 \<le> cy (Coord 49 0 0) - cy p \<and> cy (Coord 49 0 0) - cy p \<le> 50
        \<and> 0 \<le> cy p - cy (Coord 0 0 0) \<and> cy p - cy (Coord 0 0 0) \<le> 50
        \<and> 0 \<le> cz (Coord 49 0 0) - cz p \<and> cz (Coord 49 0 0) - cz p \<le> 50
        \<and> 0 \<le> cz p - cz (Coord 0 0 0) \<and> cz p - cz (Coord 0 0 0) \<le> 50"
    using bounding_boxes_growth_cap
      [of "\<lambda>todo. 0" "map (\<lambda>i. Coord i 0 0) [0..59]", THEN bspec, OF m, unfolded prod.case] .
qed

subsection \<open>Embedded voxels\<close>


lemma set_add_voxels: "set (add_voxels cs voxels) = set cs \<union> set voxels"
proof -
  have "set (fold List.insert cs vs) = set cs \<union> set vs" for vs
    by (induction cs arbitrary: vs) auto
  then show ?thesis by (simp add: add_voxels_def)
qed

lemma distinct_add_voxels: "distinct voxels \<Longrightarrow> distinct (add_voxels cs voxels)"
proof -
  have "distinct vs \<Longrightarrow> distinct (fold List.insert cs vs)" for vs
    by (induction cs arbitrary: vs) auto
  then show "distinct voxels \<Longrightarrow> distinct (add_voxels cs voxels)" by (simp add: add_voxels_def)
qed

lemma set_volume_coords: "set (volume_coords p1 p2) = volume_box p1 p2"
proof -
  have "c \<in> set (volume_coords p1 p2) \<longleftrightarrow> c \<in> volume_box p1 p2" for c
    by (cases c) (force simp: volume_coords_def volume_box_def Let_def py_range_def)
  then show ?thesis by blast
qed

lemma volume_key_step:
  assumes "casefold k = ''volume''" "expect_brace_open ts = Inr ts1"
    "volume_loop ts1 (None, None) = Inr (ts2, Some p1, Some p2)"
  shows "embedded_voxel_key k ts item =
     Inr (ts2, item\<lparr>embed_voxels := add_voxels (volume_coords p1 p2) (embed_voxels item)\<rparr>)"
  using assms by (simp add: embedded_voxel_key_def)

lemma volume_example:
  "parse_embedded_voxels
     [BRACE_OPEN, NEWLINE, STRING ''Volume'', NEWLINE, BRACE_OPEN, NEWLINE,
      STRING ''Pos1'', STRING ''0 0 0'', NEWLINE, STRING ''Pos2'', STRING ''1 1 0'', NEWLINE,
      BRACE_CLOSE, NEWLINE, BRACE_CLOSE]
     (new_Item ''ITEM_TEST'' UNCLASSED)
   = Inr ([], (new_Item ''ITEM_TEST'' UNCLASSED)
            \<lparr>embed_voxels := [Coord 1 1 0, Coord 1 0 0, Coord 0 1 0, Coord 0 0 0]\<rparr>)"
proof -
  have c: "casefold ''Volume'' = ''volume''" by code_simp
  have l: "volume_loop [NEWLINE, STRING ''Pos1'', STRING ''0 0 0'', NEWLINE, STRING ''Pos2'',
      STRING ''1 1 0'', NEWLINE, BRACE_CLOSE, NEWLINE, BRACE_CLOSE] (None, None)
      = Inr ([NEWLINE, BRACE_CLOSE], Some (Coord 0 0 0), Some (Coord 1 1 0))"
    by code_simp
  have a: "add_voxels (volume_coords (Coord 0 0 0) (Coord 1 1 0)) []
      = [Coord 1 1 0, Coord 1 0 0, Coord 0 1 0, Coord 0 0 0]"
    by code_simp
  have k: "embedded_voxel_key ''Volume'' [NEWLINE, BRACE_OPEN, NEWLINE,
      STRING ''Pos1'', STRING ''0 0 0'', NEWLINE, STRING ''Pos2'', STRING ''1 1 0'', NEWLINE,
      BRACE_CLOSE, NEWLINE, BRACE_CLOSE] (new_Item ''ITEM_TEST'' UNCLASSED)
    = Inr ([NEWLINE, BRACE_CLOSE], (new_Item ''ITEM_TEST'' UNCLASSED)
            \<lparr>embed_voxels := [Coord 1 1 0, Coord 1 0 0, Coord 0 1 0, Coord 0 0 0]\<rparr>)"
    using volume_key_step [OF c _ l, of _ "new_Item ''ITEM_TEST'' UNCLASSED"]
    by (simp add: a new_Item_def)
  show ?thesis
    by (simp add: parse_embedded_voxels_def k)
qed

text \<open>
  Claim C7. A \<^verbatim>\<open>Volume\<close> block with the corners \<open>p1\<close> and \<open>p2\<close> adds to the set of
  embedded voxels exactly the lattice points of the inclusive box between them, with the
  minimum and the maximum taken on each axis, so that the order of the corners does not
  matter; the block with \<^verbatim>\<open>Pos1 "0 0 0"\<close> and \<^verbatim>\<open>Pos2 "1 1 0"\<close> adds exactly the four
  points (0,0,0), (1,0,0), (0,1,0) and (1,1,0).
\<close>

theorem volume_adds_inclusive_box:
  "(\<forall>k ts ts1 ts2 p1 p2 (item::Item).
      casefold k = ''volume'' \<and> expect_brace_open ts = Inr ts1
        \<and> volume_loop ts1 (None, None) = Inr (ts2, Some p1, Some p2)
      \<longrightarrow> (\<exists>vs. embedded_voxel_key k ts item = Inr (ts2, item\<lparr>embed_voxels := vs\<rparr>)
            \<and> set vs = set (embed_voxels item) \<union> volume_box p1 p2
            \<and> (distinct (embed_voxels item) \<longrightarrow> distinct vs)))
   \<and> (\<forall>p1 p2. volume_box p1 p2 = volume_box p2 p1)
   \<and> (\<exists>vs. parse_embedded_voxels
          [BRACE_OPEN, NEWLINE, STRING ''Volume'', NEWLINE, BRACE_OPEN, NEWLINE,
           STRING ''Pos1'', STRING ''0 0 0'', NEWLINE, STRING ''Pos2'', STRING ''1 1 0'', NEWLINE,
           BRACE_CLOSE, NEWLINE, BRACE_CLOSE]
          (new_Item ''ITEM_TEST'' UNCLASSED)
        = Inr ([], (new_Item ''ITEM_TEST'' UNCLASSED)\<lparr>embed_voxels := vs\<rparr>)
        \<and> set vs = {Coord 0 0 0, Coord 1 0 0, Coord 0 1 0, Coord 1 1 0} \<and> length vs = 4)"
proof (intro conjI allI impI)
  fix k ts ts1 ts2 p1 p2 and item :: Item
  assume h: "casefold k = ''volume'' \<and> expect_brace_open ts = Inr ts1
        \<and> volume_loop ts1 (None, None) = Inr (ts2, Some p1, Some p2)"
  let ?vs = "add_voxels (volume_coords p1 p2) (embed_voxels item)"
  have "embedded_voxel_key k ts item = Inr (ts2, item\<lparr>embed_voxels := ?vs\<rparr>)"
    using h by (simp add: volume_key_step)
  moreover have "set ?vs = set (embed_voxels item) \<union> volume_box p1 p2"
    by (auto simp: set_add_voxels set_volume_coords)
  moreover have "distinct (embed_voxels item) \<longrightarrow> distinct ?vs"
    by (simp add: distinct_add_voxels)
  ultimately show "\<exists>vs. embedded_voxel_key k ts item = Inr (ts2, item\<lparr>embed_voxels := vs\<rparr>)
            \<and> set vs = set (embed_voxels item) \<union> volume_box p1 p2
            \<and> (distinct (embed_voxels item) \<longrightarrow> distinct vs)"
    by blast
next
  fix p1 p2 show "volume_box p1 p2 = volume_box p2 p1"
    by (auto simp: volume_box_def min.commute max.commute)
next
  show "\<exists>vs. parse_embedded_voxels
          [BRACE_OPEN, NEWLINE, STRING ''Volume'', NEWLINE, BRACE_OPEN, NEWLINE,
           STRING ''Pos1'', STRING ''0 0 0'', NEWLINE, STRING ''Pos2'', STRING ''1 1 0'', NEWLINE,
           BRACE_CLOSE, NEWLINE, BRACE_CLOSE]
          (new_Item ''ITEM_TEST'' UNCLASSED)
        = Inr ([], (new_Item ''ITEM_TEST'' UNCLASSED)\<lparr>embed_voxels := vs\<rparr>)
        \<and> set vs = {Coord 0 0 0, Coord 1 0 0, Coord 0 1 0, Coord 1 1 0} \<and> length vs = 4"
    by (rule exI [of _ "[Coord 1 1 0, Coord 1 0 0, Coord 0 1 0, Coord 0 0 0]"])
       (auto simp: volume_example)
qed

theorem volume_adds_inclusive_box_witness:
  "casefold ''VOLUME'' = ''volume''
   \<and> expect_brace_open [NEWLINE, BRACE_OPEN, STRING ''pos2'', STRING ''0 5 -1'',
        STRING ''pos1'', STRING ''0 4 1'', BRACE_CLOSE]
      = Inr [STRING ''pos2'', STRING ''0 5 -1'', STRING ''pos1'', STRING ''0 4 1'', BRACE_CLOSE]
   \<and> volume_loop [STRING ''pos2'', STRING ''0 5 -1'', STRING ''pos1'', STRING ''0 4 1'', BRACE_CLOSE]
        (None, None) = Inr ([], Some (Coord 0 4 1), Some (Coord 0 5 (- 1)))
   \<and> (\<exists>vs. embedded_voxel_key ''VOLUME'' [NEWLINE, BRACE_OPEN, STRING ''pos2'', STRING ''0 5 -1'',
              STRING ''pos1'', STRING ''0 4 1'', BRACE_CLOSE] (new_Item ''A'' UNCLASSED)
            = Inr ([], (new_Item ''A'' UNCLASSED)\<lparr>embed_voxels := vs\<rparr>)
          \<and> set vs = set (embed_voxels (new_Item ''A'' UNCLASSED))
                \<union> volume_box (Coord 0 4 1) (Coord 0 5 (- 1)))"
proof -
  have c: "casefold ''VOLUME'' = ''volume''" by code_simp
  have b: "expect_brace_open [NEWLINE, BRACE_OPEN, STRING ''pos2'', STRING ''0 5 -1'',
        STRING ''pos1'', STRING ''0 4 1'', BRACE_CLOSE]
      = Inr [STRING ''pos2'', STRING ''0 5 -1'', STRING ''pos1'', STRING ''0 4 1'', BRACE_CLOSE]"
    by simp
  have l: "volume_loop [STRING ''pos2'', STRING ''0 5 -1'', STRING ''pos1'', STRING ''0 4 1'', BRACE_CLOSE]
        (None, None) = Inr ([], Some (Coord 0 4 1), Some (Coord 0 5 (- 1)))"
    by code_simp
  from volume_adds_inclusive_box c b l
  have "\<exists>vs. embedded_voxel_key ''VOLUME'' [NEWLINE, BRACE_OPEN, STRING ''pos2'', STRING ''0 5 -1'',
              STRING ''pos1'', STRING ''0 4 1'', BRACE_CLOSE] (new_Item ''A'' UNCLASSED)
            = Inr ([], (new_Item ''A'' UNCLASSED)\<lparr>embed_voxels := vs\<rparr>)
          \<and> set vs = set (embed_voxels (new_Item ''A'' UNCLASSED))
                \<union> volume_box (Coord 0 4 1) (Coord 0 5 (- 1))"
    by blast
  with c b l show ?thesis by blast
qed

subsection \<open>Instance slots\<close>


lemma numeric_slot:
  assumes "py_int nm = Some n" "0 \<le> n" "instance_value ts = Inr (ts', v)"
  shows "parse_instance_block nm ts item lg
    = Inr (ts', item\<lparr>instances := fill_slot (instances item) (nat n) v\<rparr>, lg)"
proof (cases "n < int (length (instances item))")
  case True
  then have "pad_instances n (instances item) = instances item"
    by (simp add: pad_instances_def)
  with assms True show ?thesis
    by (simp add: parse_instance_block_def set_instance_def fill_slot_def Let_def)
next
  case False
  then have "length (pad_instances n (instances item)) = nat n"
    by (simp add: pad_instances_def)
  with assms False show ?thesis
    by (simp add: parse_instance_block_def fill_slot_def Let_def pad_instances_def placeholder_def)
qed

lemma negative_slot:
  assumes "py_int nm = Some n" "n < 0" "instance_value ts = Inr (ts', v)"
  shows "parse_instance_block nm ts item lg
    = (if - int (length (instances item)) \<le> n
       then Inr (ts', item\<lparr>instances := (instances item)[nat (int (length (instances item)) + n) := v]\<rparr>, lg)
       else Inl IndexError)"
proof -
  have "pad_instances n (instances item) = instances item"
    using assms(2) by (simp add: pad_instances_def)
  with assms show ?thesis
    by (auto simp: parse_instance_block_def set_instance_def Let_def)
qed



lemma named_slot:
  assumes "py_int nm = None" "instance_value ts = Inr (ts', v)"
  shows "parse_instance_block nm ts item lg
    = Inr (ts', item\<lparr>cust_instances :=
              AList.update (if startswith (casefold nm) ''bee2_'' then drop 5 nm else nm)
                (inst v) (cust_instances item)\<rparr>,
           if startswith (casefold nm) ''bee2_'' then lg
           else lg @ [Warning ''Custom instance names should have bee2_ prefix (line {}, file {})'' []])"
  using assms by (simp add: parse_instance_block_def Let_def)















subsection \<open>Malformed numbers\<close>








subsection \<open>Unknown keys\<close>

lemma skip_balanced:
  "balanced_from body d \<Longrightarrow> 1 \<le> l \<Longrightarrow> skip_block (body @ r) (l + int d) = skip_block r l"
proof (induction body d arbitrary: l rule: balanced_from.induct)
  case (2 ts d)
  from "2.IH" [of l] "2.prems" show ?case by (simp add: algebra_simps)
next
  case (3 ts d)
  then obtain d' where d: "d = Suc d'" by (cases d) auto
  with "3.IH" [of d' l] "3.prems" show ?case by simp
qed auto

lemma skip_newlines: "skip_block (replicate n NEWLINE @ ts) l = skip_block ts l"
  by (induction n) auto

lemma skip_unknown_block:
  assumes "balanced body"
  shows "skip_block (replicate n NEWLINE @ BRACE_OPEN # body @ BRACE_CLOSE # rest) 0 = rest"
proof -
  have "skip_block (body @ BRACE_CLOSE # rest) (1 + int 0) = skip_block (BRACE_CLOSE # rest) 1"
    using assms by (intro skip_balanced) (simp_all add: balanced_def)
  then show ?thesis by (simp add: skip_newlines)
qed

lemma export_unknown_key:
  assumes "casefold k \<notin> set export_keys"
  shows "export_key k ts item lg = Inr (skip_block ts 0, item, lg)"
  using assms by (simp add: export_key_def export_keys_def Let_def)

lemma editor_unknown_key:
  assumes "casefold k \<notin> set editor_keys"
  shows "editor_key reg k ts item = Inl (TokError ''Unknown editor option {}'' [k])"
proof -
  from assms have "map_of BOOL_ATTRS (casefold k) = None"
    by (simp add: editor_keys_def map_of_eq_None_iff)
  with assms show ?thesis
    by (simp add: editor_key_def editor_keys_def Let_def)
qed

lemma subtype_unknown_key:
  assumes "casefold k \<notin> set subtype_keys"
  shows "subtype_key k ts st = Inl (TokError ''Unknown subtype option \"{}\"!'' [k])"
  using assms by (simp add: subtype_key_def subtype_keys_def Let_def)

lemma itemdata_unknown_key:
  assumes "casefold k \<noteq> ''item''" "casefold k \<noteq> ''renderables''"
  shows "itemdata_key reg k ts doc = Inl (TokError ''Unknown block \"{}\"!'' [k])"
  using assms by (simp add: itemdata_key_def)

text \<open>
  What the loops do with a key that they do not know: in \<^verbatim>\<open>ItemData\<close>, in an
  \<^verbatim>\<open>Editor\<close> block and in a \<^verbatim>\<open>Subtype\<close> block it is the fatal error of
  \<^verbatim>\<open>tok.error\<close>; in an \<^verbatim>\<open>Exporting\<close> block, when a block with balanced braces follows
  the key, that block is skipped and the loop goes on after its closing brace.
\<close>

lemma unknown_keys:
  "(\<forall>reg k ts doc. casefold k \<noteq> ''item'' \<and> casefold k \<noteq> ''renderables''
      \<longrightarrow> itemdata_loop reg (STRING k # ts) doc = Inl (TokError ''Unknown block \"{}\"!'' [k]))
   \<and> (\<forall>reg k ts item. casefold k \<notin> set editor_keys
      \<longrightarrow> editor_loop reg (STRING k # ts) item = Inl (TokError ''Unknown editor option {}'' [k]))
   \<and> (\<forall>k ts st. casefold k \<notin> set subtype_keys
      \<longrightarrow> subtype_loop (STRING k # ts) st = Inl (TokError ''Unknown subtype option \"{}\"!'' [k]))
   \<and> (\<forall>k n body rest item lg. casefold k \<notin> set export_keys \<and> balanced body
      \<longrightarrow> export_key k (replicate n NEWLINE @ BRACE_OPEN # body @ BRACE_CLOSE # rest) item lg
            = Inr (rest, item, lg)
          \<and> export_loop (STRING k # replicate n NEWLINE @ BRACE_OPEN # body @ BRACE_CLOSE # rest) item lg
            = export_loop rest item lg)"
  by (simp add: itemdata_unknown_key editor_unknown_key subtype_unknown_key export_unknown_key
      skip_unknown_block)

lemma unknown_keys_example:
  "casefold ''Inputs'' \<notin> set export_keys
   \<and> balanced [NEWLINE, STRING ''BEE2'', BRACE_OPEN, STRING ''Type'', STRING ''AND'', BRACE_CLOSE, NEWLINE]
   \<and> export_loop
        (STRING ''Inputs'' # replicate 1 NEWLINE @ BRACE_OPEN
           # [NEWLINE, STRING ''BEE2'', BRACE_OPEN, STRING ''Type'', STRING ''AND'', BRACE_CLOSE, NEWLINE]
           @ BRACE_CLOSE # [NEWLINE, BRACE_CLOSE])
        (new_Item ''A'' UNCLASSED) []
       = export_loop [NEWLINE, BRACE_CLOSE] (new_Item ''A'' UNCLASSED) []
   \<and> export_loop [NEWLINE, BRACE_CLOSE] (new_Item ''A'' UNCLASSED) []
       = Inr ([], new_Item ''A'' UNCLASSED, [])
   \<and> casefold ''Colour'' \<notin> set editor_keys
   \<and> editor_loop empty_registry (STRING ''Colour'' # [STRING ''red'']) (new_Item ''A'' UNCLASSED)
       = Inl (TokError ''Unknown editor option {}'' [''Colour''])
   \<and> casefold ''Widgets'' \<noteq> ''item'' \<and> casefold ''Widgets'' \<noteq> ''renderables''
   \<and> itemdata_loop empty_registry (STRING ''Widgets'' # [BRACE_OPEN, BRACE_CLOSE])
        \<lparr>items = [], icons = [], warnings = []\<rparr>
       = Inl (TokError ''Unknown block \"{}\"!'' [''Widgets''])"
proof -
  have k: "casefold ''Inputs'' \<notin> set export_keys" by code_simp
  have b: "balanced [NEWLINE, STRING ''BEE2'', BRACE_OPEN, STRING ''Type'', STRING ''AND'', BRACE_CLOSE, NEWLINE]"
    by code_simp
  have s: "export_loop
        (STRING ''Inputs'' # replicate 1 NEWLINE @ BRACE_OPEN
           # [NEWLINE, STRING ''BEE2'', BRACE_OPEN, STRING ''Type'', STRING ''AND'', BRACE_CLOSE, NEWLINE]
           @ BRACE_CLOSE # [NEWLINE, BRACE_CLOSE])
        (new_Item ''A'' UNCLASSED) []
       = export_loop [NEWLINE, BRACE_CLOSE] (new_Item ''A'' UNCLASSED) []"
    by (rule unknown_keys [THEN conjunct2, THEN conjunct2, THEN conjunct2, rule_format,
          OF conjI [OF k b], THEN conjunct2])
  have r: "export_loop [NEWLINE, BRACE_CLOSE] (new_Item ''A'' UNCLASSED) []
       = Inr ([], new_Item ''A'' UNCLASSED, [])"
    by simp
  have e: "casefold ''Colour'' \<notin> set editor_keys" by code_simp
  have f: "editor_loop empty_registry (STRING ''Colour'' # [STRING ''red'']) (new_Item ''A'' UNCLASSED)
       = Inl (TokError ''Unknown editor option {}'' [''Colour''])"
    by (rule unknown_keys [THEN conjunct2, THEN conjunct1, rule_format, OF e])
  have w1: "casefold ''Widgets'' \<noteq> ''item''" by code_simp
  have w2: "casefold ''Widgets'' \<noteq> ''renderables''" by code_simp
  have g: "itemdata_loop empty_registry (STRING ''Widgets'' # [BRACE_OPEN, BRACE_CLOSE])
        \<lparr>items = [], icons = [], warnings = []\<rparr>
       = Inl (TokError ''Unknown block \"{}\"!'' [''Widgets''])"
    by (rule unknown_keys [THEN conjunct1, rule_format, OF conjI [OF w1 w2]])
  from k b s r e f w1 w2 g show ?thesis by blast
qed

text \<open>
  Claim C3 says that an unknown key of an \<^verbatim>\<open>Exporting\<close> block is never fatal: its
  block is skipped and the parse goes on. The code does not do so when the unknown key has
  a plain value in place of a block. The skipping loop starts with no brace open and stops
  at the first closing brace that leaves none open. In a file with the option
  \<^verbatim>\<open>"Coolness" "11"\<close> as the only line of the \<^verbatim>\<open>Exporting\<close> block it runs on to the
  closing brace of that block itself, and the parse of the file, which is read without the
  option, ends in a fatal error. When an \<^verbatim>\<open>Instances\<close> block follows the option, the loop
  stops at the closing brace of that block: the file is read, but the instances that it
  gives are lost.
\<close>

theorem unknown_scalar_export_option_breaks_parse:
  "casefold ''Coolness'' \<notin> set export_keys
   \<and> raised (Item_parse empty_registry (item_file ''ITEM_TEST'' unknown_scalar_option))
      = Some (TokError ''Unclosed {} block!'' [''ItemData''])
   \<and> raised (Item_parse empty_registry (item_file ''ITEM_TEST'' [])) = None
   \<and> map_option (\<lambda>it. (instances it, targetname it))
        (parsed_item (Item_parse empty_registry (item_file ''ITEM_TEST'' known_options))
           ''ITEM_TEST'')
      = Some ([InstCount (mk_path ''a.vmf'') 0 0 0], ''x'')
   \<and> map_option (\<lambda>it. (instances it, targetname it))
        (parsed_item (Item_parse empty_registry (item_file ''ITEM_TEST'' swallowed_block))
           ''ITEM_TEST'')
      = Some ([], ''x'')"
  by code_simp

subsection \<open>Items declared twice\<close>


lemma map_of_update_same: "map_of (AList.update k v al) k = Some v"
  by (simp add: update_conv')

lemma keys_update_existing: "map_of al k = Some old \<Longrightarrow> map fst (AList.update k v al) = map fst al"
  by (induction al) (auto split: if_splits)

lemma redeclared_step:
  assumes "casefold k = ''item''" "parse_one reg ts (warnings doc) = Inr (ts', it, lg)"
    "map_of (items doc) (item_id it) = Some old"
  shows "itemdata_key reg k ts doc
    = Inr (ts', doc\<lparr>items := AList.update (item_id it) it (items doc),
                    warnings := lg @ [Warning ''Item {} redeclared!'' [item_id it]]\<rparr>)"
  using assms by (simp add: itemdata_key_def)

lemma first_step:
  assumes "casefold k = ''item''" "parse_one reg ts (warnings doc) = Inr (ts', it, lg)"
    "map_of (items doc) (item_id it) = None"
  shows "itemdata_key reg k ts doc
    = Inr (ts', doc\<lparr>items := AList.update (item_id it) it (items doc), warnings := lg\<rparr>)"
  using assms by (simp add: itemdata_key_def)

lemma itemdata_loop_newlines:
  "itemdata_loop reg (replicate n NEWLINE @ ts) doc = itemdata_loop reg ts doc"
  by (induction n) auto

lemma expect_brace_open_newlines:
  "expect_brace_open (replicate n NEWLINE @ BRACE_OPEN # ts) = Inr ts"
  by (induction n) auto

lemma two_items:
  assumes d: "casefold d = ''itemdata''" and i1: "casefold i1 = ''item''" and i2: "casefold i2 = ''item''"
    and a: "parse_one reg A [] = Inr (replicate m NEWLINE @ STRING i2 # B, a, la)"
    and b: "parse_one reg B la = Inr (replicate n NEWLINE @ BRACE_CLOSE # rest, b, lb)"
    and same: "item_id a = item_id b"
  shows "Item_parse reg (STRING d # replicate p NEWLINE @ BRACE_OPEN # replicate q NEWLINE @ STRING i1 # A)
    = Inr \<lparr> items = [(item_id b, b)], icons = [],
            warnings = lb @ [Warning ''Item {} redeclared!'' [item_id b]] \<rparr>"
proof -
  let ?d0 = "\<lparr> items = [], icons = [], warnings = [] \<rparr>"
  let ?d1 = "\<lparr> items = [(item_id a, a)], icons = [], warnings = la \<rparr>"
  have s1: "itemdata_key reg i1 A ?d0 = Inr (replicate m NEWLINE @ STRING i2 # B, ?d1)"
    using first_step [OF i1, of reg A ?d0 "replicate m NEWLINE @ STRING i2 # B" a la] a by simp
  have s2: "itemdata_key reg i2 B ?d1
      = Inr (replicate n NEWLINE @ BRACE_CLOSE # rest, \<lparr> items = [(item_id b, b)], icons = [],
            warnings = lb @ [Warning ''Item {} redeclared!'' [item_id b]] \<rparr>)"
    using redeclared_step [OF i2, of reg B ?d1 "replicate n NEWLINE @ BRACE_CLOSE # rest" b lb a] b same
    by simp
  show ?thesis
    by (simp add: Item_parse_def d expect_brace_open_newlines itemdata_loop_newlines s1 s2)
qed

text \<open>
  Claim C8. When two items of a file have the same \<^verbatim>\<open>Type\<close>, \<^verbatim>\<open>Item.parse\<close> returns
  normally: the second item replaces the first under their id, and the warning that the
  item is redeclared is logged.
\<close>

theorem duplicate_type_overwrites:
  "(\<forall>reg k ts ts' it lg doc old.
      casefold k = ''item'' \<and> parse_one reg ts (warnings doc) = Inr (ts', it, lg)
        \<and> map_of (items doc) (item_id it) = Some old
      \<longrightarrow> itemdata_key reg k ts doc
            = Inr (ts', doc\<lparr>items := AList.update (item_id it) it (items doc),
                            warnings := lg @ [Warning ''Item {} redeclared!'' [item_id it]]\<rparr>)
          \<and> map_of (AList.update (item_id it) it (items doc)) (item_id it) = Some it
          \<and> map fst (AList.update (item_id it) it (items doc)) = map fst (items doc))
   \<and> (\<forall>reg d i1 i2 A B rest a b la lb m n p q.
        casefold d = ''itemdata'' \<and> casefold i1 = ''item'' \<and> casefold i2 = ''item''
          \<and> parse_one reg A [] = Inr (replicate m NEWLINE @ STRING i2 # B, a, la)
          \<and> parse_one reg B la = Inr (replicate n NEWLINE @ BRACE_CLOSE # rest, b, lb)
          \<and> item_id a = item_id b
        \<longrightarrow> Item_parse reg
              (STRING d # replicate p NEWLINE @ BRACE_OPEN # replicate q NEWLINE @ STRING i1 # A)
            = Inr \<lparr> items = [(item_id b, b)], icons = [],
                    warnings = lb @ [Warning ''Item {} redeclared!'' [item_id b]] \<rparr>)"
proof (intro conjI allI impI)
  fix reg d i1 i2 A B rest a b la lb m n p q
  assume h: "casefold d = ''itemdata'' \<and> casefold i1 = ''item'' \<and> casefold i2 = ''item''
          \<and> parse_one reg A [] = Inr (replicate m NEWLINE @ STRING i2 # B, a, la)
          \<and> parse_one reg B la = Inr (replicate n NEWLINE @ BRACE_CLOSE # rest, b, lb)
          \<and> item_id a = item_id b"
  from h have h1: "casefold d = ''itemdata''" and h2: "casefold i1 = ''item''"
    and h3: "casefold i2 = ''item''"
    and h4: "parse_one reg A [] = Inr (replicate m NEWLINE @ STRING i2 # B, a, la)"
    and h5: "parse_one reg B la = Inr (replicate n NEWLINE @ BRACE_CLOSE # rest, b, lb)"
    and h6: "item_id a = item_id b"
    by simp_all
  show "Item_parse reg
              (STRING d # replicate p NEWLINE @ BRACE_OPEN # replicate q NEWLINE @ STRING i1 # A)
            = Inr \<lparr> items = [(item_id b, b)], icons = [],
                    warnings = lb @ [Warning ''Item {} redeclared!'' [item_id b]] \<rparr>"
    by (rule two_items [OF h1 h2 h3 h4 h5 h6])
qed (simp_all add: redeclared_step map_of_update_same keys_update_existing)

lemma parse_one_observed:
  assumes "(case parse_one reg ts lg of
              Inl e \<Rightarrow> False
            | Inr (ts', it, lg') \<Rightarrow> ts' = r \<and> lg' = l \<and> item_id it = i \<and> targetname it = t)"
  shows "\<exists>it. parse_one reg ts lg = Inr (r, it, l) \<and> item_id it = i \<and> targetname it = t"
  using assms by (auto split: sum.splits)

theorem duplicate_type_overwrites_witness:
  "\<exists>a b. parse_one empty_registry first_item []
           = Inr (replicate 1 NEWLINE @ STRING ''Item'' # second_item, a, [])
     \<and> parse_one empty_registry second_item []
           = Inr (replicate 1 NEWLINE @ BRACE_CLOSE # [NEWLINE], b, [])
     \<and> item_id a = item_id b \<and> targetname a = ''first'' \<and> targetname b = ''second''
     \<and> Item_parse empty_registry duplicate_file
         = Inr \<lparr> items = [(''ITEM_A'', b)], icons = [],
                 warnings = [Warning ''Item {} redeclared!'' [''ITEM_A'']] \<rparr>"
proof -
  have "case parse_one empty_registry first_item [] of
          Inl e \<Rightarrow> False
        | Inr (ts', it, lg') \<Rightarrow> ts' = replicate 1 NEWLINE @ STRING ''Item'' # second_item \<and> lg' = []
            \<and> item_id it = ''ITEM_A'' \<and> targetname it = ''first''"
    by code_simp
  from parse_one_observed [OF this] obtain a where
    a: "parse_one empty_registry first_item []
          = Inr (replicate 1 NEWLINE @ STRING ''Item'' # second_item, a, [])"
    and ia: "item_id a = ''ITEM_A''" and ta: "targetname a = ''first''" by blast
  have "case parse_one empty_registry second_item [] of
          Inl e \<Rightarrow> False
        | Inr (ts', it, lg') \<Rightarrow> ts' = replicate 1 NEWLINE @ BRACE_CLOSE # [NEWLINE] \<and> lg' = []
            \<and> item_id it = ''ITEM_A'' \<and> targetname it = ''second''"
    by code_simp
  from parse_one_observed [OF this] obtain b where
    b: "parse_one empty_registry second_item []
          = Inr (replicate 1 NEWLINE @ BRACE_CLOSE # [NEWLINE], b, [])"
    and ib: "item_id b = ''ITEM_A''" and tb: "targetname b = ''second''" by blast
  have c: "casefold ''ItemData'' = ''itemdata''" "casefold ''Item'' = ''item''" by code_simp+
  have h: "casefold ''ItemData'' = ''itemdata'' \<and> casefold ''Item'' = ''item'' \<and> casefold ''Item'' = ''item''
          \<and> parse_one empty_registry first_item [] = Inr (replicate 1 NEWLINE @ STRING ''Item'' # second_item, a, [])
          \<and> parse_one empty_registry second_item [] = Inr (replicate 1 NEWLINE @ BRACE_CLOSE # [NEWLINE], b, [])
          \<and> item_id a = item_id b"
    using a b c ia ib by simp
  have "Item_parse empty_registry
          (STRING ''ItemData'' # replicate 1 NEWLINE @ BRACE_OPEN # replicate 1 NEWLINE @ STRING ''Item'' # first_item)
        = Inr \<lparr> items = [(item_id b, b)], icons = [],
                warnings = [] @ [Warning ''Item {} redeclared!'' [item_id b]] \<rparr>"
    by (rule duplicate_type_overwrites [THEN conjunct2, rule_format, OF h])
  then have "Item_parse empty_registry duplicate_file
         = Inr \<lparr> items = [(''ITEM_A'', b)], icons = [],
                 warnings = [Warning ''Item {} redeclared!'' [''ITEM_A'']] \<rparr>"
    by (simp add: duplicate_file_def ib)
  with a b ia ib ta tb show ?thesis by auto
qed

subsection \<open>The anchoring flags\<close>


lemma BOOL_ATTRS_targets:
  "map_of BOOL_ATTRS k = Some attr \<Longrightarrow>
     attr \<in> {''anchor_barriers'', ''occupies_voxel'', ''copiable'', ''deletable'', ''pseudo_handle''}"
  by (auto simp: BOOL_ATTRS_def split: if_splits)

lemma setattr_goo: "attr \<noteq> ''anchor_goo'' \<Longrightarrow> anchor_goo (setattr item attr v) = anchor_goo item"
  by (simp add: setattr_def)

lemma editor_key_goo:
  assumes "editor_key reg k ts item = Inr (ts', item')"
  shows "anchor_goo item' = anchor_goo item"
proof (cases "map_of BOOL_ATTRS (casefold k)")
  case None
  with assms show ?thesis
    by (auto simp: editor_key_def Let_def and_then_Inr_iff split: if_splits option.splits)
next
  case (Some attr)
  then have "attr \<noteq> ''anchor_goo''" using BOOL_ATTRS_targets [OF Some] by auto
  with assms Some show ?thesis
    by (auto simp: editor_key_def Let_def and_then_Inr_iff setattr_goo
        split: if_splits option.splits)
qed

lemma editor_loop_goo:
  "editor_loop reg ts item = Inr (ts', item') \<Longrightarrow> anchor_goo item' = anchor_goo item"
  by (induction reg ts item rule: editor_loop.induct)
     (force split: sum.splits dest: editor_key_goo)+

lemma property_key_goo:
  assumes "property_key reg k ts item = Inr (ts', item')"
  shows "anchor_goo item' = anchor_goo item"
proof -
  from assms obtain ptype where p: "PROP_TYPES reg (casefold k) = Some ptype"
    by (auto simp: property_key_def split: option.splits)
  from assms p obtain ts1 where b: "expect_brace_open ts = Inr ts1"
    by (auto simp: property_key_def and_then_Inr_iff)
  from assms p b obtain ts2 st where l: "prop_option_loop k ts1 ('''', 0, True) = Inr (ts2, st)"
    by (auto simp: property_key_def and_then_Inr_iff)
  obtain d i u where st: "st = (d, i, u)" by (cases st)
  from assms p b l show ?thesis
    by (auto simp: property_key_def st split: if_splits)
qed

lemma properties_loop_goo:
  "properties_loop reg ts item = Inr (ts', item') \<Longrightarrow> anchor_goo item' = anchor_goo item"
  by (induction reg ts item rule: properties_loop.induct)
     (force split: sum.splits dest: property_key_goo)+


lemma parse_instance_block_goo:
  assumes "parse_instance_block nm ts item lg = Inr (ts', item', lg')"
  shows "anchor_goo item' = anchor_goo item"
proof -
  from assms obtain ts1 v where v: "instance_value ts = Inr (ts1, v)"
    by (auto simp: parse_instance_block_def Let_def and_then_Inr_iff)
  show ?thesis
  proof (cases "py_int nm")
    case None
    from assms named_slot [OF None v, of item lg] show ?thesis by auto
  next
    case (Some i)
    show ?thesis
    proof (cases "0 \<le> i")
      case True
      from assms numeric_slot [OF Some True v, of item lg] show ?thesis by auto
    next
      case False
      then have "i < 0" by simp
      from assms negative_slot [OF Some this v, of item lg] show ?thesis
        by (auto split: if_splits)
    qed
  qed
qed

lemma instances_loop_goo:
  "instances_loop ts item lg = Inr (ts', item', lg') \<Longrightarrow> anchor_goo item' = anchor_goo item"
  by (induction ts item lg rule: instances_loop.induct)
     (force split: sum.splits dest: parse_instance_block_goo)+

lemma connection_point_key_goo:
  assumes "connection_point_key k ts item = Inr (ts', item')"
  shows "anchor_goo item' = anchor_goo item"
proof -
  from assms obtain ts1 where b: "expect_brace_open ts = Inr ts1"
    by (auto simp: connection_point_key_def and_then_Inr_iff split: if_splits)
  from assms b obtain ts2 st where l: "point_loop ts1 (None, None, None, None, 0) = Inr (ts2, st)"
    by (auto simp: connection_point_key_def and_then_Inr_iff split: if_splits)
  obtain d p s g pr where st: "st = (d, p, s, g, pr)" by (cases st)
  from assms b l show ?thesis
    by (auto simp: connection_point_key_def st split: if_splits option.splits)
qed

lemma connection_points_loop_goo:
  "connection_points_loop ts item = Inr (ts', item') \<Longrightarrow> anchor_goo item' = anchor_goo item"
  by (induction ts item rule: connection_points_loop.induct)
     (force split: sum.splits dest: connection_point_key_goo)+

lemma voxel_key_goo:
  "voxel_key k ts item = Inr (ts', item') \<Longrightarrow> anchor_goo item' = anchor_goo item"
  by (auto simp: voxel_key_def and_then_Inr_iff split: if_splits)

lemma voxel_loop_goo:
  "voxel_loop ts item = Inr (ts', item') \<Longrightarrow> anchor_goo item' = anchor_goo item"
  by (induction ts item rule: voxel_loop.induct)
     (force split: sum.splits dest: voxel_key_goo)+

lemma embedded_voxel_key_goo:
  assumes "embedded_voxel_key k ts item = Inr (ts', item')"
  shows "anchor_goo item' = anchor_goo item"
proof (cases "casefold k = ''volume''")
  case True
  from assms True obtain ts1 where b: "expect_brace_open ts = Inr ts1"
    by (auto simp: embedded_voxel_key_def and_then_Inr_iff)
  from assms True b obtain ts2 st where l: "volume_loop ts1 (None, None) = Inr (ts2, st)"
    by (auto simp: embedded_voxel_key_def and_then_Inr_iff)
  obtain p1 p2 where st: "st = (p1, p2)" by (cases st)
  from assms True b l show ?thesis
    by (auto simp: embedded_voxel_key_def st split: option.splits)
next
  case False
  with assms show ?thesis
    by (auto simp: embedded_voxel_key_def and_then_Inr_iff split: if_splits
        dest: voxel_loop_goo)
qed

lemma embedded_voxels_loop_goo:
  "embedded_voxels_loop ts item = Inr (ts', item') \<Longrightarrow> anchor_goo item' = anchor_goo item"
  by (induction ts item rule: embedded_voxels_loop.induct)
     (force split: sum.splits dest: embedded_voxel_key_goo)+

lemma embed_face_key_goo:
  assumes "embed_face_key k ts item = Inr (ts', item')"
  shows "anchor_goo item' = anchor_goo item"
proof -
  from assms obtain ts1 where b: "expect_brace_open ts = Inr ts1"
    by (auto simp: embed_face_key_def and_then_Inr_iff split: if_splits)
  from assms b obtain ts2 st where l: "solid_loop ts1 (None, None, NORMAL) = Inr (ts2, st)"
    by (auto simp: embed_face_key_def and_then_Inr_iff split: if_splits)
  obtain c s g where st: "st = (c, s, g)" by (cases st)
  from assms b l show ?thesis
    by (auto simp: embed_face_key_def st split: if_splits option.splits)
qed

lemma embed_faces_loop_goo:
  "embed_faces_loop ts item = Inr (ts', item') \<Longrightarrow> anchor_goo item' = anchor_goo item"
  by (induction ts item rule: embed_faces_loop.induct)
     (force split: sum.splits dest: embed_face_key_goo)+

lemma parse_overlay_goo:
  assumes "parse_overlay ts item = Inr (ts', item')"
  shows "anchor_goo item' = anchor_goo item"
proof -
  from assms obtain ts1 where b: "expect_brace_open ts = Inr ts1"
    by (auto simp: parse_overlay_def and_then_Inr_iff)
  from assms b obtain ts2 st where l: "overlay_loop ts1 (None, None, '''', 0) = Inr (ts2, st)"
    by (auto simp: parse_overlay_def and_then_Inr_iff)
  obtain c s m r where st: "st = (c, s, m, r)" by (cases st)
  from assms b l show ?thesis
    by (auto simp: parse_overlay_def st split: option.splits)
qed

lemma export_key_goo:
  "export_key k ts item lg = Inr (ts', item', lg') \<Longrightarrow> anchor_goo item' = anchor_goo item"
  by (auto simp: export_key_def Let_def and_then_Inr_iff parse_connection_points_def
        parse_embedded_voxels_def parse_embed_faces_def
      split: if_splits
      dest: instances_loop_goo connection_points_loop_goo embedded_voxels_loop_goo
        embed_faces_loop_goo parse_overlay_goo)

lemma export_loop_goo:
  "export_loop ts item lg = Inr (ts', item', lg') \<Longrightarrow> anchor_goo item' = anchor_goo item"
  by (induction ts item lg rule: export_loop.induct)
     (force split: sum.splits dest: export_key_goo)+

lemma item_key_goo:
  "item_key reg k ts item lg = Inr (ts', item', lg') \<Longrightarrow> anchor_goo item' = anchor_goo item"
  by (auto simp: item_key_def Let_def and_then_Inr_iff parse_editor_block_def
        parse_properties_block_def parse_export_block_def
      split: if_splits option.splits
      dest: editor_loop_goo properties_loop_goo export_loop_goo)

lemma item_loop_goo:
  "item_loop reg ts item lg = Inr (ts', item', lg') \<Longrightarrow> anchor_goo item' = anchor_goo item"
  by (induction reg ts item lg rule: item_loop.induct)
     (force split: sum.splits if_splits dest: item_key_goo)+

lemma parse_one_goo: "parse_one reg ts lg = Inr (ts', item, lg') \<Longrightarrow> \<not> anchor_goo item"
  by (auto simp: parse_one_def and_then_Inr_iff new_Item_def dest!: item_loop_goo)

lemma itemdata_key_goo:
  assumes "itemdata_key reg k ts doc = Inr (ts', doc')" "\<forall>(i, it)\<in>set (items doc). \<not> anchor_goo it"
  shows "\<forall>(i, it)\<in>set (items doc'). \<not> anchor_goo it"
proof (cases "casefold k = ''item''")
  case True
  with assms(1) obtain ts1 it lg where p: "parse_one reg ts (warnings doc) = Inr (ts1, it, lg)"
    and d: "items doc' = AList.update (item_id it) it (items doc)"
    by (auto simp: itemdata_key_def and_then_Inr_iff Let_def)
  have "set (AList.update k v al) \<subseteq> insert (k, v) (set al)" for k v and al :: "(string \<times> Item) list"
    by (induction al) auto
  then have "set (AList.update (item_id it) it (items doc)) \<subseteq> insert (item_id it, it) (set (items doc))" .
  with parse_one_goo [OF p] assms(2) d show ?thesis by auto
next
  case False
  with assms show ?thesis
    by (auto simp: itemdata_key_def and_then_Inr_iff split: if_splits)
qed

lemma itemdata_loop_goo:
  "itemdata_loop reg ts doc = Inr (ts', doc') \<Longrightarrow> \<forall>(i, it)\<in>set (items doc). \<not> anchor_goo it
    \<Longrightarrow> \<forall>(i, it)\<in>set (items doc'). \<not> anchor_goo it"
proof (induction reg ts doc rule: itemdata_loop.induct)
  case (5 reg k ts doc)
  from "5.prems"(1) obtain ts1 doc1 where k: "itemdata_key reg k ts doc = Inr (ts1, doc1)"
    and l: "itemdata_loop reg ts1 doc1 = Inr (ts', doc')"
    by (auto split: sum.splits)
  from "5.IH" [OF k refl l itemdata_key_goo [OF k "5.prems"(2)]] show ?case .
qed auto

lemma Item_parse_goo:
  assumes "Item_parse reg ts = Inr doc" "map_of (items doc) i = Some it"
  shows "\<not> anchor_goo it"
proof -
  from assms(1) obtain ts1 ts2 where
    l: "itemdata_loop reg ts1 \<lparr> items = [], icons = [], warnings = [] \<rparr> = Inr (ts2, doc)"
    by (auto simp: Item_parse_def and_then_Inr_iff split: if_splits)
  from itemdata_loop_goo [OF l] have "\<forall>(i, it)\<in>set (items doc). \<not> anchor_goo it" by simp
  with map_of_SomeD [OF assms(2)] show ?thesis by auto
qed

lemma goo_key_step:
  assumes "casefold k = ''cananchorongoo''" "expect_string ts0 = Inr (v, ts)"
  shows "editor_key reg k ts0 item = Inr (ts, item\<lparr>anchor_barriers := conv_bool v False\<rparr>)"
  using assms by (simp add: editor_key_def Let_def BOOL_ATTRS_def setattr_def)

lemma parsed_item_SomeD:
  "parsed_item r i = Some it \<Longrightarrow> \<exists>doc. r = Inr doc \<and> map_of (items doc) i = Some it"
  by (cases r) (simp_all add: parsed_item_def)

text \<open>
  Claim C4. In \<^verbatim>\<open>_BOOL_ATTRS\<close> the keys \<^verbatim>\<open>cananchoronbarriers\<close> and
  \<^verbatim>\<open>cananchorongoo\<close> both name the attribute \<^verbatim>\<open>anchor_barriers\<close>; a
  \<^verbatim>\<open>CanAnchorOnGoo\<close> key in the editor block therefore sets \<open>anchor_barriers\<close>, and no
  step of the parse changes \<open>anchor_goo\<close>: the loop over the keys of an item leaves it as
  it was, and in every item that \<^verbatim>\<open>parse_one\<close> or \<^verbatim>\<open>Item.parse\<close> returns it has the
  value \<open>False\<close> that the constructor gave it.
\<close>

theorem goo_key_sets_anchor_barriers:
  "map_of BOOL_ATTRS ''cananchoronbarriers'' = Some ''anchor_barriers''
   \<and> map_of BOOL_ATTRS ''cananchorongoo'' = Some ''anchor_barriers''
   \<and> (\<forall>reg k ts0 v ts (item::Item).
        casefold k = ''cananchorongoo'' \<and> expect_string ts0 = Inr (v, ts)
        \<longrightarrow> editor_key reg k ts0 item = Inr (ts, item\<lparr>anchor_barriers := conv_bool v False\<rparr>))
   \<and> (\<forall>reg ts (item::Item) lg ts' item' lg'.
        item_loop reg ts item lg = Inr (ts', item', lg') \<longrightarrow> anchor_goo item' = anchor_goo item)
   \<and> (\<forall>reg ts lg ts' item lg'.
        parse_one reg ts lg = Inr (ts', item, lg') \<longrightarrow> \<not> anchor_goo item)
   \<and> (\<forall>reg ts doc i it.
        Item_parse reg ts = Inr doc \<and> map_of (items doc) i = Some it \<longrightarrow> \<not> anchor_goo it)"
proof (intro conjI allI impI)
  show "map_of BOOL_ATTRS ''cananchoronbarriers'' = Some ''anchor_barriers''"
    by (simp add: BOOL_ATTRS_def)
  show "map_of BOOL_ATTRS ''cananchorongoo'' = Some ''anchor_barriers''"
    by (simp add: BOOL_ATTRS_def)
next
  fix reg k ts0 v ts and item :: Item
  assume "casefold k = ''cananchorongoo'' \<and> expect_string ts0 = Inr (v, ts)"
  then show "editor_key reg k ts0 item = Inr (ts, item\<lparr>anchor_barriers := conv_bool v False\<rparr>)"
    by (simp add: goo_key_step)
next
  fix reg ts lg ts' item' lg' and item :: Item
  assume "item_loop reg ts item lg = Inr (ts', item', lg')"
  then show "anchor_goo item' = anchor_goo item" by (rule item_loop_goo)
next
  fix reg ts lg ts' item lg'
  assume "parse_one reg ts lg = Inr (ts', item, lg')"
  then show "\<not> anchor_goo item" by (rule parse_one_goo)
next
  fix reg ts doc i it
  assume "Item_parse reg ts = Inr doc \<and> map_of (items doc) i = Some it"
  then show "\<not> anchor_goo it" by (blast dest: Item_parse_goo)
qed

theorem goo_key_sets_anchor_barriers_witness:
  "\<exists>doc it. Item_parse empty_registry goo_file = Inr doc
     \<and> map_of (items doc) ''ITEM_TEST'' = Some it
     \<and> anchor_barriers it \<and> \<not> anchor_goo it"
proof -
  have "map_option anchor_barriers (parsed_item (Item_parse empty_registry goo_file) ''ITEM_TEST'')
      = Some True"
    by code_simp
  then obtain it where i: "parsed_item (Item_parse empty_registry goo_file) ''ITEM_TEST'' = Some it"
    and b: "anchor_barriers it" by auto
  from parsed_item_SomeD [OF i] obtain doc where
    d: "Item_parse empty_registry goo_file = Inr doc \<and> map_of (items doc) ''ITEM_TEST'' = Some it"
    by blast
  have "\<not> anchor_goo it"
    by (rule goo_key_sets_anchor_barriers [THEN conjunct2, THEN conjunct2, THEN conjunct2,
          THEN conjunct2, THEN conjunct2, rule_format, OF d])
  with d b show ?thesis by blast
qed

subsection \<open>Writing and reading back\<close>

text \<open>
  Claim C1 asks that an item written by \<^verbatim>\<open>export_one\<close> is read back equal. Two items
  show that the code does not do so. For an item whose subtype has an animation the
  writer puts the animations under the key \<^verbatim>\<open>"Sounds"\<close>, and the reader rejects the
  text: the item is one the reader itself builds, from a subtype with a \<^verbatim>\<open>Name\<close>, a
  \<^verbatim>\<open>Model\<close> and an \<^verbatim>\<open>Animations\<close> block. For an item that may anchor on goo the text
  is read, but into \<open>anchor_barriers\<close>, and the item read back may not anchor on goo.
  An item with neither is written and read back with the same subtypes, the model's
  suffix \<^verbatim>\<open>.mdl\<close> restored.
\<close>

theorem written_item_is_not_read_back:
  "raised (reparse plain_env empty_registry animated_item)
     = Some (TokError ''Unknown sound type \"{}\"!'' [''ANIM_IDLE''])
   \<and> (case SubType_parse [BRACE_OPEN, STRING ''Name'', STRING ''Cube'', NEWLINE,
          STRING ''Model'', BRACE_OPEN, STRING ''ModelName'', STRING ''cube.3ds'', BRACE_CLOSE,
          NEWLINE, STRING ''Animations'', BRACE_OPEN, STRING ''ANIM_IDLE'', STRING ''0'',
          BRACE_CLOSE, BRACE_CLOSE] of
        Inl e \<Rightarrow> False
      | Inr (ts, st) \<Rightarrow> ts = [] \<and> [st] = subtypes animated_item)
   \<and> anchor_goo goo_item \<and> \<not> anchor_barriers goo_item
   \<and> map_option anchor_goo (parsed_item (reparse plain_env empty_registry goo_item) ''ITEM_TEST'')
       = Some False
   \<and> map_option anchor_barriers (parsed_item (reparse plain_env empty_registry goo_item) ''ITEM_TEST'')
       = Some True
   \<and> raised (reparse plain_env empty_registry plain_item) = None
   \<and> map_option subtypes (parsed_item (reparse plain_env empty_registry plain_item) ''ITEM_TEST'')
       = Some (subtypes plain_item)"
  by code_simp

end
